(* ===== verification/Prelude.thy ===== *)
theory Prelude
  imports Main
begin

text \<open>
  Shared vocabulary of the qxgo development. Go strings are byte sequences; they are
  modelled as \<open>string\<close> (a list of 8-bit \<open>char\<close>s), so that every index the Go code
  computes (regexp match offsets, \<open>filepath.Ext\<close>, \<open>strings.TrimSuffix\<close>) is a byte index
  here too. This theory models the few functions of Go's standard library that the
  repository calls on strings and paths (\<open>strings.Split\<close>, \<open>strings.Join\<close>,
  \<open>strings.TrimPrefix\<close>, \<open>strings.TrimSuffix\<close>, \<open>strings.TrimSpace\<close>,
  \<open>filepath.Ext\<close>, \<open>filepath.Base\<close>, \<open>fmt\<close>'s \<open>%d\<close>) and the lemmas about them that
  the component theories share.
\<close>

named_theorems go_simps "characteristic equations of the Go library models"

type_synonym path = string

text \<open>The file system: an absolute path names the bytes of a file.\<close>

type_synonym fs = "path \<rightharpoonup> string"

abbreviation nl :: char where "nl \<equiv> CHR 0x0A"

abbreviation slash :: char where "slash \<equiv> CHR ''/''"

abbreviation dot :: char where "dot \<equiv> CHR ''.''"

section \<open>strings\<close>

definition has_prefix :: "string \<Rightarrow> string \<Rightarrow> bool" where
  "has_prefix s p \<longleftrightarrow> take (length p) s = p"

definition has_suffix :: "string \<Rightarrow> string \<Rightarrow> bool" where
  "has_suffix s x \<longleftrightarrow> length x \<le> length s \<and> drop (length s - length x) s = x"

text \<open>\<open>strings.TrimPrefix(s, p)\<close> and \<open>strings.TrimSuffix(s, x)\<close>.\<close>

definition trim_prefix :: "string \<Rightarrow> string \<Rightarrow> string" where
  "trim_prefix s p = (if has_prefix s p then drop (length p) s else s)"

definition trim_suffix :: "string \<Rightarrow> string \<Rightarrow> string" where
  "trim_suffix s x = (if has_suffix s x then take (length s - length x) s else s)"

text \<open>
  \<open>strings.Split(s, sep)\<close> for a one-byte separator: the pieces between separators, one
  more than there are separators; \<open>Split("", sep)\<close> is \<open>[""]\<close>.
\<close>

fun split_on :: "char \<Rightarrow> string \<Rightarrow> string list" where
  "split_on c [] = [[]]"
| "split_on c (x # xs) =
     (let r = split_on c xs in if x = c then [] # r else (x # hd r) # tl r)"

text \<open>\<open>strings.Join(parts, sep)\<close>.\<close>

fun join :: "string list \<Rightarrow> string \<Rightarrow> string" where
  "join [] sep = []"
| "join [x] sep = x"
| "join (x # y # xs) sep = x @ sep @ join (y # xs) sep"

text \<open>
  \<open>strings.TrimSpace\<close>. The white space of \<open>unicode.IsSpace\<close> as the UTF-8 bytes of its
  runes: the ASCII set \<open>asciiSpace\<close> (\<open>is_space\<close>), U+0085, U+00A0, U+1680,
  U+2000 to U+200A, U+2028, U+2029, U+202F, U+205F and U+3000. The encodings are
  self-delimiting, so \<open>TrimLeftFunc(s, unicode.IsSpace)\<close>, which decodes runes from the
  front with \<open>utf8.DecodeRuneInString\<close>, strips exactly the leading byte sequences of
  \<open>space_runes\<close> (an invalid byte decodes to \<open>RuneError\<close>, not a space), and
  \<open>TrimRightFunc\<close>, which decodes from the end with \<open>utf8.DecodeLastRuneInString\<close>, strips
  exactly the trailing ones: \<open>trim_left_func\<close> and \<open>trim_right_func\<close> (the latter on the
  reversed string, \<open>trim_rev\<close>), and \<open>trim_func\<close> is \<open>TrimFunc\<close>.
  \<open>trim_space\<close> is \<open>TrimSpace\<close> as Go writes it: the ASCII fast path from the front
  (\<open>ascii_start\<close>: \<open>Inl\<close> where it meets a non-ASCII byte and falls back to
  \<open>TrimFunc\<close>), then from the back (falling back to \<open>TrimRightFunc\<close>).
\<close>

definition is_space :: "char \<Rightarrow> bool" where
  "is_space c \<longleftrightarrow> c \<in> {CHR 0x09, CHR 0x0A, CHR 0x0B, CHR 0x0C, CHR 0x0D, CHR 0x20}"

definition space_runes :: "string list" where
  "space_runes =
     [[CHR 0x09], [CHR 0x0A], [CHR 0x0B], [CHR 0x0C], [CHR 0x0D], [CHR 0x20],
      [CHR 0xC2, CHR 0x85], [CHR 0xC2, CHR 0xA0], [CHR 0xE1, CHR 0x9A, CHR 0x80],
      [CHR 0xE2, CHR 0x80, CHR 0x80], [CHR 0xE2, CHR 0x80, CHR 0x81], [CHR 0xE2, CHR 0x80, CHR 0x82],
      [CHR 0xE2, CHR 0x80, CHR 0x83], [CHR 0xE2, CHR 0x80, CHR 0x84], [CHR 0xE2, CHR 0x80, CHR 0x85],
      [CHR 0xE2, CHR 0x80, CHR 0x86], [CHR 0xE2, CHR 0x80, CHR 0x87], [CHR 0xE2, CHR 0x80, CHR 0x88],
      [CHR 0xE2, CHR 0x80, CHR 0x89], [CHR 0xE2, CHR 0x80, CHR 0x8A],
      [CHR 0xE2, CHR 0x80, CHR 0xA8], [CHR 0xE2, CHR 0x80, CHR 0xA9], [CHR 0xE2, CHR 0x80, CHR 0xAF],
      [CHR 0xE2, CHR 0x81, CHR 0x9F], [CHR 0xE3, CHR 0x80, CHR 0x80]]"

definition space_prefix :: "string \<Rightarrow> nat" where
  "space_prefix s = (case find (has_prefix s) space_runes of None \<Rightarrow> 0 | Some e \<Rightarrow> length e)"

definition space_suffix :: "string \<Rightarrow> nat" where
  "space_suffix s = (case find (has_suffix s) space_runes of None \<Rightarrow> 0 | Some e \<Rightarrow> length e)"

fun trim_left_func :: "string \<Rightarrow> string" where
  "trim_left_func [] = []"
| "trim_left_func (c # cs) =
     (if space_prefix (c # cs) = 0 then c # cs else trim_left_func (drop (space_prefix (c # cs) - 1) cs))"

fun trim_rev :: "string \<Rightarrow> string" where
  "trim_rev [] = []"
| "trim_rev (c # cs) =
     (if space_suffix (rev (c # cs)) = 0 then c # cs else trim_rev (drop (space_suffix (rev (c # cs)) - 1) cs))"

definition trim_right_func :: "string \<Rightarrow> string" where
  "trim_right_func s = rev (trim_rev (rev s))"

definition trim_func :: "string \<Rightarrow> string" where
  "trim_func s = trim_right_func (trim_left_func s)"

fun ascii_start :: "string \<Rightarrow> string + string" where
  "ascii_start [] = Inr []"
| "ascii_start (c # cs) =
     (if (128::nat) \<le> of_char c then Inl (c # cs) else if is_space c then ascii_start cs else Inr (c # cs))"

definition trim_space :: "string \<Rightarrow> string" where
  "trim_space s =
     (case ascii_start s of
        Inl rest \<Rightarrow> trim_func rest
      | Inr rest \<Rightarrow>
          (case ascii_start (rev rest) of
             Inl r \<Rightarrow> trim_right_func (rev r)
           | Inr r \<Rightarrow> rev r))"

text \<open>\<open>fmt\<close>'s \<open>%d\<close>: decimal digits, a minus sign for negative values.\<close>

fun dec_nat :: "nat \<Rightarrow> string" where
  "dec_nat n = (if n < 10 then [char_of (48 + n)] else dec_nat (n div 10) @ [char_of (48 + n mod 10)])"

declare dec_nat.simps [simp del]

definition dec_int :: "int \<Rightarrow> string" where
  "dec_int i = (if i < 0 then CHR ''-'' # dec_nat (nat (- i)) else dec_nat (nat i))"

section \<open>path/filepath\<close>

text \<open>
  \<open>filepath.Ext\<close> scans from the end of the path towards the last separator and returns
  the suffix that starts at the last dot, or \<open>""\<close>. \<open>ext_scan\<close> is that loop over the
  reversed path, with the bytes passed so far in \<open>acc\<close>.
\<close>

fun ext_scan :: "string \<Rightarrow> string \<Rightarrow> string" where
  "ext_scan [] acc = []"
| "ext_scan (c # cs) acc =
     (if c = slash then [] else if c = dot then c # acc else ext_scan cs (c # acc))"

definition go_ext :: "path \<Rightarrow> string" where
  "go_ext p = ext_scan (rev p) []"

text \<open>
  \<open>filepath.Base\<close>: \<open>"."\<close> for the empty path; trailing separators dropped; the part after
  the last separator; \<open>"/"\<close> if nothing is left.
\<close>

definition go_base :: "path \<Rightarrow> string" where
  "go_base p =
     (if p = [] then ''.''
      else let q = rev (dropWhile (\<lambda>c. c = slash) (rev p));
               b = rev (takeWhile (\<lambda>c. c \<noteq> slash) (rev q))
           in if b = [] then ''/'' else b)"

text \<open>\<open>os.CreateTemp\<close>'s \<open>joinPath(dir, name)\<close>.\<close>

definition join_path :: "path \<Rightarrow> string \<Rightarrow> path" where
  "join_path dir name =
     (if dir \<noteq> [] \<and> last dir = slash then dir @ name else dir @ slash # name)"

section \<open>Lemmas shared by the components\<close>

lemma split_on_nonempty [simp]: "split_on c s \<noteq> []"
  by (induction s) (auto simp: Let_def)

lemma split_on_Cons_eq:
  "split_on c (x # xs) = (if x = c then [] # split_on c xs
     else (x # hd (split_on c xs)) # tl (split_on c xs))"
  by (simp add: Let_def)

declare split_on.simps(2) [simp del]

lemmas split_on_simps [go_simps] = split_on.simps(1) split_on_Cons_eq

text \<open>\<open>strings.Join(strings.Split(s, c), c) = s\<close>: splitting loses nothing.\<close>

lemma join_split_on: "join (split_on c s) [c] = s"
proof (induction s)
  case Nil
  then show ?case by simp
next
  case (Cons x xs)
  obtain l r where lr: "split_on c xs = l # r"
    by (cases "split_on c xs") auto
  with Cons.IH show ?case
    by (cases r) (auto simp: split_on_Cons_eq)
qed

lemma split_on_no_sep: "l \<in> set (split_on c s) \<Longrightarrow> c \<notin> set l"
proof (induction s arbitrary: l)
  case Nil
  then show ?case by simp
next
  case (Cons x xs)
  obtain h r where hr: "split_on c xs = h # r"
    by (cases "split_on c xs") auto
  from Cons.prems Cons.IH hr show ?case
    by (auto simp: split_on_Cons_eq split: if_splits)
qed

lemma split_on_no_sep_id: "c \<notin> set s \<Longrightarrow> split_on c s = [s]"
  by (induction s) (auto simp: split_on_Cons_eq)

lemma length_split_on: "length (split_on c s) = Suc (count_list s c)"
proof (induction s)
  case Nil
  then show ?case by simp
next
  case (Cons x xs)
  obtain h r where "split_on c xs = h # r"
    by (cases "split_on c xs") auto
  with Cons.IH show ?case by (auto simp: split_on_Cons_eq)
qed

lemma has_suffix_append [simp]: "has_suffix (s @ x) x"
  by (simp add: has_suffix_def)

lemma trim_suffix_append [simp]: "trim_suffix (s @ x) x = s"
  by (simp add: trim_suffix_def)

lemma trim_prefix_Cons [simp]: "trim_prefix (c # s) [c] = s"
  by (simp add: trim_prefix_def has_prefix_def)

lemma trim_prefix_Nil [simp]: "trim_prefix [] p = []"
  by (simp add: trim_prefix_def)

lemma has_prefix_iff: "has_prefix s p \<longleftrightarrow> (\<exists>t. s = p @ t)"
  by (metis append_eq_conv_conj append_take_drop_id has_prefix_def)

lemma has_suffix_iff: "has_suffix s x \<longleftrightarrow> (\<exists>t. s = t @ x)"
  by (metis add_diff_cancel_right' append_eq_conv_conj append_take_drop_id diff_le_self has_suffix_def
      length_append length_drop)

lemma has_prefix_append_right: "has_prefix p r \<Longrightarrow> has_prefix (p @ x) r"
  by (auto simp: has_prefix_iff)

lemma ext_scan_result:
  "ext_scan cs acc = [] \<or> (\<exists>pre. ext_scan cs acc = dot # rev pre @ acc \<and>
      dot \<notin> set pre \<and> slash \<notin> set pre \<and> (\<exists>rest. cs = pre @ dot # rest))"
proof (induction cs arbitrary: acc)
  case Nil
  then show ?case by simp
next
  case (Cons c cs)
  show ?case
  proof (cases "c = slash \<or> c = dot")
    case True
    then show ?thesis by auto
  next
    case False
    then have eq: "ext_scan (c # cs) acc = ext_scan cs (c # acc)" by simp
    from Cons.IH [of "c # acc"] show ?thesis
    proof
      assume "ext_scan cs (c # acc) = []"
      with eq show ?thesis by simp
    next
      assume "\<exists>pre. ext_scan cs (c # acc) = dot # rev pre @ c # acc \<and>
        dot \<notin> set pre \<and> slash \<notin> set pre \<and> (\<exists>rest. cs = pre @ dot # rest)"
      then obtain pre rest where "ext_scan cs (c # acc) = dot # rev pre @ c # acc"
        and "dot \<notin> set pre" and "slash \<notin> set pre" and "cs = pre @ dot # rest"
        by blast
      with False eq show ?thesis
        by (intro disjI2 exI [of _ "c # pre"]) auto
    qed
  qed
qed

text \<open>The extension is empty or starts with its dot and contains no other dot or separator.\<close>

lemma go_ext_shape:
  "go_ext p = [] \<or> (\<exists>r. go_ext p = dot # r \<and> dot \<notin> set r \<and> slash \<notin> set r)"
  using ext_scan_result [of "rev p" "[]"] by (auto simp: go_ext_def)

lemma ext_scan_no_mark:
  "dot \<notin> set r \<Longrightarrow> slash \<notin> set r \<Longrightarrow> ext_scan (r @ cs) acc = ext_scan cs (rev r @ acc)"
  by (induction r arbitrary: acc) auto

text \<open>A path that ends with a dot and a mark-free tail has that tail as its extension.\<close>

lemma go_ext_append:
  assumes "dot \<notin> set r" and "slash \<notin> set r"
  shows "go_ext (p @ dot # r) = dot # r"
  using ext_scan_no_mark [of "rev r" "dot # rev p" "[]"] assms by (simp add: go_ext_def)

lemma go_ext_suffix: "\<exists>b. p = b @ go_ext p"
proof (cases "go_ext p = []")
  case True
  then show ?thesis by simp
next
  case False
  then obtain pre rest where "ext_scan (rev p) [] = dot # rev pre" and "rev p = pre @ dot # rest"
    using ext_scan_result [of "rev p" "[]"] by (auto simp: go_ext_def)
  moreover have "p = rev (pre @ dot # rest)"
    using \<open>rev p = pre @ dot # rest\<close> by (metis rev_rev_ident)
  ultimately have "p = rev rest @ go_ext p"
    by (simp add: go_ext_def)
  then show ?thesis ..
qed

lemma sum_length_le_join: "sum_list (map length ls) \<le> length (join ls sep)"
  by (induction ls sep rule: join.induct) auto

lemma dec_nat_digits: "set (dec_nat n) \<subseteq> char_of ` {48..<58::nat}"
proof (induction n rule: dec_nat.induct)
  case (1 n)
  have "48 + n mod 10 \<in> {48..<58::nat}" by simp
  with "1.IH" show ?case
    by (subst dec_nat.simps) (auto simp: image_iff)
qed

lemma dec_nat_nonempty [simp]: "dec_nat n \<noteq> []"
  by (subst dec_nat.simps) simp


lemma join_path_append: "join_path dir (a @ b) = join_path dir a @ b"
  by (simp add: join_path_def)

lemma trim_suffix_has_suffix: "has_suffix s x \<Longrightarrow> trim_suffix s x @ x = s"
  unfolding trim_suffix_def has_suffix_def by (metis append_take_drop_id)

lemma go_ext_suffix_of_base:
  assumes "go_ext p \<noteq> []"
  shows "has_suffix (go_base p) (go_ext p)"
proof -
  obtain pre rest where scan: "go_ext p = dot # rev pre" and rp: "rev p = pre @ dot # rest"
    and nd: "dot \<notin> set pre" and ns: "slash \<notin> set pre"
    using ext_scan_result [of "rev p" "[]"] assms by (auto simp: go_ext_def)
  have "p \<noteq> []" using rp by auto
  have dw: "dropWhile (\<lambda>c. c = slash) (rev p) = rev p"
    using rp ns by (cases pre) auto
  have tw: "takeWhile (\<lambda>c. c \<noteq> slash) (rev p) = pre @ dot # takeWhile (\<lambda>c. c \<noteq> slash) rest"
  proof -
    have "takeWhile (\<lambda>c. c \<noteq> slash) (pre @ dot # rest) = pre @ dot # takeWhile (\<lambda>c. c \<noteq> slash) rest"
      using ns by (induction pre) auto
    with rp show ?thesis by simp
  qed
  have "go_base p = rev (takeWhile (\<lambda>c. c \<noteq> slash) rest) @ go_ext p"
    using \<open>p \<noteq> []\<close> dw tw scan by (simp add: go_base_def Let_def)
  then show ?thesis by simp
qed

lemma digit_chars: "char_of ` {48..<58::nat} = set (map char_of [48..<58::nat])"
  by (simp add: atLeastLessThan_upt)
lemma dec_nat_no_mark: "dot \<notin> set (dec_nat n) \<and> slash \<notin> set (dec_nat n)"
proof -
  have "dot \<notin> set (map char_of [48..<58::nat]) \<and> slash \<notin> set (map char_of [48..<58::nat])"
    by code_simp
  with dec_nat_digits [of n] show ?thesis
    by (auto simp: digit_chars)
qed

section \<open>strings.TrimSpace\<close>

lemma space_runes_nonempty: "e \<in> set space_runes \<Longrightarrow> e \<noteq> []"
  by (auto simp: space_runes_def)

lemma has_suffix_rev: "has_suffix (rev r) e \<longleftrightarrow> has_prefix r (rev e)"
  by (metis has_prefix_iff has_suffix_iff rev_append rev_rev_ident)

lemma space_suffix_rev_eq:
  "space_suffix (rev r) = (case find (\<lambda>e. has_prefix r (rev e)) space_runes of None \<Rightarrow> 0 | Some e \<Rightarrow> length e)"
proof -
  have "has_suffix (rev r) = (\<lambda>e. has_prefix r (rev e))"
    by (rule ext) (rule has_suffix_rev)
  then show ?thesis
    by (simp add: space_suffix_def)
qed

lemma space_rune_ascii:
  assumes "e \<in> set space_runes" and "of_char c < (128::nat)"
  shows "has_prefix (c # cs) e \<longleftrightarrow> e = [c]"
    and "has_prefix (c # cs) (rev e) \<longleftrightarrow> e = [c]"
  using assms by (auto simp: space_runes_def has_prefix_def)

lemma singleton_space_rune: "[c] \<in> set space_runes \<longleftrightarrow> is_space c"
  by (auto simp: space_runes_def is_space_def)

lemma find_eq_single: "find (\<lambda>e. e = x) xs = (if x \<in> set xs then Some x else None)"
  by (induction xs) auto

lemma space_prefix_ascii:
  assumes "of_char c < (128::nat)"
  shows "space_prefix (c # cs) = (if is_space c then 1 else 0)"
proof -
  have "find (has_prefix (c # cs)) space_runes = find (\<lambda>e. e = [c]) space_runes"
    using space_rune_ascii(1) [OF _ assms] by (intro find_cong) simp_all
  then show ?thesis
    by (simp add: space_prefix_def find_eq_single singleton_space_rune)
qed

lemma space_suffix_ascii:
  assumes "of_char c < (128::nat)"
  shows "space_suffix (rev (c # cs)) = (if is_space c then 1 else 0)"
proof -
  have "find (\<lambda>e. has_prefix (c # cs) (rev e)) space_runes = find (\<lambda>e. e = [c]) space_runes"
    using space_rune_ascii(2) [OF _ assms] by (intro find_cong) simp_all
  then show ?thesis
    by (simp only: space_suffix_rev_eq) (simp add: find_eq_single singleton_space_rune)
qed

lemma trim_left_func_ascii:
  "of_char c < (128::nat) \<Longrightarrow> trim_left_func (c # cs) = (if is_space c then trim_left_func cs else c # cs)"
  by (simp add: space_prefix_ascii)

lemma trim_rev_ascii:
  "of_char c < (128::nat) \<Longrightarrow> trim_rev (c # cs) = (if is_space c then trim_rev cs else c # cs)"
  by (simp add: space_suffix_ascii del: rev.simps)

lemma ascii_start_trim_left:
  "(ascii_start s = Inl rest \<longrightarrow> trim_left_func s = trim_left_func rest) \<and>
   (ascii_start s = Inr rest \<longrightarrow> trim_left_func s = rest)"
  by (induction s) (auto simp: trim_left_func_ascii not_le simp del: trim_left_func.simps(2))

lemma ascii_start_trim_rev:
  "(ascii_start s = Inl rest \<longrightarrow> trim_rev s = trim_rev rest) \<and>
   (ascii_start s = Inr rest \<longrightarrow> trim_rev s = rest)"
  by (induction s) (auto simp: trim_rev_ascii not_le simp del: trim_rev.simps(2))

lemma trim_space_eq: "trim_space s = trim_func s"
proof (cases "ascii_start s")
  case (Inl rest)
  then show ?thesis
    using ascii_start_trim_left [of s rest] by (simp add: trim_space_def trim_func_def)
next
  case (Inr rest)
  then have left: "trim_left_func s = rest"
    using ascii_start_trim_left [of s rest] by simp
  show ?thesis
  proof (cases "ascii_start (rev rest)")
    case (Inl r)
    then show ?thesis
      using Inr left ascii_start_trim_rev [of "rev rest" r]
      by (simp add: trim_space_def trim_func_def trim_right_func_def)
  next
    case (Inr r)
    then show ?thesis
      using \<open>ascii_start s = Inr rest\<close> left ascii_start_trim_rev [of "rev rest" r]
      by (simp add: trim_space_def trim_func_def trim_right_func_def)
  qed
qed

lemma find_space_rune: "find P space_runes = Some e \<Longrightarrow> e \<in> set space_runes \<and> e \<noteq> [] \<and> P e"
  by (metis find_Some_iff nth_mem space_runes_nonempty)

lemma space_prefix_zero: "space_prefix s = 0 \<longleftrightarrow> (\<forall>e \<in> set space_runes. \<not> has_prefix s e)"
  by (auto simp: space_prefix_def find_None_iff split: option.splits dest!: find_space_rune)

lemma space_suffix_zero: "space_suffix s = 0 \<longleftrightarrow> (\<forall>e \<in> set space_runes. \<not> has_suffix s e)"
  by (auto simp: space_suffix_def find_None_iff split: option.splits dest!: find_space_rune)

lemma space_prefix_rune:
  "0 < space_prefix s \<Longrightarrow> \<exists>e \<in> set space_runes. length e = space_prefix s \<and> s = e @ drop (space_prefix s) s"
  by (auto simp: space_prefix_def has_prefix_def split: option.splits dest!: find_space_rune)
     (metis append_take_drop_id)

lemma space_suffix_rev_rune:
  "0 < space_suffix (rev r) \<Longrightarrow>
   \<exists>e \<in> set space_runes. length e = space_suffix (rev r) \<and> r = rev e @ drop (space_suffix (rev r)) r"
  by (auto simp: space_suffix_rev_eq has_prefix_def split: option.splits dest!: find_space_rune)
     (metis append_take_drop_id)

lemma trim_left_func_spec:
  "\<exists>ws. set ws \<subseteq> set space_runes \<and> s = concat ws @ trim_left_func s \<and> space_prefix (trim_left_func s) = 0"
proof (induction s rule: trim_left_func.induct)
  case 1
  show ?case by (intro exI [of _ "[]"]) (auto simp: space_prefix_zero has_prefix_def dest: space_runes_nonempty)
next
  case (2 c cs)
  show ?case
  proof (cases "space_prefix (c # cs) = 0")
    case True
    then show ?thesis by (intro exI [of _ "[]"]) simp
  next
    case False
    then obtain e where e: "e \<in> set space_runes" "length e = space_prefix (c # cs)"
      and split: "c # cs = e @ drop (space_prefix (c # cs)) (c # cs)"
      using space_prefix_rune [of "c # cs"] by auto
    from "2.IH" [OF False] obtain ws where ws: "set ws \<subseteq> set space_runes"
      and eq: "drop (space_prefix (c # cs) - 1) cs = concat ws @ trim_left_func (drop (space_prefix (c # cs) - 1) cs)"
      and z: "space_prefix (trim_left_func (drop (space_prefix (c # cs) - 1) cs)) = 0"
      by blast
    have "drop (space_prefix (c # cs)) (c # cs) = drop (space_prefix (c # cs) - 1) cs"
      using False by (cases "space_prefix (c # cs)") simp_all
    with split eq have "c # cs = concat (e # ws) @ trim_left_func (drop (space_prefix (c # cs) - 1) cs)"
      by simp
    with False e ws z show ?thesis
      by (intro exI [of _ "e # ws"]) simp
  qed
qed

lemma trim_rev_spec:
  "\<exists>ws. set ws \<subseteq> set space_runes \<and> r = concat (map rev ws) @ trim_rev r \<and> space_suffix (rev (trim_rev r)) = 0"
proof (induction r rule: trim_rev.induct)
  case 1
  show ?case by (intro exI [of _ "[]"]) (auto simp: space_suffix_zero has_suffix_def dest: space_runes_nonempty)
next
  case (2 c cs)
  define n where "n = space_suffix (rev (c # cs))"
  show ?case
  proof (cases "n = 0")
    case True
    then show ?thesis
      by (intro exI [of _ "[]"]) (simp add: n_def del: rev.simps)
  next
    case False
    then obtain e where e: "e \<in> set space_runes" and split: "c # cs = rev e @ drop n (c # cs)"
      using space_suffix_rev_rune [of "c # cs"] by (auto simp: n_def)
    from "2.IH" False obtain ws where ws: "set ws \<subseteq> set space_runes"
      and eq: "drop (n - 1) cs = concat (map rev ws) @ trim_rev (drop (n - 1) cs)"
      and z: "space_suffix (rev (trim_rev (drop (n - 1) cs))) = 0"
      unfolding n_def by blast
    have "drop n (c # cs) = drop (n - 1) cs"
      using False by (cases n) simp_all
    with split eq have "c # cs = concat (map rev (e # ws)) @ trim_rev (drop (n - 1) cs)"
      by simp
    moreover have "trim_rev (c # cs) = trim_rev (drop (n - 1) cs)"
      using False by (simp add: n_def del: rev.simps)
    ultimately show ?thesis
      using e ws z by (intro exI [of _ "e # ws"]) simp
  qed
qed

lemma trim_func_spec:
  "\<exists>as bs. set as \<subseteq> set space_runes \<and> set bs \<subseteq> set space_runes \<and>
     s = concat as @ trim_func s @ concat bs \<and> space_prefix (trim_func s) = 0 \<and> space_suffix (trim_func s) = 0"
proof -
  obtain as where as: "set as \<subseteq> set space_runes" and s: "s = concat as @ trim_left_func s"
    and z1: "space_prefix (trim_left_func s) = 0"
    using trim_left_func_spec by blast
  obtain ws where ws: "set ws \<subseteq> set space_runes"
    and r: "rev (trim_left_func s) = concat (map rev ws) @ trim_rev (rev (trim_left_func s))"
    and z2: "space_suffix (rev (trim_rev (rev (trim_left_func s)))) = 0"
    using trim_rev_spec by blast
  have t: "trim_left_func s = trim_func s @ concat (rev ws)"
    using arg_cong [OF r, of rev] by (simp add: trim_func_def trim_right_func_def rev_concat rev_map)
  have "space_prefix (trim_func s) = 0"
    using z1 t by (metis has_prefix_append_right space_prefix_zero)
  moreover have "s = concat as @ trim_func s @ concat (rev ws)"
    using s t by simp
  ultimately show ?thesis
    using as ws z2 by (intro exI [of _ as] exI [of _ "rev ws"]) (simp add: trim_func_def trim_right_func_def)
qed

section \<open>Lists\<close>

lemma find_upt_Suc:
  "find P [0..<Suc n] = (if P 0 then Some 0 else map_option Suc (find (\<lambda>j. P (Suc j)) [0..<n]))"
proof -
  have "[0..<Suc n] = 0 # map Suc [0..<n]"
    by (simp add: upt_conv_Cons map_Suc_upt)
  moreover have "find P (map Suc xs) = map_option Suc (find (\<lambda>j. P (Suc j)) xs)" for xs
    by (induction xs) auto
  ultimately show ?thesis by simp
qed

end
