(* ===== verification/Markdown.thy ===== *)
theory Markdown
  imports Prelude
begin

text \<open>
  The content rule checker of \<open>internal/validator/markdown.go\<close>. \<open>CheckMarkdownBold\<close>
  splits the changed text at newlines and runs two regular expressions,
  \<open>\*\*[^*]+\*\*\<close> and \<open>__[^_]+__\<close>, over each line with \<open>FindAllStringIndex\<close>.
  Both patterns have the shape \<open>dd[^d]+dd\<close> for a delimiter byte \<open>d\<close>; their language is
  \<open>bold_lang d\<close>. \<open>match_at\<close> decides whether a match starts at the head of a string
  (there is at most one: \<open>[^d]+\<close> can only stop in front of a \<open>d\<close>), and
  \<open>find_all\<close> is Go's leftmost-first, non-overlapping search loop. The theory proves the
  loop equal to the declarative leftmost-first semantics \<open>leftmost_matches\<close>, then
  soundness, completeness, order and size bounds of the findings.
\<close>

record markdown_issue =
  line :: nat
  column :: nat
  message :: string

section \<open>The patterns\<close>

text \<open>The language of \<open>dd[^d]+dd\<close>.\<close>

definition bold_lang :: "char \<Rightarrow> string \<Rightarrow> bool" where
  "bold_lang d w \<longleftrightarrow> (\<exists>m. w = d # d # m @ [d, d] \<and> m \<noteq> [] \<and> d \<notin> set m)"

text \<open>
  The match that starts at the head of \<open>xs\<close>, as its length: two delimiters, the
  maximal run of other bytes (non-empty), two delimiters.
\<close>

definition match_at :: "char \<Rightarrow> string \<Rightarrow> nat option" where
  "match_at d xs =
     (case xs of
        a # b # rest \<Rightarrow>
          if a = d \<and> b = d then
            (let m = takeWhile (\<lambda>c. c \<noteq> d) rest in
             if m \<noteq> [] \<and> take 2 (drop (length m) rest) = [d, d] then Some (length m + 4) else None)
          else None
      | _ \<Rightarrow> None)"

text \<open>Go's \<open>FindAllStringIndex(line, -1)\<close>: the \<open>[start, end)\<close> byte offsets of the matches.\<close>

function find_all :: "char \<Rightarrow> nat \<Rightarrow> string \<Rightarrow> (nat \<times> nat) list" where
  "find_all d i [] = []"
| "find_all d i (c # cs) =
     (case match_at d (c # cs) of
        Some k \<Rightarrow> (i, i + k) # find_all d (i + k) (drop k (c # cs))
      | None \<Rightarrow> find_all d (Suc i) cs)"
  by pat_completeness auto
termination
  by (relation "measure (\<lambda>(d, i, s). length s)")
    (auto simp: match_at_def Let_def split: list.splits if_splits)

text \<open>
  A match of \<open>dd[^d]+dd\<close> occupies the bytes \<open>[p, p + k)\<close> of \<open>s\<close>.
\<close>

definition bold_at :: "char \<Rightarrow> string \<Rightarrow> nat \<Rightarrow> nat \<Rightarrow> bool" where
  "bold_at d s p k \<longleftrightarrow> p + k \<le> length s \<and> bold_lang d (take k (drop p s))"

text \<open>
  The leftmost-first semantics of \<open>FindAll\<close>, stated without the loop: the first match
  starts at the least position where one starts, and the search resumes at its end;
  offsets are counted from \<open>i\<close>.
\<close>

inductive leftmost_matches :: "char \<Rightarrow> nat \<Rightarrow> string \<Rightarrow> (nat \<times> nat) list \<Rightarrow> bool" where
  no_match: "(\<forall>p k. \<not> bold_at d s p k) \<Longrightarrow> leftmost_matches d i s []"
| next_match: "bold_at d s p k \<Longrightarrow> (\<forall>q k'. q < p \<longrightarrow> \<not> bold_at d s q k') \<Longrightarrow>
    leftmost_matches d (i + p + k) (drop (p + k) s) r \<Longrightarrow>
    leftmost_matches d i s ((i + p, i + p + k) # r)"

section \<open>The checker\<close>

definition bold_issue :: "string \<Rightarrow> nat \<Rightarrow> string \<Rightarrow> nat \<times> nat \<Rightarrow> markdown_issue" where
  "bold_issue delim n l ab =
     \<lparr>line = n + 1, column = fst ab + 1,
      message = ''Bold text using '' @ delim @ '' is not allowed: '' @
        take (snd ab - fst ab) (drop (fst ab) l)\<rparr>"

text \<open>
  The body of the loop over the lines: the \<open>**\<close> matches, then the \<open>__\<close> matches;
  \<open>n\<close> is Go's 0-based \<open>lineNum\<close>.
\<close>

definition line_issues :: "nat \<Rightarrow> string \<Rightarrow> markdown_issue list" where
  "line_issues n l =
     map (bold_issue ''**'' n l) (find_all (CHR ''*'') 0 l) @
     map (bold_issue ''__'' n l) (find_all (CHR ''_'') 0 l)"

fun check_lines :: "nat \<Rightarrow> string list \<Rightarrow> markdown_issue list" where
  "check_lines n [] = []"
| "check_lines n (l # ls) = line_issues n l @ check_lines (Suc n) ls"

definition check_markdown_bold :: "string \<Rightarrow> markdown_issue list" where
  "check_markdown_bold content = check_lines 0 (split_on nl content)"

section \<open>The single match\<close>

lemma match_at_Some_bounds: "match_at d xs = Some k \<Longrightarrow> 4 < k \<and> k \<le> length xs"
proof -
  assume m: "match_at d xs = Some k"
  then obtain rest where xs: "xs = d # d # rest"
    by (auto simp: match_at_def split: list.splits if_splits)
  let ?m = "takeWhile (\<lambda>c. c \<noteq> d) rest"
  from m xs have ne: "?m \<noteq> []" and tl: "take 2 (drop (length ?m) rest) = [d, d]"
    and k: "k = length ?m + 4"
    by (auto simp: match_at_def Let_def split: if_splits)
  have "length (take 2 (drop (length ?m) rest)) = 2"
    using tl by simp
  then have "length ?m + 2 \<le> length rest"
    by simp
  with ne k xs show ?thesis by (cases ?m) auto
qed

text \<open>\<open>match_at\<close> finds exactly the matches that start at the head of the string.\<close>

lemma match_at_iff: "match_at d xs = Some k \<longleftrightarrow> k \<le> length xs \<and> bold_lang d (take k xs)"
proof
  assume m: "match_at d xs = Some k"
  then obtain rest where xs: "xs = d # d # rest"
    by (auto simp: match_at_def split: list.splits if_splits)
  let ?m = "takeWhile (\<lambda>c. c \<noteq> d) rest"
  from m xs have ne: "?m \<noteq> []" and tl: "take 2 (drop (length ?m) rest) = [d, d]"
    and k: "k = Suc (Suc (length ?m + 2))"
    by (auto simp: match_at_def Let_def split: if_splits)
  have "rest = ?m @ drop (length ?m) rest"
    by (metis append_take_drop_id takeWhile_eq_take)
  then have "take (length ?m + 2) rest
      = take (length ?m + 2) (?m @ drop (length ?m) rest)"
    by simp
  also have "\<dots> = ?m @ take 2 (drop (length ?m) rest)"
    by simp
  finally have "take (length ?m + 2) rest = ?m @ [d, d]"
    using tl by simp
  moreover have "d \<notin> set ?m"
    by (auto dest: set_takeWhileD)
  ultimately have "bold_lang d (take k xs)"
    using ne k xs by (auto simp: bold_lang_def)
  with match_at_Some_bounds [OF m] show "k \<le> length xs \<and> bold_lang d (take k xs)"
    by simp
next
  assume "k \<le> length xs \<and> bold_lang d (take k xs)"
  then obtain m where km: "k \<le> length xs" and tk: "take k xs = d # d # m @ [d, d]"
    and ne: "m \<noteq> []" and nd: "d \<notin> set m"
    by (auto simp: bold_lang_def)
  obtain r where xs: "xs = d # d # m @ [d, d] @ r"
    using tk by (metis append_take_drop_id append.assoc append_Cons)
  have tw: "takeWhile (\<lambda>c. c \<noteq> d) (m @ [d, d] @ r) = m"
    using nd by (induction m) auto
  from km have "k = length (take k xs)"
    by simp
  also have "\<dots> = length m + 4"
    using tk by simp
  finally have "k = length m + 4" .
  with tw ne show "match_at d xs = Some k"
    unfolding xs by (simp add: match_at_def)
qed

lemma bold_lang_length: "bold_lang d w \<Longrightarrow> 4 < length w"
  by (auto simp: bold_lang_def)

lemma bold_at_iff_match_at: "bold_at d s p k \<longleftrightarrow> match_at d (drop p s) = Some k"
proof -
  have "k \<le> length s - p \<Longrightarrow> bold_lang d (take k (drop p s)) \<Longrightarrow> p + k \<le> length s"
    by (drule bold_lang_length) simp
  then show ?thesis
    by (auto simp: bold_at_def match_at_iff)
qed

lemma bold_at_Nil [simp]: "\<not> bold_at d [] p k"
  by (simp add: bold_at_iff_match_at match_at_def)

lemma bold_at_Cons_Suc [simp]: "bold_at d (c # cs) (Suc p) k = bold_at d cs p k"
  by (simp add: bold_at_iff_match_at)

lemma bold_at_Cons_0: "bold_at d (c # cs) 0 k \<longleftrightarrow> match_at d (c # cs) = Some k"
  by (simp add: bold_at_iff_match_at)

section \<open>The search loop\<close>


lemma find_all_sound:
  "(a, b) \<in> set (find_all d i s) \<Longrightarrow>
     i \<le> a \<and> b \<le> i + length s \<and> match_at d (drop (a - i) s) = Some (b - a)"
proof (induction d i s rule: find_all.induct)
  case (1 d i)
  then show ?case by simp
next
  case (2 d i c cs)
  show ?case
  proof (cases "match_at d (c # cs)")
    case None
    with "2.prems" have "(a, b) \<in> set (find_all d (Suc i) cs)" by simp
    with "2.IH"(1) [OF None] have "Suc i \<le> a" and "b \<le> Suc i + length cs"
      and "match_at d (drop (a - Suc i) cs) = Some (b - a)" by auto
    moreover have "drop (a - i) (c # cs) = drop (a - Suc i) cs"
      using \<open>Suc i \<le> a\<close> by (simp add: Suc_diff_Suc [symmetric])
    ultimately show ?thesis by simp
  next
    case (Some k)
    note kb = match_at_Some_bounds [OF Some]
    show ?thesis
    proof (cases "(a, b) = (i, i + k)")
      case True
      with Some kb show ?thesis by auto
    next
      case False
      with "2.prems" Some have "(a, b) \<in> set (find_all d (i + k) (drop k (c # cs)))" by auto
      with "2.IH"(2) [OF Some] have "i + k \<le> a" and "b \<le> i + k + length (drop k (c # cs))"
        and m: "match_at d (drop (a - (i + k)) (drop k (c # cs))) = Some (b - a)" by auto
      moreover have "drop (a - (i + k)) (drop k (c # cs)) = drop (a - i) (c # cs)"
        using \<open>i + k \<le> a\<close> by (simp add: add.commute)
      ultimately show ?thesis using kb by auto
    qed
  qed
qed

lemma find_all_match_bold_at:
  "(a, b) \<in> set (find_all d i s) \<Longrightarrow> bold_at d s (a - i) (b - a)"
  by (auto simp: bold_at_iff_match_at dest: find_all_sound)

lemma find_all_sorted: "sorted_wrt (\<lambda>x y. snd x \<le> fst y) (find_all d i s)"
proof (induction d i s rule: find_all.induct)
  case (1 d i)
  then show ?case by simp
next
  case (2 d i c cs)
  show ?case
  proof (cases "match_at d (c # cs)")
    case None
    with "2.IH"(1) show ?thesis by simp
  next
    case (Some k)
    have "\<forall>y \<in> set (find_all d (i + k) (drop k (c # cs))). i + k \<le> fst y"
      by (auto dest: find_all_sound)
    with "2.IH"(2) [OF Some] Some show ?thesis by simp
  qed
qed

lemma find_all_complete:
  "match_at d (drop p s) = Some k \<Longrightarrow> \<exists>(a, b) \<in> set (find_all d i s). a \<le> i + p \<and> i + p < b"
proof (induction d i s arbitrary: p rule: find_all.induct)
  case (1 d i)
  then show ?case by (simp add: match_at_def)
next
  case (2 d i c cs)
  show ?case
  proof (cases "match_at d (c # cs)")
    case None
    show ?thesis
    proof (cases p)
      case 0
      with None "2.prems" show ?thesis by simp
    next
      case (Suc p')
      with "2.prems" have "match_at d (drop p' cs) = Some k" by simp
      from "2.IH"(1) [OF None this] None Suc show ?thesis by auto
    qed
  next
    case (Some k0)
    show ?thesis
    proof (cases "p < k0")
      case True
      with Some show ?thesis by auto
    next
      case False
      with "2.prems" have "match_at d (drop (p - k0) (drop k0 (c # cs))) = Some k"
        by simp
      from "2.IH"(2) [OF Some this] False Some show ?thesis by auto
    qed
  qed
qed


section \<open>Leftmost-first semantics\<close>


lemma leftmost_matches_shift:
  assumes lm: "leftmost_matches d (Suc i) cs r" and none: "\<forall>k. \<not> bold_at d (c # cs) 0 k"
  shows "leftmost_matches d i (c # cs) r"
  using lm
proof cases
  case no_match
  have "\<forall>p k. \<not> bold_at d (c # cs) p k"
  proof (intro allI)
    fix p k
    show "\<not> bold_at d (c # cs) p k"
      using no_match none by (cases p) auto
  qed
  with no_match show ?thesis by (auto intro: leftmost_matches.no_match)
next
  case (next_match p k r')
  have "bold_at d (c # cs) (Suc p) k"
    using next_match by simp
  moreover have "\<forall>q k'. q < Suc p \<longrightarrow> \<not> bold_at d (c # cs) q k'"
    using next_match none by (auto simp: less_Suc_eq_0_disj)
  moreover have "leftmost_matches d (i + Suc p + k) (drop (Suc p + k) (c # cs)) r'"
    using next_match by simp
  ultimately have "leftmost_matches d i (c # cs) ((i + Suc p, i + Suc p + k) # r')"
    by (rule leftmost_matches.next_match)
  with next_match show ?thesis by simp
qed

lemma find_all_leftmost: "leftmost_matches d i s (find_all d i s)"
proof (induction d i s rule: find_all.induct)
  case (1 d i)
  show ?case
    using leftmost_matches.no_match [of d "[]" i] by simp
next
  case (2 d i c cs)
  show ?case
  proof (cases "match_at d (c # cs)")
    case None
    then have "\<forall>k. \<not> bold_at d (c # cs) 0 k"
      by (simp add: bold_at_Cons_0)
    with "2.IH"(1) [OF None] None show ?thesis
      by (simp add: leftmost_matches_shift)
  next
    case (Some k)
    have "leftmost_matches d i (c # cs)
        ((i + 0, i + 0 + k) # find_all d (i + 0 + k) (drop (0 + k) (c # cs)))"
      by (rule leftmost_matches.next_match) (use "2.IH"(2) [OF Some] Some in \<open>auto simp: bold_at_Cons_0\<close>)
    with Some show ?thesis by simp
  qed
qed

lemma find_all_no_match:
  assumes "\<forall>p k. \<not> bold_at d s p k"
  shows "find_all d i s = []"
proof (rule ccontr)
  assume "find_all d i s \<noteq> []"
  then obtain a b rest where "find_all d i s = (a, b) # rest"
    by (cases "find_all d i s") auto
  then have "(a, b) \<in> set (find_all d i s)"
    by simp
  from find_all_match_bold_at [OF this] assms show False
    by blast
qed

lemma find_all_skip:
  "\<forall>q k. q < p \<longrightarrow> \<not> bold_at d s q k \<Longrightarrow> p \<le> length s \<Longrightarrow>
     find_all d i s = find_all d (i + p) (drop p s)"
proof (induction p arbitrary: i s)
  case 0
  then show ?case by simp
next
  case (Suc p)
  then obtain c cs where s: "s = c # cs"
    by (cases s) auto
  with Suc.prems have "\<forall>k. \<not> bold_at d (c # cs) 0 k"
    by auto
  then have "match_at d (c # cs) = None"
    by (cases "match_at d (c # cs)") (auto simp: bold_at_Cons_0)
  then have "find_all d i s = find_all d (Suc i) cs"
    by (simp add: s)
  also have "\<dots> = find_all d (Suc i + p) (drop p cs)"
    using Suc.prems s by (intro Suc.IH) auto
  finally show ?case by (simp add: s)
qed

lemma leftmost_matches_find_all: "leftmost_matches d i s r \<Longrightarrow> r = find_all d i s"
proof (induction rule: leftmost_matches.induct)
  case (no_match d s i)
  then show ?case by (simp add: find_all_no_match)
next
  case (next_match d s p k i r)
  from next_match.hyps(1) have m: "match_at d (drop p s) = Some k"
    by (simp add: bold_at_iff_match_at)
  then obtain c cs where cs: "drop p s = c # cs"
    by (cases "drop p s") (auto simp: match_at_def)
  have "p \<le> length s"
    using next_match.hyps(1) by (simp add: bold_at_def)
  then have "find_all d i s = find_all d (i + p) (drop p s)"
    using next_match.hyps(2) by (intro find_all_skip) auto
  also have "\<dots> = (i + p, i + p + k) # find_all d (i + p + k) (drop (p + k) s)"
  proof -
    have "drop (p + k) s = drop k (c # cs)"
      by (metis cs drop_drop add.commute)
    with m cs show ?thesis by simp
  qed
  finally show ?case
    using next_match.IH by simp
qed

text \<open>Property (find_all_leftmost_iff). FindAllStringIndex computes exactly the leftmost-first, non-overlapping matches of the pattern: the scanning loop find_all is equivalent to the declarative semantics leftmost_matches.\<close>

theorem find_all_leftmost_iff: "leftmost_matches d i s r \<longleftrightarrow> r = find_all d i s"
  using find_all_leftmost leftmost_matches_find_all by blast


section \<open>The checker\<close>


lemma check_lines_mem:
  "x \<in> set (check_lines n ls) \<longleftrightarrow> (\<exists>j < length ls. x \<in> set (line_issues (n + j) (ls ! j)))"
proof (induction ls arbitrary: n)
  case Nil
  then show ?case by simp
next
  case (Cons l ls)
  then show ?case by (simp add: Ex_less_Suc2)
qed

lemma line_issues_mem:
  "x \<in> set (line_issues n l) \<longleftrightarrow> (\<exists>ab.
     (ab \<in> set (find_all (CHR ''*'') 0 l) \<and> x = bold_issue ''**'' n l ab) \<or>
     (ab \<in> set (find_all (CHR ''_'') 0 l) \<and> x = bold_issue ''__'' n l ab))"
  by (auto simp: line_issues_def)

lemma bold_issue_span:
  assumes "(a, b) \<in> set (find_all d 0 l)"
  shows "bold_at d l a (b - a) \<and> length (take (b - a) (drop a l)) = b - a"
proof -
  have "bold_at d l a (b - a)"
    using find_all_match_bold_at [OF assms] by simp
  moreover from this have "a + (b - a) \<le> length l"
    by (simp add: bold_at_def)
  then have "b - a \<le> length l - a"
    by linarith
  ultimately show ?thesis
    by simp
qed

lemma bold_issue_facts:
  assumes "(a, b) \<in> set (find_all d 0 l)" and "x = bold_issue delim j l (a, b)"
  shows "line x = j + 1" and "1 \<le> column x"
    and "message x = ''Bold text using '' @ delim @ '' is not allowed: '' @ take (b - a) (drop a l)"
    and "bold_at d l (column x - 1) (length (take (b - a) (drop a l)))"
    and "take (b - a) (drop a l) = take (length (take (b - a) (drop a l))) (drop (column x - 1) l)"
  using bold_issue_span [OF assms(1)] assms(2) by (simp_all add: bold_issue_def)

text \<open>Claim C7 (check_markdown_bold_sound). Every finding of CheckMarkdownBold names an existing line (1-based), a 1-based column at which a bold span of the named delimiter really occurs in that line, and a message quoting exactly that span.\<close>

theorem check_markdown_bold_sound:
  assumes "x \<in> set (check_markdown_bold t)"
  shows "\<exists>j < length (split_on nl t). \<exists>delim d w.
     (delim, d) \<in> {(''**'', CHR ''*''), (''__'', CHR ''_'')} \<and>
     line x = j + 1 \<and> 1 \<le> column x \<and>
     message x = ''Bold text using '' @ delim @ '' is not allowed: '' @ w \<and>
     bold_at d (split_on nl t ! j) (column x - 1) (length w) \<and>
     w = take (length w) (drop (column x - 1) (split_on nl t ! j))"
proof -
  let ?l = "\<lambda>j. split_on nl t ! j"
  from assms obtain j a b delim d where j: "j < length (split_on nl t)"
    and pat: "(delim, d) \<in> {(''**'', CHR ''*''), (''__'', CHR ''_'')}"
    and ab: "(a, b) \<in> set (find_all d 0 (?l j))"
    and x: "x = bold_issue delim j (?l j) (a, b)"
    unfolding check_markdown_bold_def check_lines_mem line_issues_mem by fastforce
  note f = bold_issue_facts [OF ab x]
  from j pat f show ?thesis
    by blast
qed

text \<open>Claim C8 (check_markdown_bold_complete). No bold span goes unreported: every occurrence of **x** or __x__ on a line overlaps the span of a finding of the same delimiter on that line.\<close>

theorem check_markdown_bold_complete:
  assumes "j < length (split_on nl t)"
    and "(delim, d) \<in> {(''**'', CHR ''*''), (''__'', CHR ''_'')}"
    and "bold_at d (split_on nl t ! j) p k"
  shows "\<exists>a b. a \<le> p \<and> p < b \<and>
     bold_issue delim j (split_on nl t ! j) (a, b) \<in> set (check_markdown_bold t)"
proof -
  from assms(3) have "match_at d (drop p (split_on nl t ! j)) = Some k"
    by (simp add: bold_at_iff_match_at)
  from find_all_complete [OF this, of 0] obtain a b
    where "(a, b) \<in> set (find_all d 0 (split_on nl t ! j))" and "a \<le> p" and "p < b"
    by auto
  moreover have "bold_issue delim j (split_on nl t ! j) (a, b) \<in> set (line_issues j (split_on nl t ! j))"
    using assms(2) \<open>(a, b) \<in> set (find_all d 0 (split_on nl t ! j))\<close>
    by (auto simp: line_issues_def)
  then have "bold_issue delim j (split_on nl t ! j) (a, b) \<in> set (check_markdown_bold t)"
    using assms(1) unfolding check_markdown_bold_def check_lines_mem by auto
  ultimately show ?thesis
    by blast
qed

lemma find_all_length: "5 * length (find_all d i s) \<le> length s"
proof (induction d i s rule: find_all.induct)
  case (1 d i)
  then show ?case by simp
next
  case (2 d i c cs)
  show ?case
  proof (cases "match_at d (c # cs)")
    case None
    with "2.IH"(1) show ?thesis by simp
  next
    case (Some k)
    have "5 * length (find_all d (i + k) (drop k (c # cs))) \<le> length (c # cs) - k"
      using "2.IH"(2) [OF Some] by simp
    moreover have "4 < k" and "k \<le> length (c # cs)"
      using match_at_Some_bounds [OF Some] by auto
    ultimately have "5 + 5 * length (find_all d (i + k) (drop k (c # cs))) \<le> length (c # cs)"
      by linarith
    with Some show ?thesis by simp
  qed
qed

lemma check_lines_length: "5 * length (check_lines n ls) \<le> 2 * sum_list (map length ls)"
proof (induction ls arbitrary: n)
  case Nil
  then show ?case by simp
next
  case (Cons l ls)
  have "5 * length (find_all (CHR ''*'') 0 l) \<le> length l"
    and "5 * length (find_all (CHR ''_'') 0 l) \<le> length l"
    by (rule find_all_length)+
  with Cons.IH [of "Suc n"] show ?case by (simp add: line_issues_def)
qed

text \<open>Claim C10 (check_markdown_bold_bound). The number of findings is bounded by the text: five findings need at least two bytes each, so 5 * findings <= 2 * length.\<close>

theorem check_markdown_bold_bound: "5 * length (check_markdown_bold t) \<le> 2 * length t"
proof -
  have "5 * length (check_markdown_bold t) \<le> 2 * sum_list (map length (split_on nl t))"
    unfolding check_markdown_bold_def by (rule check_lines_length)
  also have "\<dots> \<le> 2 * length (join (split_on nl t) [nl])"
    using sum_length_le_join by simp
  finally show ?thesis by (simp add: join_split_on)
qed

lemma check_lines_line: "x \<in> set (check_lines n ls) \<Longrightarrow> n < line x"
  by (auto simp: check_lines_mem line_issues_mem bold_issue_def)

text \<open>Claim C9 (check_markdown_bold_sorted). Findings are reported in line order.\<close>

theorem check_markdown_bold_sorted: "sorted (map line (check_markdown_bold t))"
proof -
  have "sorted (map line (check_lines n ls))" for n ls
  proof (induction ls arbitrary: n)
    case Nil
    then show ?case by simp
  next
    case (Cons l ls)
    have "\<forall>x \<in> set (check_lines (Suc n) ls). Suc n \<le> line x"
      using check_lines_line [of _ "Suc n" ls] by fastforce
    moreover have "line \<circ> bold_issue delim n l = (\<lambda>_. Suc n)" for delim
      by (rule ext) (simp add: bold_issue_def)
    ultimately show ?case
      using Cons.IH [of "Suc n"]
      by (auto simp: sorted_append bold_issue_def line_issues_def map_replicate_const)
  qed
  then show ?thesis by (simp add: check_markdown_bold_def)
qed

text \<open>Property (spec_scenario_bold). The scenario of the specification: the change text "This is **bold**" yields exactly one finding, at line 1, column 9, naming the ** delimiter and the span **bold**.\<close>

theorem spec_scenario_bold:
  "check_markdown_bold ''This is **bold**'' =
     [\<lparr>line = 1, column = 9, message = ''Bold text using ** is not allowed: **bold**''\<rparr>]"
  by code_simp

text \<open>Property (both_patterns_reported). Overlapping matches of the two patterns on one line are both reported, the ** finding first.\<close>

theorem both_patterns_reported:
  "check_markdown_bold ''**__a__**'' =
     [\<lparr>line = 1, column = 1, message = ''Bold text using ** is not allowed: **__a__**''\<rparr>,
      \<lparr>line = 1, column = 3, message = ''Bold text using __ is not allowed: __a__''\<rparr>]"
  by code_simp

theorem find_all_leftmost_iff_witness:
  "leftmost_matches (CHR ''*'') 0 ''a **b** **c'' [(2, 7)]"
proof -
  have "find_all (CHR ''*'') 0 ''a **b** **c'' = [(2, 7)]"
    by code_simp
  then show ?thesis
    using find_all_leftmost_iff [of "CHR ''*''" 0 "''a **b** **c''" "[(2, 7)]"] by simp
qed

theorem check_markdown_bold_sound_witness:
  "\<lparr>line = 1, column = 9, message = ''Bold text using ** is not allowed: **bold**''\<rparr>
     \<in> set (check_markdown_bold ''This is **bold**'') \<and>
   (\<exists>j < length (split_on nl ''This is **bold**''). \<exists>delim d w.
     (delim, d) \<in> {(''**'', CHR ''*''), (''__'', CHR ''_'')} \<and>
     line \<lparr>line = 1, column = 9, message = ''Bold text using ** is not allowed: **bold**''\<rparr> = j + 1 \<and>
     1 \<le> column \<lparr>line = 1, column = 9, message = ''Bold text using ** is not allowed: **bold**''\<rparr> \<and>
     message \<lparr>line = 1, column = 9, message = ''Bold text using ** is not allowed: **bold**''\<rparr> =
       ''Bold text using '' @ delim @ '' is not allowed: '' @ w \<and>
     bold_at d (split_on nl ''This is **bold**'' ! j)
       (column \<lparr>line = 1, column = 9, message = ''Bold text using ** is not allowed: **bold**''\<rparr> - 1)
       (length w) \<and>
     w = take (length w) (drop (column \<lparr>line = 1, column = 9,
       message = ''Bold text using ** is not allowed: **bold**''\<rparr> - 1) (split_on nl ''This is **bold**'' ! j)))"
proof -
  have m: "\<lparr>line = 1, column = 9, message = ''Bold text using ** is not allowed: **bold**''\<rparr>
     \<in> set (check_markdown_bold ''This is **bold**'')"
    by code_simp
  from m check_markdown_bold_sound [OF m] show ?thesis by blast
qed

theorem check_markdown_bold_complete_witness:
  "\<exists>a b. a \<le> 8 \<and> 8 < b \<and>
     bold_issue ''**'' 0 (split_on nl ''This is **bold**'' ! 0) (a, b) \<in> set (check_markdown_bold ''This is **bold**'')"
proof -
  have j: "0 < length (split_on nl ''This is **bold**'')"
    by simp
  have d: "(''**'', CHR ''*'') \<in> {(''**'', CHR ''*''), (''__'', CHR ''_'')}"
    by simp
  have b: "bold_at (CHR ''*'') (split_on nl ''This is **bold**'' ! 0) 8 8"
    by (simp add: bold_at_iff_match_at) code_simp
  show ?thesis
    using check_markdown_bold_complete [OF j d b] .
qed

theorem check_markdown_bold_bound_witness:
  "5 * length (check_markdown_bold ''**a** __b__'') \<le> 2 * length ''**a** __b__'' \<and>
   length (check_markdown_bold ''**a** __b__'') = 2"
proof -
  have "length (check_markdown_bold ''**a** __b__'') = 2"
    by code_simp
  with check_markdown_bold_bound [of "''**a** __b__''"] show ?thesis by simp
qed

theorem check_markdown_bold_sorted_witness:
  "sorted (map line (check_markdown_bold ''__x__\<newline>**y**'')) \<and>
   map line (check_markdown_bold ''__x__\<newline>**y**'') = [1, 2]"
proof -
  have "map line (check_markdown_bold ''__x__\<newline>**y**'') = [1, 2]"
    by code_simp
  with check_markdown_bold_sorted [of "''__x__\<newline>**y**''"] show ?thesis by simp
qed

end
