(* ===== verification/Config.thy ===== *)
theory Config
  imports Prelude
begin

text \<open>
  \<open>internal/config/config.go\<close>: the four optional paths to the tools' own configuration
  files, read once from the environment by \<open>Load\<close>. \<open>os.Getenv\<close> returns \<open>""\<close> for
  an unset variable, so the environment is a total function from names to strings; an
  empty path means "use the tool's defaults" everywhere it is read.
\<close>

record config =
  biome_config_path :: string
  ruff_config_path :: string
  pyright_config_path :: string
  markdownlint_config_path :: string

definition load :: "(string \<Rightarrow> string) \<Rightarrow> config" where
  "load getenv =
     \<lparr>biome_config_path = getenv ''BIOME_CONFIG_PATH'',
      ruff_config_path = getenv ''RUFF_CONFIG_PATH'',
      pyright_config_path = getenv ''PYRIGHT_CONFIG_PATH'',
      markdownlint_config_path = getenv ''MARKDOWNLINT_CONFIG_PATH''\<rparr>"

end
