(* ===== verification/Linters.thy ===== *)
theory Linters
  imports Config
begin

text \<open>
  The tool registry and the command runner of \<open>internal/validator/linters.go\<close>.
  The four linters and the one formatter are the constructors of \<open>linter\<close> and
  \<open>formatter\<close>; \<open>Name\<close>, \<open>Applies\<close> and the argument lists that \<open>Run\<close> and
  \<open>Format\<close> build are functions on them. An external process is not modelled: a
  \<open>tool_env\<close> maps a command name, its arguments and the file system before the run to
  what the process printed, how it ended and the file system after it. \<open>runCommand\<close>
  classifies the end of the process into a \<open>lint_result\<close>; a process killed by the
  deadline of \<open>exec.CommandContext\<close> ends \<open>Signaled\<close>, which Go reports as an
  \<open>*exec.ExitError\<close> with exit code -1. \<open>filepath.Dir\<close> is a parameter \<open>dir\<close>.
\<close>

record lint_result =
  lint_name :: string
  passed :: bool
  lint_output :: string
  lint_error :: "string option"

text \<open>How a process ended: an exit status, a signal, or no start at all.\<close>

datatype cmd_outcome = Exited int | Signaled string | StartFailed string

record cmd_run =
  stdout :: string
  stderr :: string
  outcome :: cmd_outcome

type_synonym tool_env = "string \<Rightarrow> string list \<Rightarrow> fs \<Rightarrow> cmd_run \<times> fs"

section \<open>runCommand\<close>

definition run_command :: "tool_env \<Rightarrow> string \<Rightarrow> string list \<Rightarrow> fs \<Rightarrow> lint_result \<times> fs" where
  "run_command env name args f =
     (let (r, f') = env name args f;
          res = \<lparr>lint_name = name, passed = False,
                 lint_output = trim_space (stdout r @ [nl] @ stderr r), lint_error = None\<rparr>
      in (case outcome r of
            Exited c \<Rightarrow>
              if c = 0 then res\<lparr>passed := True\<rparr>
              else res\<lparr>lint_error := Some (name @ '' exited with code '' @ dec_int c)\<rparr>
          | Signaled s \<Rightarrow> res\<lparr>lint_error := Some (name @ '' exited with code '' @ dec_int (-1))\<rparr>
          | StartFailed e \<Rightarrow> res\<lparr>lint_error := Some (''failed to run '' @ name @ '': '' @ e)\<rparr>,
          f'))"

section \<open>Linters\<close>

datatype linter = BiomeLinter | RuffLinter | PyrightLinter | MarkdownlintLinter

fun linter_name :: "linter \<Rightarrow> string" where
  "linter_name BiomeLinter = ''biome''"
| "linter_name RuffLinter = ''ruff''"
| "linter_name PyrightLinter = ''pyright''"
| "linter_name MarkdownlintLinter = ''markdownlint''"

fun linter_applies :: "linter \<Rightarrow> string \<Rightarrow> bool" where
  "linter_applies BiomeLinter ext = (ext \<in> set [''js'', ''jsx'', ''ts'', ''tsx'', ''mjs'', ''cjs''])"
| "linter_applies RuffLinter ext = (ext = ''py'')"
| "linter_applies PyrightLinter ext = (ext = ''py'')"
| "linter_applies MarkdownlintLinter ext = (ext = ''md'' \<or> ext = ''markdown'')"

text \<open>The arguments each \<open>Run\<close> method passes to \<open>runCommand\<close>.\<close>

fun linter_args :: "config \<Rightarrow> (path \<Rightarrow> path) \<Rightarrow> linter \<Rightarrow> path \<Rightarrow> string list" where
  "linter_args cfg dir BiomeLinter p =
     [''check'', ''--write''] @
     (if biome_config_path cfg \<noteq> [] then
        [''--config-path='' @
           (if go_ext (biome_config_path cfg) = ''.json'' then dir (biome_config_path cfg)
            else biome_config_path cfg)]
      else []) @
     [''--vcs-use-ignore-file=false'', p]"
| "linter_args cfg dir RuffLinter p =
     [''check'', ''--fix''] @
     (if ruff_config_path cfg \<noteq> [] then [''--config='' @ ruff_config_path cfg] else []) @ [p]"
| "linter_args cfg dir PyrightLinter p =
     (if pyright_config_path cfg \<noteq> [] then [''--project='' @ dir (pyright_config_path cfg)] else []) @
     [p]"
| "linter_args cfg dir MarkdownlintLinter p =
     (if markdownlint_config_path cfg \<noteq> [] then [''-c'', markdownlint_config_path cfg] else []) @
     [p]"

text \<open>\<open>Run\<close>: the command run is the linter's name.\<close>

definition linter_run :: "config \<Rightarrow> (path \<Rightarrow> path) \<Rightarrow> tool_env \<Rightarrow> linter \<Rightarrow> path \<Rightarrow> fs \<Rightarrow> lint_result \<times> fs" where
  "linter_run cfg dir env l p f = run_command env (linter_name l) (linter_args cfg dir l p) f"

section \<open>Formatters\<close>

datatype formatter = RuffFormatter

fun formatter_name :: "formatter \<Rightarrow> string" where
  "formatter_name RuffFormatter = ''ruff-format''"

fun formatter_applies :: "formatter \<Rightarrow> string \<Rightarrow> bool" where
  "formatter_applies RuffFormatter ext = (ext = ''py'')"

fun formatter_args :: "config \<Rightarrow> formatter \<Rightarrow> path \<Rightarrow> string list" where
  "formatter_args cfg RuffFormatter p =
     [''format''] @ (if ruff_config_path cfg \<noteq> [] then [''--config='' @ ruff_config_path cfg] else []) @ [p]"

text \<open>
  The error \<open>cmd.Run()\<close> returns, as the text \<open>%v\<close> prints: \<open>None\<close> for exit status 0;
  \<open>exec.ExitError\<close> prints \<open>exit status N\<close> or \<open>signal: S\<close>.
\<close>

fun run_error :: "cmd_outcome \<Rightarrow> string option" where
  "run_error (Exited c) = (if c = 0 then None else Some (''exit status '' @ dec_int c))"
| "run_error (Signaled s) = Some (''signal: '' @ s)"
| "run_error (StartFailed e) = Some e"

definition formatter_format :: "config \<Rightarrow> tool_env \<Rightarrow> formatter \<Rightarrow> path \<Rightarrow> fs \<Rightarrow> string option \<times> fs" where
  "formatter_format cfg env fm p f =
     (let (r, f') = env ''ruff'' (formatter_args cfg fm p) f in (run_error (outcome r), f'))"

section \<open>The registry\<close>

definition all_formatters :: "formatter list" where
  "all_formatters = [RuffFormatter]"

definition all_linters :: "linter list" where
  "all_linters = [BiomeLinter, RuffLinter, PyrightLinter, MarkdownlintLinter]"

definition get_applicable_formatters :: "string \<Rightarrow> formatter list" where
  "get_applicable_formatters ext = filter (\<lambda>fm. formatter_applies fm ext) all_formatters"

definition get_applicable_linters :: "string \<Rightarrow> linter list" where
  "get_applicable_linters ext = filter (\<lambda>l. linter_applies l ext) all_linters"

section \<open>Lemmas\<close>

lemma run_command_name: "lint_name (fst (run_command env name args f)) = name"
  by (simp add: run_command_def Let_def split: prod.splits cmd_outcome.splits)

lemma run_command_passed:
  "passed (fst (run_command env name args f)) \<longleftrightarrow> outcome (fst (env name args f)) = Exited 0"
  by (simp add: run_command_def Let_def split: prod.splits cmd_outcome.splits)

lemma run_command_error:
  "lint_error (fst (run_command env name args f)) = None \<longleftrightarrow> passed (fst (run_command env name args f))"
  by (simp add: run_command_def Let_def split: prod.splits cmd_outcome.splits)

lemma run_command_fs: "snd (run_command env name args f) = snd (env name args f)"
  by (simp add: run_command_def Let_def split: prod.splits cmd_outcome.splits)

lemma run_command_output:
  "lint_output (fst (run_command env name args f)) =
     trim_space (stdout (fst (env name args f)) @ [nl] @ stderr (fst (env name args f)))"
  by (simp add: run_command_def Let_def split: prod.splits cmd_outcome.splits)

lemma linter_run_name: "lint_name (fst (linter_run cfg dir env l p f)) = linter_name l"
  by (simp add: linter_run_def run_command_name)

lemma linter_args_last: "last (linter_args cfg dir l p) = p"
  by (cases l) simp_all

lemma formatter_args_last [simp]: "last (formatter_args cfg fm p) = p"
  by (cases fm) simp

text \<open>
  Claim C21 (run_command_output_trimmed). The output runCommand records is what the tool
  printed on standard output and standard error, joined by a newline, with the Unicode
  white space at both ends removed as \<open>strings.TrimSpace\<close> removes it: whole space runes
  (a trailing newline, a leading no-break space), as many as there are, and nothing else,
  whatever bytes the tool printed.
\<close>

theorem run_command_output_trimmed:
  "\<exists>as bs. set as \<subseteq> set space_runes \<and> set bs \<subseteq> set space_runes \<and>
     stdout (fst (env name args f)) @ [nl] @ stderr (fst (env name args f)) =
       concat as @ lint_output (fst (run_command env name args f)) @ concat bs \<and>
     space_prefix (lint_output (fst (run_command env name args f))) = 0 \<and>
     space_suffix (lint_output (fst (run_command env name args f))) = 0"
  using trim_func_spec [of "stdout (fst (env name args f)) @ [nl] @ stderr (fst (env name args f))"]
  by (simp add: run_command_output trim_space_eq)

text \<open>Claim C20 (run_command_classification). runCommand's classification: the linter passed exactly when the process exited with status 0; otherwise its error names the tool and the exit code (-1 for a process killed by a signal, as for the deadline) or says the tool could not be started; the result carries the tool's name.\<close>

theorem run_command_classification:
  "lint_name (fst (run_command env name args f)) = name \<and>
   (passed (fst (run_command env name args f)) \<longleftrightarrow> outcome (fst (env name args f)) = Exited 0) \<and>
   (lint_error (fst (run_command env name args f)) = None \<longleftrightarrow> passed (fst (run_command env name args f))) \<and>
   (\<forall>c. outcome (fst (env name args f)) = Exited c \<longrightarrow> c \<noteq> 0 \<longrightarrow>
      lint_error (fst (run_command env name args f)) = Some (name @ '' exited with code '' @ dec_int c)) \<and>
   (\<forall>s. outcome (fst (env name args f)) = Signaled s \<longrightarrow>
      lint_error (fst (run_command env name args f)) = Some (name @ '' exited with code '' @ dec_int (-1))) \<and>
   (\<forall>e. outcome (fst (env name args f)) = StartFailed e \<longrightarrow>
      lint_error (fst (run_command env name args f)) = Some (''failed to run '' @ name @ '': '' @ e))"
  by (simp add: run_command_def Let_def split: prod.splits cmd_outcome.splits)

theorem run_command_classification_witness:
  "lint_error (fst (run_command (\<lambda>_ _ f. (\<lparr>stdout = [], stderr = [], outcome = Exited 2\<rparr>, f)) ''ruff'' [] Map.empty))
     = Some (''ruff'' @ '' exited with code '' @ dec_int 2) \<and>
   \<not> passed (fst (run_command (\<lambda>_ _ f. (\<lparr>stdout = [], stderr = [], outcome = Exited 2\<rparr>, f)) ''ruff'' [] Map.empty))"
  using run_command_classification [of "\<lambda>_ _ f. (\<lparr>stdout = [], stderr = [], outcome = Exited 2\<rparr>, f)" "''ruff''" "[]" Map.empty]
  by simp

text \<open>Property (registry_catalog). The registry: JavaScript and TypeScript files get biome, Python files ruff and pyright and the ruff formatter, Markdown files markdownlint; any other extension gets no tool at all.\<close>

theorem registry_catalog:
  "map linter_name (get_applicable_linters ext) =
     (if ext \<in> set [''js'', ''jsx'', ''ts'', ''tsx'', ''mjs'', ''cjs''] then [''biome'']
      else if ext = ''py'' then [''ruff'', ''pyright'']
      else if ext = ''md'' \<or> ext = ''markdown'' then [''markdownlint''] else []) \<and>
   map formatter_name (get_applicable_formatters ext) = (if ext = ''py'' then [''ruff-format''] else [])"
  by (auto simp: get_applicable_linters_def get_applicable_formatters_def all_linters_def all_formatters_def)

theorem registry_catalog_witness:
  "map linter_name (get_applicable_linters ''tsx'') = [''biome''] \<and>
   map formatter_name (get_applicable_formatters ''tsx'') = []"
  using registry_catalog [of "''tsx''"] by simp

text \<open>Property (linters_rewrite_staged_file). biome runs as check --write and ruff as check --fix: two of the linters that run concurrently on the staged file are asked to rewrite it; every tool gets the staged path as its last argument.\<close>

theorem linters_rewrite_staged_file:
  "''--write'' \<in> set (linter_args cfg dir BiomeLinter p) \<and>
   ''--fix'' \<in> set (linter_args cfg dir RuffLinter p) \<and>
   last (linter_args cfg dir l p) = p \<and> last (formatter_args cfg fm p) = p"
  by (cases fm) (simp add: linter_args_last)

theorem linters_rewrite_staged_file_witness:
  "''--write'' \<in> set (linter_args (load (\<lambda>_. [])) id BiomeLinter ''/tmp/a.js'') \<and>
   last (linter_args (load (\<lambda>_. [])) id PyrightLinter ''/tmp/a.py'') = ''/tmp/a.py''"
  using linters_rewrite_staged_file [of "load (\<lambda>_. [])" id "''/tmp/a.js''" PyrightLinter RuffFormatter]
    linters_rewrite_staged_file [of "load (\<lambda>_. [])" id "''/tmp/a.py''" PyrightLinter RuffFormatter]
  by simp

end
