(* ===== verification/Staging.thy ===== *)
theory Staging
  imports Prelude
begin

text \<open>
  Temp staging: \<open>createTempFile\<close> of \<open>internal/validator/validator.go\<close> and the
  operating-system calls it makes. The file system is a map from paths to contents
  (\<open>fs\<close>). An \<open>os_env\<close> fixes what the code cannot choose: \<open>os.TempDir()\<close>, the values
  that \<open>os.CreateTemp\<close>'s \<open>nextRandom\<close> draws (the \<open>k\<close>-th draw of one call is
  \<open>next_random env k\<close>) and which calls fail with an I/O error. \<open>os.CreateTemp\<close>
  follows Go's implementation: the pattern must not contain a separator, the last
  \<open>*\<close> splits it into prefix and suffix, and a name that exists already is retried,
  10000 times at most, before the call fails with \<open>ErrExist\<close>.
\<close>

datatype os_op = OpCreate | OpRename | OpWrite | OpRead | OpRemove

datatype os_error = ErrPatternHasSeparator | ErrExist | ErrNotExist | ErrIO os_op

record os_env =
  temp_dir :: path
  next_random :: "nat \<Rightarrow> string"
  fails :: "os_op \<Rightarrow> path \<Rightarrow> bool"

section \<open>The os package\<close>

text \<open>\<open>prefixAndSuffix\<close>: split the pattern at its last \<open>*\<close>.\<close>

definition prefix_and_suffix :: "string \<Rightarrow> os_error + string \<times> string" where
  "prefix_and_suffix pattern =
     (if slash \<in> set pattern then Inl ErrPatternHasSeparator
      else if CHR ''*'' \<in> set pattern then
        (let r = takeWhile (\<lambda>c. c \<noteq> CHR ''*'') (rev pattern)
         in Inr (take (length pattern - length r - 1) pattern, rev r))
      else Inr (pattern, []))"

text \<open>
  The retry loop of \<open>os.CreateTemp\<close>: draw \<open>k\<close> is tried, an existing name is retried
  while tries remain, a new name is created empty (\<open>O_CREATE|O_EXCL\<close>).
\<close>

fun create_temp_loop :: "os_env \<Rightarrow> fs \<Rightarrow> string \<Rightarrow> string \<Rightarrow> nat \<Rightarrow> nat \<Rightarrow> os_error + path \<times> fs" where
  "create_temp_loop env f pre suf k 0 = Inl ErrExist"
| "create_temp_loop env f pre suf k (Suc n) =
     (let name = pre @ next_random env k @ suf in
      if f name \<noteq> None then create_temp_loop env f pre suf (Suc k) n
      else if fails env OpCreate name then Inl (ErrIO OpCreate)
      else Inr (name, f(name \<mapsto> [])))"

definition os_create_temp :: "os_env \<Rightarrow> fs \<Rightarrow> path \<Rightarrow> string \<Rightarrow> os_error + path \<times> fs" where
  "os_create_temp env f dir pattern =
     (let dir' = (if dir = [] then temp_dir env else dir) in
      case prefix_and_suffix pattern of
        Inl e \<Rightarrow> Inl e
      | Inr (pre, suf) \<Rightarrow> create_temp_loop env f (join_path dir' pre) suf 0 10000)"

text \<open>\<open>os.Rename\<close> replaces an existing target.\<close>

definition os_rename :: "os_env \<Rightarrow> fs \<Rightarrow> path \<Rightarrow> path \<Rightarrow> os_error + fs" where
  "os_rename env f old new =
     (if fails env OpRename old then Inl (ErrIO OpRename)
      else case f old of
        None \<Rightarrow> Inl ErrNotExist
      | Some c \<Rightarrow> Inr ((f(old := None))(new \<mapsto> c)))"

definition os_write_file :: "os_env \<Rightarrow> fs \<Rightarrow> path \<Rightarrow> string \<Rightarrow> os_error + fs" where
  "os_write_file env f name c =
     (if fails env OpWrite name then Inl (ErrIO OpWrite) else Inr (f(name \<mapsto> c)))"

definition os_read_file :: "os_env \<Rightarrow> fs \<Rightarrow> path \<Rightarrow> os_error + string" where
  "os_read_file env f name =
     (if fails env OpRead name then Inl (ErrIO OpRead)
      else case f name of None \<Rightarrow> Inl ErrNotExist | Some c \<Rightarrow> Inr c)"

text \<open>\<open>os.Remove\<close>, its error ignored as every caller in the repository ignores it.\<close>

definition os_remove :: "os_env \<Rightarrow> fs \<Rightarrow> path \<Rightarrow> fs" where
  "os_remove env f name = (if fails env OpRemove name then f else f(name := None))"

section \<open>createTempFile\<close>

datatype staging_error = CreateTempFailed os_error | RenameFailed os_error | WriteFailed os_error

definition create_temp_file :: "os_env \<Rightarrow> fs \<Rightarrow> path \<Rightarrow> string \<Rightarrow> (staging_error + path) \<times> fs" where
  "create_temp_file env f original content =
     (let ext = go_ext original;
          base = trim_suffix (go_base original) ext
      in case os_create_temp env f [] (base @ ''.*'') of
           Inl e \<Rightarrow> (Inl (CreateTempFailed e), f)
         | Inr (tmp_name, f1) \<Rightarrow>
             (let r = (if ext \<noteq> [] then
                         (let new_name = trim_suffix tmp_name (go_ext tmp_name) @ ext in
                          case os_rename env f1 tmp_name new_name of
                            Inl e \<Rightarrow> Inl (RenameFailed e, os_remove env f1 tmp_name)
                          | Inr f2 \<Rightarrow> Inr (new_name, f2))
                       else Inr (tmp_name, f1))
              in case r of
                   Inl (e, f2) \<Rightarrow> (Inl e, f2)
                 | Inr (name, f2) \<Rightarrow>
                     (case os_write_file env f2 name content of
                        Inl e \<Rightarrow> (Inl (WriteFailed e), os_remove env f2 name)
                      | Inr f3 \<Rightarrow> (Inr name, f3))))"

text \<open>
  An environment for the examples: \<open>/tmp\<close> as the temporary directory, distinct
  decimal random names (\<open>4711\<close>, \<open>47110\<close>, \<open>471100\<close>, ...), no failing call.
\<close>

definition demo_env :: os_env where
  "demo_env = \<lparr>temp_dir = ''/tmp'', next_random = (\<lambda>k. ''4711'' @ replicate k (CHR ''0'')), fails = (\<lambda>_ _. False)\<rparr>"

section \<open>Staging lemmas\<close>

lemma prefix_and_suffix_star:
  "slash \<notin> set b \<Longrightarrow> prefix_and_suffix (b @ ''.*'') = Inr (b @ ''.'', [])"
  by (simp add: prefix_and_suffix_def)

lemma create_temp_loop_Inr:
  "create_temp_loop env f pre suf k n = Inr (name, f') \<Longrightarrow>
     \<exists>j. name = pre @ next_random env j @ suf \<and> f name = None \<and> f' = f(name \<mapsto> [])"
  by (induction env f pre suf k n rule: create_temp_loop.induct) (auto simp: Let_def split: if_splits)

lemma create_temp_file_Inr:
  assumes "fst (create_temp_file env f p c) = Inr t"
  shows "\<exists>tmp f1 f2. os_create_temp env f [] (trim_suffix (go_base p) (go_ext p) @ ''.*'') = Inr (tmp, f1) \<and>
     (if go_ext p \<noteq> [] then t = trim_suffix tmp (go_ext tmp) @ go_ext p \<and> os_rename env f1 tmp t = Inr f2
      else t = tmp \<and> f2 = f1) \<and>
     \<not> fails env OpWrite t \<and> snd (create_temp_file env f p c) = f2(t \<mapsto> c)"
  using assms
  by (auto simp: create_temp_file_def Let_def os_write_file_def split: sum.splits prod.splits if_splits)


lemma os_create_temp_Inr:
  "os_create_temp env f d pat = Inr (tmp, f1) \<Longrightarrow> f tmp = None \<and> f1 = f(tmp \<mapsto> [])"
  by (auto simp: os_create_temp_def Let_def split: sum.splits dest!: create_temp_loop_Inr)

text \<open>
  The retry loop in closed form: the first free name among the next \<open>n\<close> draws is
  created, unless its creation fails; with all \<open>n\<close> taken the loop gives up with
  \<open>ErrExist\<close>.
\<close>

lemma create_temp_loop_find:
  "create_temp_loop env f pre suf k n =
     (case find (\<lambda>j. f (pre @ next_random env (k + j) @ suf) = None) [0..<n] of
        None \<Rightarrow> Inl ErrExist
      | Some j \<Rightarrow>
          (let name = pre @ next_random env (k + j) @ suf
           in if fails env OpCreate name then Inl (ErrIO OpCreate) else Inr (name, f(name \<mapsto> []))))"
proof (induction n arbitrary: k)
  case 0
  then show ?case by simp
next
  case (Suc n)
  show ?case
    unfolding find_upt_Suc
    using Suc.IH [of "Suc k"]
    by (cases "find (\<lambda>j. f (pre @ next_random env (Suc k + j) @ suf) = None) [0..<n]")
      (simp_all add: Let_def)
qed

lemma create_temp_file_CreateTempFailed:
  "fst (create_temp_file env f p c) = Inl (CreateTempFailed e) \<longleftrightarrow>
   os_create_temp env f [] (trim_suffix (go_base p) (go_ext p) @ ''.*'') = Inl e"
  by (auto simp: create_temp_file_def Let_def split: sum.splits prod.splits if_splits)

text \<open>Claim C6 (staged_path_is_base_name). createTempFile does not produce a unique name: whatever os.CreateTemp draws, the rename that restores the extension also strips the random part, so the staged file is the temporary directory joined with the original base name (src/app.py is staged at /tmp/app.py).\<close>

theorem staged_path_is_base_name:
  assumes ok: "fst (create_temp_file env f p c) = Inr t"
    and ext: "go_ext p \<noteq> []"
    and rnd: "\<forall>k. dot \<notin> set (next_random env k) \<and> slash \<notin> set (next_random env k)"
  shows "t = join_path (temp_dir env) (go_base p)"
proof -
  let ?b = "trim_suffix (go_base p) (go_ext p)"
  let ?T = "temp_dir env"
  from create_temp_file_Inr [OF ok] ext obtain tmp f1 where
    ct: "os_create_temp env f [] (?b @ ''.*'') = Inr (tmp, f1)"
    and t: "t = trim_suffix tmp (go_ext tmp) @ go_ext p"
    by auto
  have "slash \<notin> set ?b"
  proof
    assume "slash \<in> set ?b"
    then have "prefix_and_suffix (?b @ ''.*'') = Inl ErrPatternHasSeparator"
      by (simp add: prefix_and_suffix_def)
    with ct show False
      by (simp add: os_create_temp_def)
  qed
  then have "create_temp_loop env f (join_path ?T (?b @ ''.'')) [] 0 10000 = Inr (tmp, f1)"
    using ct by (simp add: os_create_temp_def prefix_and_suffix_star)
  then obtain j where tmp: "tmp = join_path ?T ?b @ dot # next_random env j"
    by (auto simp: join_path_append dest!: create_temp_loop_Inr)
  with rnd have "go_ext tmp = dot # next_random env j"
    by (simp add: go_ext_append)
  with tmp have "trim_suffix tmp (go_ext tmp) = join_path ?T ?b"
    by simp
  with t have "t = join_path ?T (?b @ go_ext p)"
    by (simp add: join_path_append)
  also have "?b @ go_ext p = go_base p"
    using go_ext_suffix_of_base [OF ext] by (rule trim_suffix_has_suffix)
  finally show ?thesis .
qed

text \<open>Property (staged_file_holds_content). A successful staging leaves the full text in the staged file.\<close>

theorem staged_file_holds_content:
  "fst (create_temp_file env f p c) = Inr t \<Longrightarrow> snd (create_temp_file env f p c) t = Some c"
  by (auto dest!: create_temp_file_Inr)

text \<open>Claim C27 (staging_failure_adds_no_file). A failed staging leaves no file behind: when removal works, the file system afterwards is contained in the one before.\<close>

theorem staging_failure_adds_no_file:
  assumes fail: "fst (create_temp_file env f p c) = Inl e" and rm: "\<forall>q. \<not> fails env OpRemove q"
  shows "snd (create_temp_file env f p c) \<subseteq>\<^sub>m f"
proof (cases "os_create_temp env f [] (trim_suffix (go_base p) (go_ext p) @ ''.*'')")
  case (Inl err)
  then show ?thesis
    by (simp add: create_temp_file_def Let_def)
next
  case (Inr r)
  then obtain tmp f1 where ct: "os_create_temp env f [] (trim_suffix (go_base p) (go_ext p) @ ''.*'') = Inr (tmp, f1)"
    by (cases r) auto
  from os_create_temp_Inr [OF ct] have new: "f tmp = None" and f1: "f1 = f(tmp \<mapsto> [])"
    by auto
  show ?thesis
    using fail rm ct new unfolding f1
    by (auto simp: create_temp_file_def Let_def os_rename_def os_write_file_def os_remove_def
        map_le_def split: if_splits option.splits sum.splits)
qed

theorem staged_path_is_base_name_witness:
  "fst (create_temp_file demo_env Map.empty ''src/app.py'' ''x=1'') = Inr ''/tmp/app.py'' \<and>
   ''/tmp/app.py'' = join_path (temp_dir demo_env) (go_base ''src/app.py'')"
proof -
  have ok: "fst (create_temp_file demo_env Map.empty ''src/app.py'' ''x=1'') = Inr ''/tmp/app.py''"
    by code_simp
  have "go_ext ''src/app.py'' \<noteq> []"
    by (simp add: go_ext_def)
  moreover have "\<forall>k. dot \<notin> set (next_random demo_env k) \<and> slash \<notin> set (next_random demo_env k)"
    by (simp add: demo_env_def)
  ultimately show ?thesis
    using ok staged_path_is_base_name [OF ok] by simp
qed

theorem staged_file_holds_content_witness:
  "snd (create_temp_file demo_env Map.empty ''src/app.py'' ''x=1'') ''/tmp/app.py'' = Some ''x=1''"
proof -
  have "fst (create_temp_file demo_env Map.empty ''src/app.py'' ''x=1'') = Inr ''/tmp/app.py''"
    by code_simp
  then show ?thesis by (rule staged_file_holds_content)
qed

theorem staging_failure_adds_no_file_witness:
  "fst (create_temp_file (demo_env\<lparr>fails := (\<lambda>op _. op = OpWrite)\<rparr>) [''/tmp/app.py'' \<mapsto> ''old''] ''src/app.py'' ''x=1'')
     = Inl (WriteFailed (ErrIO OpWrite)) \<and>
   snd (create_temp_file (demo_env\<lparr>fails := (\<lambda>op _. op = OpWrite)\<rparr>) [''/tmp/app.py'' \<mapsto> ''old''] ''src/app.py'' ''x=1'')
     \<subseteq>\<^sub>m [''/tmp/app.py'' \<mapsto> ''old'']"
proof -
  have f: "fst (create_temp_file (demo_env\<lparr>fails := (\<lambda>op _. op = OpWrite)\<rparr>) [''/tmp/app.py'' \<mapsto> ''old''] ''src/app.py'' ''x=1'')
     = Inl (WriteFailed (ErrIO OpWrite))"
    by code_simp
  have "\<forall>q. \<not> fails (demo_env\<lparr>fails := (\<lambda>op _. op = OpWrite)\<rparr>) OpRemove q"
    by simp
  with f staging_failure_adds_no_file [OF f] show ?thesis by simp
qed

text \<open>
  Claim C26 (create_temp_gives_up). The retry loop of \<open>os.CreateTemp\<close> in
  \<open>createTempFile\<close> is bounded: staging fails with \<open>ErrExist\<close> exactly when each of
  the first 10000 names drawn for the pattern \<open><base>.*\<close> is taken already.
\<close>

theorem create_temp_gives_up:
  assumes "slash \<notin> set (trim_suffix (go_base p) (go_ext p))"
  shows "fst (create_temp_file env f p c) = Inl (CreateTempFailed ErrExist) \<longleftrightarrow>
    (\<forall>j < 10000. f (join_path (temp_dir env) (trim_suffix (go_base p) (go_ext p) @ ''.'') @ next_random env j) \<noteq> None)"
proof -
  let ?P = "\<lambda>j. f (join_path (temp_dir env) (trim_suffix (go_base p) (go_ext p) @ ''.'') @ next_random env j) = None"
  have "fst (create_temp_file env f p c) = Inl (CreateTempFailed ErrExist) \<longleftrightarrow>
      find ?P [0..<10000] = None"
    using assms
    by (simp add: create_temp_file_CreateTempFailed os_create_temp_def prefix_and_suffix_star
        create_temp_loop_find Let_def split: option.splits)
  also have "\<dots> \<longleftrightarrow> (\<forall>j < 10000. \<not> ?P j)"
    by (simp add: find_None_iff)
  finally show ?thesis by simp
qed


theorem create_temp_gives_up_witness:
  "fst (create_temp_file demo_env (\<lambda>q. if has_prefix q ''/tmp/a.'' then Some [] else None) ''a.py'' ''x=1'')
     = Inl (CreateTempFailed ErrExist)"
proof -
  have b: "trim_suffix (go_base ''a.py'') (go_ext ''a.py'') = ''a''"
    by code_simp
  have "slash \<notin> set (trim_suffix (go_base ''a.py'') (go_ext ''a.py''))"
    by (simp add: b)
  moreover have "\<forall>j < 10000. (\<lambda>q. if has_prefix q ''/tmp/a.'' then Some [] else None)
      (join_path (temp_dir demo_env) (trim_suffix (go_base ''a.py'') (go_ext ''a.py'') @ ''.'') @ next_random demo_env j) \<noteq> None"
    by (simp add: b demo_env_def join_path_def has_prefix_def)
  ultimately show ?thesis
    using create_temp_gives_up by blast
qed

end
