(* ===== verification/Validator.thy ===== *)
theory Validator
  imports Markdown Linters Staging
begin

text \<open>
  The orchestrator, \<open>Validator.Validate\<close> of \<open>internal/validator/validator.go\<close>.
  One pass: the rule check on the changed text, the short cuts (no path, no extension,
  an edit, an empty full text), staging, the formatters in registry order, the linters
  in goroutines of an \<open>errgroup\<close>, the read-back of the staged file and the deferred
  \<open>os.Remove\<close>. The pass returns the result or an error, the file system after it and
  the warnings it printed on standard error.

  The goroutines are modelled by their interleaving: each linter's run (read the staged
  file, run the tool, let it write) is one atomic step, and \<open>schedule\<close> is the order the
  Go scheduler happens to complete them in. \<open>schedule_order\<close> turns any list into a
  permutation of the goroutine indices, so every order the scheduler may choose is one
  value of \<open>schedule\<close> and every value is an order. Each goroutine stores its result
  at its own index of \<open>results\<close>, a slice \<open>make\<close> filled with zero values, and
  returns \<open>nil\<close>, so \<open>g.Wait()\<close> returns \<open>nil\<close>.
\<close>

record validation_input =
  file_path :: path
  change_content :: string
  full_content :: string
  is_edit_operation :: bool

record validation_result =
  markdown_issues :: "markdown_issue list"
  lint_results :: "lint_result list"
  has_errors :: bool
  formatted_content :: string
  was_formatted :: bool

datatype validate_error = TempFileError staging_error | LinterExecutionFailed

text \<open>What one run depends on besides its input: the operating system, the external
  tools, \<open>filepath.Dir\<close>, and the order in which the linter goroutines run.\<close>

record run_env =
  run_os :: os_env
  run_tools :: tool_env
  run_dir :: "path \<Rightarrow> path"
  schedule :: "nat list"

definition empty_result :: validation_result where
  "empty_result =
     \<lparr>markdown_issues = [], lint_results = [], has_errors = False, formatted_content = [],
      was_formatted = False\<rparr>"

text \<open>The zero value of \<open>LintResult\<close> that \<open>make\<close> puts into the results slice.\<close>

definition zero_lint_result :: lint_result where
  "zero_lint_result = \<lparr>lint_name = [], passed = False, lint_output = [], lint_error = None\<rparr>"

section \<open>The steps of one pass\<close>

text \<open>The markdown check of the changed text.\<close>

definition rule_check :: "string \<Rightarrow> validation_input \<Rightarrow> validation_result \<Rightarrow> validation_result" where
  "rule_check ext input res =
     (if (ext = ''md'' \<or> ext = ''markdown'') \<and> change_content input \<noteq> [] then
        (let issues = check_markdown_bold (change_content input) in
         if issues \<noteq> [] then res\<lparr>markdown_issues := issues, has_errors := True\<rparr> else res)
      else res)"

text \<open>The formatter loop: a failure prints a warning and the loop goes on.\<close>

fun run_formatters :: "config \<Rightarrow> tool_env \<Rightarrow> formatter list \<Rightarrow> path \<Rightarrow> fs \<Rightarrow> fs \<times> string list" where
  "run_formatters cfg env [] p f = (f, [])"
| "run_formatters cfg env (fm # fms) p f =
     (let (err, f1) = formatter_format cfg env fm p f;
          w = (case err of
                 None \<Rightarrow> []
               | Some e \<Rightarrow> [''Warning: '' @ formatter_name fm @ '' formatting failed: '' @ e @ [nl]]);
          (f2, ws) = run_formatters cfg env fms p f1
      in (f2, w @ ws))"

text \<open>The goroutines in the order they run: each stores its result at its index.\<close>

fun run_in_order :: "config \<Rightarrow> (path \<Rightarrow> path) \<Rightarrow> tool_env \<Rightarrow> linter list \<Rightarrow> path \<Rightarrow> nat list \<Rightarrow>
    lint_result list \<times> fs \<Rightarrow> lint_result list \<times> fs" where
  "run_in_order cfg dir env ls p [] st = st"
| "run_in_order cfg dir env ls p (i # is) (rs, f) =
     (let (r, f') = linter_run cfg dir env (ls ! i) p f
      in run_in_order cfg dir env ls p is (rs[i := r], f'))"

definition schedule_order :: "nat list \<Rightarrow> nat \<Rightarrow> nat list" where
  "schedule_order sched n = remdups (filter (\<lambda>i. i < n) sched) @ filter (\<lambda>i. i \<notin> set sched) [0..<n]"

definition run_linters :: "config \<Rightarrow> run_env \<Rightarrow> linter list \<Rightarrow> path \<Rightarrow> fs \<Rightarrow> lint_result list \<times> fs" where
  "run_linters cfg env ls p f =
     run_in_order cfg (run_dir env) (run_tools env) ls p (schedule_order (schedule env) (length ls))
       (replicate (length ls) zero_lint_result, f)"

text \<open>\<open>g.Wait()\<close>: the first error a goroutine returned.\<close>

definition group_wait :: "string option list \<Rightarrow> string option" where
  "group_wait errs = (case filter (\<lambda>e. e \<noteq> None) errs of [] \<Rightarrow> None | e # _ \<Rightarrow> e)"

text \<open>Reading the staged file back: a changed content is reported as formatted.\<close>

definition read_back :: "os_env \<Rightarrow> fs \<Rightarrow> path \<Rightarrow> string \<Rightarrow> validation_result \<Rightarrow> validation_result" where
  "read_back env f tmp full res =
     (case os_read_file env f tmp of
        Inr c \<Rightarrow> if c \<noteq> full then res\<lparr>formatted_content := c, was_formatted := True\<rparr> else res
      | Inl _ \<Rightarrow> res)"

text \<open>The pass after staging succeeded at \<open>tmp\<close>; the file is removed on every return.\<close>

definition validate_staged :: "config \<Rightarrow> run_env \<Rightarrow> string \<Rightarrow> validation_input \<Rightarrow> path \<Rightarrow>
    validation_result \<Rightarrow> fs \<Rightarrow> (validate_error + validation_result) \<times> fs \<times> string list" where
  "validate_staged cfg env ext input tmp res f =
     (let (f2, warns) = run_formatters cfg (run_tools env) (get_applicable_formatters ext) tmp f;
          linters = get_applicable_linters ext
      in if linters = [] then
           (Inr (read_back (run_os env) f2 tmp (full_content input) res),
            os_remove (run_os env) f2 tmp, warns)
         else
           (let (results, f3) = run_linters cfg env linters tmp f2
            in if group_wait (map (\<lambda>_. None) linters) \<noteq> None then
                 (Inl LinterExecutionFailed, os_remove (run_os env) f3 tmp, warns)
               else
                 (let res2 = res\<lparr>lint_results := lint_results res @ results,
                                 has_errors := has_errors res \<or> list_ex (\<lambda>r. \<not> passed r) results\<rparr>
                  in (Inr (read_back (run_os env) f3 tmp (full_content input) res2),
                      os_remove (run_os env) f3 tmp, warns))))"

definition validate :: "config \<Rightarrow> run_env \<Rightarrow> validation_input \<Rightarrow> fs \<Rightarrow>
    (validate_error + validation_result) \<times> fs \<times> string list" where
  "validate cfg env input f =
     (if file_path input = [] then (Inr empty_result, f, [])
      else
        (let ext = trim_prefix (go_ext (file_path input)) ''.''
         in if ext = [] then (Inr empty_result, f, [])
            else
              (let res = rule_check ext input empty_result
               in if is_edit_operation input then (Inr res, f, [])
                  else if full_content input = [] then (Inr res, f, [])
                  else
                    (case create_temp_file (run_os env) f (file_path input) (full_content input) of
                       (Inl e, f1) \<Rightarrow> (Inl (TempFileError e), f1, [])
                     | (Inr tmp, f1) \<Rightarrow> validate_staged cfg env ext input tmp res f1))))"

text \<open>
  The well-formedness of a result: \<open>HasErrors\<close> holds exactly when there is a markdown
  finding or a failed tool, and formatted content is reported exactly when it differs
  from the submitted text.
\<close>

definition wf_result :: "string \<Rightarrow> validation_result \<Rightarrow> bool" where
  "wf_result full r \<longleftrightarrow>
     (has_errors r \<longleftrightarrow> markdown_issues r \<noteq> [] \<or> list_ex (\<lambda>lr. \<not> passed lr) (lint_results r)) \<and>
     (if was_formatted r then formatted_content r \<noteq> full else formatted_content r = [])"

text \<open>The extension \<open>Validate\<close> dispatches on, without its dot.\<close>

abbreviation ext_of :: "validation_input \<Rightarrow> string" where
  "ext_of input \<equiv> trim_prefix (go_ext (file_path input)) ''.''"

section \<open>Example environments\<close>

text \<open>
  Tool environments for the scenarios: tools that pass and leave the file alone; a ruff
  that flags \<open>x=1\<close>; tools killed by the deadline; a \<open>ruff check --fix\<close> that rewrites
  the staged file while a pyright reads it; a \<open>ruff format\<close> that rewrites it.
\<close>

definition quiet_tools :: tool_env where
  "quiet_tools name args f = (\<lparr>stdout = [], stderr = [], outcome = Exited 0\<rparr>, f)"

definition flag_tools :: tool_env where
  "flag_tools name args f =
     (if name = ''ruff'' \<and> take 1 args = [''check''] \<and> f (last args) = Some ''x=1\<newline>''
      then (\<lparr>stdout = ''E225 Missing whitespace around operator'', stderr = [], outcome = Exited 1\<rparr>, f)
      else (\<lparr>stdout = [], stderr = [], outcome = Exited 0\<rparr>, f))"

definition killed_tools :: tool_env where
  "killed_tools name args f = (\<lparr>stdout = [], stderr = [], outcome = Signaled ''killed''\<rparr>, f)"

definition racy_tools :: tool_env where
  "racy_tools name args f =
     (if name = ''ruff'' \<and> take 1 args = [''check'']
      then (\<lparr>stdout = [], stderr = [], outcome = Exited 0\<rparr>, f(last args \<mapsto> ''x = 1\<newline>''))
      else if name = ''pyright'' \<and> f (last args) \<noteq> Some ''x = 1\<newline>''
      then (\<lparr>stdout = ''error: reportGeneralTypeIssues'', stderr = [], outcome = Exited 1\<rparr>, f)
      else (\<lparr>stdout = [], stderr = [], outcome = Exited 0\<rparr>, f))"

definition format_tools :: tool_env where
  "format_tools name args f =
     (if name = ''ruff'' \<and> take 1 args = [''format'']
      then (\<lparr>stdout = [], stderr = [], outcome = Exited 0\<rparr>, f(last args \<mapsto> ''x = 1\<newline>''))
      else (\<lparr>stdout = [], stderr = [], outcome = Exited 0\<rparr>, f))"

definition demo_run :: "tool_env \<Rightarrow> nat list \<Rightarrow> run_env" where
  "demo_run tools sched = \<lparr>run_os = demo_env, run_tools = tools, run_dir = (\<lambda>p. p), schedule = sched\<rparr>"

definition demo_cfg :: config where
  "demo_cfg = load (\<lambda>_. [])"

definition py_write :: validation_input where
  "py_write = \<lparr>file_path = ''a.py'', change_content = ''x=1\<newline>'', full_content = ''x=1\<newline>'', is_edit_operation = False\<rparr>"

definition md_edit :: validation_input where
  "md_edit = \<lparr>file_path = ''a.md'', change_content = ''This is **bold**'', full_content = [],
     is_edit_operation = True\<rparr>"

section \<open>The linter fan-out\<close>


lemma schedule_order_distinct: "distinct (schedule_order s n)"
  by (auto simp: schedule_order_def)

lemma schedule_order_set: "set (schedule_order s n) = {0..<n}"
  by (auto simp: schedule_order_def)

lemma schedule_order_length [simp]: "length (schedule_order s n) = n"
  using distinct_card [OF schedule_order_distinct [of s n]] by (simp add: schedule_order_set)

text \<open>Each slot a goroutine ran holds that linter's result on the file system of the moment.\<close>

lemma run_in_order_slots:
  assumes "distinct is" and "\<forall>i \<in> set is. i < length rs"
  shows "length (fst (run_in_order cfg dir env ls p is (rs, f))) = length rs \<and>
    (\<forall>i < length rs. (i \<notin> set is \<longrightarrow> fst (run_in_order cfg dir env ls p is (rs, f)) ! i = rs ! i) \<and>
       (i \<in> set is \<longrightarrow> (\<exists>g. fst (run_in_order cfg dir env ls p is (rs, f)) ! i
                                 = fst (linter_run cfg dir env (ls ! i) p g))))"
  using assms
proof (induction "is" arbitrary: rs f)
  case Nil
  then show ?case by simp
next
  case (Cons j js)
  obtain r f' where run: "linter_run cfg dir env (ls ! j) p f = (r, f')"
    by (cases "linter_run cfg dir env (ls ! j) p f")
  let ?rs = "rs[j := r]"
  have IH: "length (fst (run_in_order cfg dir env ls p js (?rs, f'))) = length ?rs \<and>
    (\<forall>i < length ?rs. (i \<notin> set js \<longrightarrow> fst (run_in_order cfg dir env ls p js (?rs, f')) ! i = ?rs ! i) \<and>
       (i \<in> set js \<longrightarrow> (\<exists>g. fst (run_in_order cfg dir env ls p js (?rs, f')) ! i
                                 = fst (linter_run cfg dir env (ls ! i) p g))))"
    using Cons.prems by (intro Cons.IH) auto
  have j: "j < length rs" "j \<notin> set js"
    using Cons.prems by auto
  show ?case
  proof (intro conjI allI impI)
    show "length (fst (run_in_order cfg dir env ls p (j # js) (rs, f))) = length rs"
      using IH run by simp
  next
    fix i assume "i < length rs" "i \<notin> set (j # js)"
    with IH run show "fst (run_in_order cfg dir env ls p (j # js) (rs, f)) ! i = rs ! i"
      by simp
  next
    fix i assume i: "i < length rs" "i \<in> set (j # js)"
    show "\<exists>g. fst (run_in_order cfg dir env ls p (j # js) (rs, f)) ! i = fst (linter_run cfg dir env (ls ! i) p g)"
    proof (cases "i = j")
      case True
      with IH run j have "fst (run_in_order cfg dir env ls p (j # js) (rs, f)) ! i = r"
        by simp
      with run True show ?thesis
        by (metis fst_conv)
    next
      case False
      with IH run i show ?thesis
        by simp
    qed
  qed
qed

text \<open>With linters that leave the file system alone, the order does not matter.\<close>

lemma run_in_order_read_only:
  assumes "\<forall>i \<in> set is. \<forall>g. snd (linter_run cfg dir env (ls ! i) p g) = g"
  shows "run_in_order cfg dir env ls p is (rs, f) =
    (foldl (\<lambda>xs i. xs[i := fst (linter_run cfg dir env (ls ! i) p f)]) rs is, f)"
  using assms
proof (induction "is" arbitrary: rs)
  case Nil
  then show ?case by simp
next
  case (Cons j js)
  obtain r f' where run: "linter_run cfg dir env (ls ! j) p f = (r, f')"
    by (cases "linter_run cfg dir env (ls ! j) p f")
  with Cons.prems have "f' = f"
    by (metis list.set_intros(1) snd_conv)
  with run Cons.IH [of "rs[j := r]"] Cons.prems show ?case
    by simp
qed

lemma foldl_update_distinct:
  "distinct is \<Longrightarrow> \<forall>i \<in> set is. i < length rs \<Longrightarrow>
   foldl (\<lambda>xs i. xs[i := h i]) rs is = map (\<lambda>i. if i \<in> set is then h i else rs ! i) [0..<length rs]"
proof (induction "is" arbitrary: rs)
  case Nil
  then show ?case by (simp add: map_nth)
next
  case (Cons j js)
  then show ?case
    by (auto simp: nth_list_update intro!: map_cong)
qed


lemma run_linters_names: "map lint_name (fst (run_linters cfg env ls p f)) = map linter_name ls"
proof -
  let ?is = "schedule_order (schedule env) (length ls)"
  let ?rs = "replicate (length ls) zero_lint_result"
  have "distinct ?is" and "\<forall>i \<in> set ?is. i < length ?rs"
    by (simp_all add: schedule_order_distinct schedule_order_set)
  from run_in_order_slots [OF this, of cfg "run_dir env" "run_tools env" ls p f]
  have len: "length (fst (run_linters cfg env ls p f)) = length ls"
    and slot: "\<forall>i < length ls. \<exists>g. fst (run_linters cfg env ls p f) ! i
                 = fst (linter_run cfg (run_dir env) (run_tools env) (ls ! i) p g)"
    by (auto simp: run_linters_def schedule_order_set)
  show ?thesis
  proof (rule nth_equalityI)
    show "length (map lint_name (fst (run_linters cfg env ls p f))) = length (map linter_name ls)"
      using len by simp
  next
    fix i assume "i < length (map lint_name (fst (run_linters cfg env ls p f)))"
    with len slot obtain g where "fst (run_linters cfg env ls p f) ! i
        = fst (linter_run cfg (run_dir env) (run_tools env) (ls ! i) p g)" and "i < length ls"
      by auto
    then show "map lint_name (fst (run_linters cfg env ls p f)) ! i = map linter_name ls ! i"
      using len by (simp add: linter_run_name)
  qed
qed

lemma run_linters_read_only:
  assumes "\<forall>l \<in> set ls. \<forall>g. snd (linter_run cfg (run_dir env) (run_tools env) l p g) = g"
  shows "run_linters cfg env ls p f = (map (\<lambda>l. fst (linter_run cfg (run_dir env) (run_tools env) l p f)) ls, f)"
proof -
  let ?is = "schedule_order (schedule env) (length ls)"
  let ?h = "\<lambda>i. fst (linter_run cfg (run_dir env) (run_tools env) (ls ! i) p f)"
  have ro: "\<forall>i \<in> set ?is. \<forall>g. snd (linter_run cfg (run_dir env) (run_tools env) (ls ! i) p g) = g"
    using assms by (simp add: schedule_order_set)
  have "foldl (\<lambda>xs i. xs[i := ?h i]) (replicate (length ls) zero_lint_result) ?is
      = map (\<lambda>i. if i \<in> set ?is then ?h i else replicate (length ls) zero_lint_result ! i) [0..<length ls]"
    using foldl_update_distinct [of ?is "replicate (length ls) zero_lint_result" ?h]
    by (simp add: schedule_order_distinct schedule_order_set)
  also have "\<dots> = map ?h [0..<length ls]"
    by (simp add: schedule_order_set)
  also have "\<dots> = map (\<lambda>l. fst (linter_run cfg (run_dir env) (run_tools env) l p f)) (map ((!) ls) [0..<length ls])"
    by simp
  also have "\<dots> = map (\<lambda>l. fst (linter_run cfg (run_dir env) (run_tools env) l p f)) ls"
    by (simp only: map_nth)
  finally have fo: "foldl (\<lambda>xs i. xs[i := ?h i]) (replicate (length ls) zero_lint_result) ?is
      = map (\<lambda>l. fst (linter_run cfg (run_dir env) (run_tools env) l p f)) ls" .
  have "run_linters cfg env ls p f
      = (foldl (\<lambda>xs i. xs[i := ?h i]) (replicate (length ls) zero_lint_result) ?is, f)"
    unfolding run_linters_def by (rule run_in_order_read_only [OF ro])
  with fo show ?thesis
    by simp
qed

lemma group_wait_nil [simp]: "group_wait (map (\<lambda>_. None) xs) = None"
  by (induction xs) (simp_all add: group_wait_def)

lemma validate_staged_eq:
  "validate_staged cfg env ext input tmp res f =
     (let (f2, warns) = run_formatters cfg (run_tools env) (get_applicable_formatters ext) tmp f;
          ls = get_applicable_linters ext;
          (results, f3) = (if ls = [] then ([], f2) else run_linters cfg env ls tmp f2);
          res2 = res\<lparr>lint_results := lint_results res @ results,
                     has_errors := has_errors res \<or> list_ex (\<lambda>r. \<not> passed r) results\<rparr>
      in (Inr (read_back (run_os env) f3 tmp (full_content input) res2), os_remove (run_os env) f3 tmp, warns))"
  by (simp add: validate_staged_def Let_def split: prod.splits)

lemma read_back_fields [simp]:
  "markdown_issues (read_back env f tmp full res) = markdown_issues res"
  "lint_results (read_back env f tmp full res) = lint_results res"
  "has_errors (read_back env f tmp full res) = has_errors res"
  by (simp_all add: read_back_def split: sum.splits)

lemma read_back_wf: "wf_result full res \<Longrightarrow> wf_result full (read_back env f tmp full res)"
  by (auto simp: read_back_def wf_result_def split: sum.splits)

lemma empty_result_wf [simp]: "wf_result full empty_result"
  by (simp add: wf_result_def empty_result_def)

lemma rule_check_fields [simp]:
  "lint_results (rule_check ext input res) = lint_results res"
  "was_formatted (rule_check ext input res) = was_formatted res"
  "formatted_content (rule_check ext input res) = formatted_content res"
  by (simp_all add: rule_check_def Let_def)

lemma rule_check_wf: "wf_result full (rule_check ext input empty_result)"
  by (simp add: rule_check_def Let_def wf_result_def empty_result_def)

lemma lint_append_wf:
  "wf_result full res \<Longrightarrow>
   wf_result full (res\<lparr>lint_results := lint_results res @ rs,
                      has_errors := has_errors res \<or> list_ex (\<lambda>r. \<not> passed r) rs\<rparr>)"
  by (auto simp: wf_result_def)

lemma validate_short:
  "file_path input = [] \<or> trim_prefix (go_ext (file_path input)) ''.'' = [] \<Longrightarrow>
   validate cfg env input f = (Inr empty_result, f, [])"
  by (auto simp: validate_def Let_def)

lemma validate_edit:
  "file_path input \<noteq> [] \<Longrightarrow> is_edit_operation input \<or> full_content input = [] \<Longrightarrow>
   validate cfg env input f =
     (Inr (rule_check (trim_prefix (go_ext (file_path input)) ''.'') input empty_result), f, [])"
  by (auto simp: validate_def Let_def rule_check_def empty_result_def)

lemma validate_full:
  "file_path input \<noteq> [] \<Longrightarrow> trim_prefix (go_ext (file_path input)) ''.'' \<noteq> [] \<Longrightarrow>
   \<not> is_edit_operation input \<Longrightarrow> full_content input \<noteq> [] \<Longrightarrow>
   validate cfg env input f =
     (case create_temp_file (run_os env) f (file_path input) (full_content input) of
        (Inl e, f1) \<Rightarrow> (Inl (TempFileError e), f1, [])
      | (Inr tmp, f1) \<Rightarrow> validate_staged cfg env (trim_prefix (go_ext (file_path input)) ''.'') input tmp
                           (rule_check (trim_prefix (go_ext (file_path input)) ''.'') input empty_result) f1)"
  by (simp add: validate_def Let_def)

section \<open>One pass\<close>


lemma run_linters_names_pair:
  "run_linters cfg env ls p f = (rs, f') \<Longrightarrow> map lint_name rs = map linter_name ls"
  using run_linters_names [of cfg env ls p f] by simp

lemma validate_staged_Inr:
  "\<exists>r. fst (validate_staged cfg env ext input tmp res f) = Inr r \<and>
     markdown_issues r = markdown_issues res \<and>
     map lint_name (lint_results r) = map lint_name (lint_results res) @ map linter_name (get_applicable_linters ext) \<and>
     (wf_result (full_content input) res \<longrightarrow> wf_result (full_content input) r)"
  by (auto simp: validate_staged_eq Let_def read_back_wf lint_append_wf
      dest: run_linters_names_pair split: prod.splits)

lemma validate_Inl:
  "fst (validate cfg env input f) = Inl e \<Longrightarrow>
     \<exists>se f1. create_temp_file (run_os env) f (file_path input) (full_content input) = (Inl se, f1) \<and>
       e = TempFileError se"
proof (cases "file_path input = [] \<or> ext_of input = []")
  case True
  then show "fst (validate cfg env input f) = Inl e \<Longrightarrow> ?thesis"
    by (simp add: validate_short)
next
  case False
  assume v: "fst (validate cfg env input f) = Inl e"
  show ?thesis
  proof (cases "is_edit_operation input \<or> full_content input = []")
    case True
    with False v show ?thesis by (simp add: validate_edit)
  next
    case nf: False
    show ?thesis
    proof (cases "create_temp_file (run_os env) f (file_path input) (full_content input)")
      case (Pair r f1)
      show ?thesis
      proof (cases r)
        case (Inl se)
        with Pair False nf v show ?thesis by (simp add: validate_full)
      next
        case (Inr tmp)
        obtain r' where "fst (validate_staged cfg env (ext_of input) input tmp
            (rule_check (ext_of input) input empty_result) f1) = Inr r'"
          using validate_staged_Inr by blast
        with Pair Inr False nf v show ?thesis by (simp add: validate_full)
      qed
    qed
  qed
qed


lemma no_linters_for_empty_ext: "get_applicable_linters [] = []"
  by (simp add: get_applicable_linters_def all_linters_def)

text \<open>Claim C1 (validate_lint_results_registry_order). For every full-file submission that Validate completes, the tool outcomes are the applicable linters in registry order, one each, whatever order the goroutines ran in and whatever the tools did.\<close>

theorem validate_lint_results_registry_order:
  assumes "fst (validate cfg env input f) = Inr r"
    and "\<not> is_edit_operation input" and "full_content input \<noteq> []"
  shows "map lint_name (lint_results r) = map linter_name (get_applicable_linters (ext_of input))"
proof (cases "file_path input = [] \<or> ext_of input = []")
  case True
  then have "ext_of input = []"
    by (auto simp: go_ext_def)
  with True assms(1) show ?thesis
    by (auto simp: validate_short empty_result_def no_linters_for_empty_ext)
next
  case False
  show ?thesis
  proof (cases "create_temp_file (run_os env) f (file_path input) (full_content input)")
    case (Pair s f1)
    show ?thesis
    proof (cases s)
      case (Inl se)
      with Pair False assms show ?thesis by (simp add: validate_full)
    next
      case (Inr tmp)
      from validate_staged_Inr [of cfg env "ext_of input" input tmp
          "rule_check (ext_of input) input empty_result" f1]
      obtain r' where "fst (validate_staged cfg env (ext_of input) input tmp
            (rule_check (ext_of input) input empty_result) f1) = Inr r'"
        and "map lint_name (lint_results r') = map linter_name (get_applicable_linters (ext_of input))"
        by (auto simp: empty_result_def)
      with Pair Inr False assms show ?thesis by (simp add: validate_full)
    qed
  qed
qed

text \<open>Claim C2 (validate_fatal_only_staging). The only error Validate returns is a staging failure: tool failures, including processes killed by the deadline, are data in the result, and the g.Wait() error branch is unreachable.\<close>

theorem validate_fatal_only_staging:
  "fst (validate cfg env input f) = Inl e \<Longrightarrow> \<exists>se. e = TempFileError se"
  by (auto dest: validate_Inl)

text \<open>Claim C3 (validate_result_wf). Every result of Validate is well formed: HasErrors holds exactly when there is a markdown finding or a failed tool outcome, and FormattedContent is set, and differs from the submitted text, exactly when WasFormatted.\<close>

theorem validate_result_wf:
  assumes "fst (validate cfg env input f) = Inr r"
  shows "wf_result (full_content input) r"
proof (cases "file_path input = [] \<or> ext_of input = []")
  case True
  with assms show ?thesis by (simp add: validate_short)
next
  case False
  show ?thesis
  proof (cases "is_edit_operation input \<or> full_content input = []")
    case True
    with False assms show ?thesis by (auto simp: validate_edit rule_check_wf)
  next
    case nf: False
    show ?thesis
    proof (cases "create_temp_file (run_os env) f (file_path input) (full_content input)")
      case (Pair s f1)
      show ?thesis
      proof (cases s)
        case (Inl se)
        with Pair False nf assms show ?thesis by (simp add: validate_full)
      next
        case (Inr tmp)
        from validate_staged_Inr [of cfg env "ext_of input" input tmp
            "rule_check (ext_of input) input empty_result" f1] rule_check_wf
        obtain r' where "fst (validate_staged cfg env (ext_of input) input tmp
              (rule_check (ext_of input) input empty_result) f1) = Inr r'"
          and "wf_result (full_content input) r'"
          by blast
        with Pair Inr False nf assms show ?thesis by (simp add: validate_full)
      qed
    qed
  qed
qed

text \<open>Property (validate_no_extension). A path without extension short-circuits: empty result, no file touched, nothing printed.\<close>

theorem validate_no_extension:
  "ext_of input = [] \<Longrightarrow> validate cfg env input f = (Inr empty_result, f, [])"
  by (simp add: validate_short)

lemma run_linters_schedule:
  assumes "\<forall>l \<in> set ls. \<forall>g. snd (linter_run cfg (run_dir env) (run_tools env) l p g) = g"
  shows "run_linters cfg (env\<lparr>schedule := s\<rparr>) ls p f = run_linters cfg env ls p f"
  using run_linters_read_only [OF assms] run_linters_read_only [of ls cfg "env\<lparr>schedule := s\<rparr>" p f] assms
  by simp

lemma applicable_in_all: "l \<in> set (get_applicable_linters ext) \<Longrightarrow> l \<in> set all_linters"
  by (simp add: get_applicable_linters_def)

text \<open>Claim C5 (validate_schedule_independent). When the linters leave the file system alone, the result, the file system and the warnings of Validate do not depend on the order the linter goroutines run in.\<close>

theorem validate_schedule_independent:
  assumes ro: "\<forall>l \<in> set all_linters. \<forall>p g. snd (linter_run cfg (run_dir env) (run_tools env) l p g) = g"
  shows "validate cfg (env\<lparr>schedule := s\<rparr>) input f = validate cfg env input f"
proof -
  have "validate_staged cfg (env\<lparr>schedule := s\<rparr>) ext input tmp res f1 = validate_staged cfg env ext input tmp res f1"
    for ext tmp res f1
  proof -
    have eq: "run_linters cfg (env\<lparr>schedule := s\<rparr>) (get_applicable_linters ext) tmp g
        = run_linters cfg env (get_applicable_linters ext) tmp g" for g
      using ro by (intro run_linters_schedule) (auto dest: applicable_in_all)
    show ?thesis
      by (simp add: validate_staged_eq eq Let_def cong: if_cong)
  qed
  then show ?thesis
    by (simp add: validate_def Let_def split: prod.splits sum.splits)
qed

lemma os_remove_gone: "\<not> fails env OpRemove p \<Longrightarrow> os_remove env f p p = None"
  by (simp add: os_remove_def)

lemma validate_staged_removes:
  "\<not> fails (run_os env) OpRemove tmp \<Longrightarrow> fst (snd (validate_staged cfg env ext input tmp res f)) tmp = None"
  by (simp add: validate_staged_eq Let_def os_remove_gone split: prod.splits)

text \<open>Claim C4 (validate_removes_staged_file). The deferred os.Remove removes the staged file on every return after staging, whatever the tools did.\<close>

theorem validate_removes_staged_file:
  assumes "create_temp_file (run_os env) f (file_path input) (full_content input) = (Inr tmp, f1)"
    and "file_path input \<noteq> []" and "ext_of input \<noteq> []"
    and "\<not> is_edit_operation input" and "full_content input \<noteq> []"
    and "\<not> fails (run_os env) OpRemove tmp"
  shows "fst (snd (validate cfg env input f)) tmp = None"
  using assms by (simp add: validate_full validate_staged_removes)

section \<open>Scenarios\<close>

lemma py_write_ok: "\<not> isl (fst (validate demo_cfg (demo_run t s) py_write f)) \<Longrightarrow>
  fst (validate demo_cfg (demo_run t s) py_write f) = Inr (projr (fst (validate demo_cfg (demo_run t s) py_write f)))"
  by (cases "fst (validate demo_cfg (demo_run t s) py_write f)") auto

theorem validate_lint_results_registry_order_witness:
  "map lint_name (lint_results (projr (fst (validate demo_cfg (demo_run flag_tools [1, 0]) py_write Map.empty))))
     = map linter_name (get_applicable_linters ''py'')"
proof -
  have "\<not> isl (fst (validate demo_cfg (demo_run flag_tools [1, 0]) py_write Map.empty))"
    by code_simp
  from validate_lint_results_registry_order [OF py_write_ok [OF this]]
  show ?thesis by (simp add: py_write_def go_ext_def)
qed

theorem validate_fatal_only_staging_witness:
  "fst (validate demo_cfg ((demo_run quiet_tools [])\<lparr>run_os := (demo_env\<lparr>fails := (\<lambda>op _. op = OpCreate)\<rparr>)\<rparr>) py_write Map.empty)
     = Inl (TempFileError (CreateTempFailed (ErrIO OpCreate))) \<and>
   (\<exists>se. TempFileError (CreateTempFailed (ErrIO OpCreate)) = TempFileError se)"
proof -
  have v: "fst (validate demo_cfg ((demo_run quiet_tools [])\<lparr>run_os := (demo_env\<lparr>fails := (\<lambda>op _. op = OpCreate)\<rparr>)\<rparr>) py_write Map.empty)
     = Inl (TempFileError (CreateTempFailed (ErrIO OpCreate)))"
    by code_simp
  with validate_fatal_only_staging [OF v] show ?thesis by simp
qed

theorem validate_result_wf_witness:
  "wf_result (full_content py_write) (projr (fst (validate demo_cfg (demo_run format_tools []) py_write Map.empty))) \<and>
   was_formatted (projr (fst (validate demo_cfg (demo_run format_tools []) py_write Map.empty)))"
proof -
  have n: "\<not> isl (fst (validate demo_cfg (demo_run format_tools []) py_write Map.empty))"
    by code_simp
  have "was_formatted (projr (fst (validate demo_cfg (demo_run format_tools []) py_write Map.empty)))"
    by code_simp
  with validate_result_wf [OF py_write_ok [OF n]] show ?thesis by simp
qed

theorem validate_no_extension_witness:
  "validate demo_cfg (demo_run flag_tools []) (py_write\<lparr>file_path := ''Makefile''\<rparr>) Map.empty
     = (Inr empty_result, Map.empty, [])"
  by (rule validate_no_extension) (simp add: go_ext_def)

theorem validate_schedule_independent_witness:
  "validate demo_cfg ((demo_run quiet_tools [0, 1])\<lparr>schedule := [1, 0]\<rparr>) py_write Map.empty
     = validate demo_cfg (demo_run quiet_tools [0, 1]) py_write Map.empty"
  by (rule validate_schedule_independent) (simp add: quiet_tools_def linter_run_def run_command_def demo_run_def)

theorem validate_removes_staged_file_witness:
  "fst (snd (validate demo_cfg (demo_run quiet_tools []) py_write Map.empty)) ''/tmp/a.py'' = None"
proof -
  have c: "create_temp_file (run_os (demo_run quiet_tools [])) Map.empty (file_path py_write) (full_content py_write)
      = (Inr ''/tmp/a.py'', snd (create_temp_file demo_env Map.empty ''a.py'' ''x=1\<newline>''))"
    by (simp add: demo_run_def py_write_def prod_eq_iff) code_simp
  show ?thesis
    by (rule validate_removes_staged_file [OF c]) (simp_all add: py_write_def go_ext_def demo_run_def demo_env_def)
qed

text \<open>Property (spec_python_scenario). The scenario of the specification with a flagging ruff: a.py with x=1 yields a failed ruff outcome and HasErrors, and also a pyright outcome: two tool outcomes, not one.\<close>

theorem spec_python_scenario:
  "fst (validate demo_cfg (demo_run flag_tools []) py_write Map.empty) =
     Inr \<lparr>markdown_issues = [],
          lint_results =
            [\<lparr>lint_name = ''ruff'', passed = False, lint_output = ''E225 Missing whitespace around operator'',
               lint_error = Some ''ruff exited with code 1''\<rparr>,
             \<lparr>lint_name = ''pyright'', passed = True, lint_output = [], lint_error = None\<rparr>],
          has_errors = True, formatted_content = [], was_formatted = False\<rparr>"
  by code_simp

text \<open>Property (deadline_is_not_fatal). Tools killed by the deadline do not make Validate fail: it returns a result whose outcomes failed with exit code -1.\<close>

theorem deadline_is_not_fatal:
  "fst (validate demo_cfg (demo_run killed_tools []) py_write Map.empty) =
     Inr \<lparr>markdown_issues = [],
          lint_results =
            [\<lparr>lint_name = ''ruff'', passed = False, lint_output = [], lint_error = Some ''ruff exited with code -1''\<rparr>,
             \<lparr>lint_name = ''pyright'', passed = False, lint_output = [], lint_error = Some ''pyright exited with code -1''\<rparr>],
          has_errors = True, formatted_content = [], was_formatted = False\<rparr>"
  by code_simp

text \<open>Property (linter_race_changes_result). ruff check --fix and pyright share the staged file: if ruff rewrites it, whether pyright sees the fixed text depends on the goroutine order, and so does HasErrors.\<close>

theorem linter_race_changes_result:
  "has_errors (projr (fst (validate demo_cfg (demo_run racy_tools [0, 1]) py_write Map.empty))) = False \<and>
   has_errors (projr (fst (validate demo_cfg (demo_run racy_tools [1, 0]) py_write Map.empty))) = True"
  by code_simp

text \<open>Property (validate_deletes_existing_tmp_file). A file that already existed at /tmp/a.py is gone after a.py is validated: staging replaced it and the deferred removal deleted it.\<close>

theorem validate_deletes_existing_tmp_file:
  "fst (snd (validate demo_cfg (demo_run quiet_tools []) py_write [''/tmp/a.py'' \<mapsto> ''precious''])) ''/tmp/a.py'' = None"
  by code_simp

text \<open>Property (formatting_reported). A formatter that rewrites the staged file is reported: WasFormatted and FormattedContent hold the new bytes.\<close>

theorem formatting_reported:
  "fst (validate demo_cfg (demo_run format_tools []) py_write Map.empty) =
     Inr \<lparr>markdown_issues = [],
          lint_results =
            [\<lparr>lint_name = ''ruff'', passed = True, lint_output = [], lint_error = None\<rparr>,
             \<lparr>lint_name = ''pyright'', passed = True, lint_output = [], lint_error = None\<rparr>],
          has_errors = False, formatted_content = ''x = 1\<newline>'', was_formatted = True\<rparr>"
  by code_simp

text \<open>Property (spec_markdown_edit_scenario). The scenario of the specification for an edit of a.md: one markdown finding at line 1, column 9, HasErrors, no tool outcomes and no file touched.\<close>

theorem spec_markdown_edit_scenario:
  "validate demo_cfg (demo_run quiet_tools []) md_edit Map.empty =
     (Inr \<lparr>markdown_issues = [\<lparr>line = 1, column = 9, message = ''Bold text using ** is not allowed: **bold**''\<rparr>],
           lint_results = [], has_errors = True, formatted_content = [], was_formatted = False\<rparr>,
      Map.empty, [])"
proof -
  have "check_markdown_bold ''This is **bold**'' =
     [\<lparr>line = 1, column = 9, message = ''Bold text using ** is not allowed: **bold**''\<rparr>]"
    by code_simp
  then show ?thesis
    by (simp add: validate_def md_edit_def rule_check_def empty_result_def go_ext_def)
qed

end
