(* ===== verification/Validator_Spec.thy ===== *)
theory Validator_Spec
  imports Validator
begin

text \<open>
  What \<open>Validate\<close> promises, stated without staging, goroutines or clean-up, and the
  proof that the orchestration implements it. The abstract specification sees the tools
  as functions of the staged content (\<open>content_tool\<close>): a tool gets its command line and
  the bytes of the file named by its last argument, and answers with its output and the
  bytes it leaves in that file. Formatters rewrite the content one after the other;
  every applicable linter gives one verdict on the formatted content, in registry
  order; \<open>HasErrors\<close> and \<open>WasFormatted\<close> are read off the findings.
\<close>

type_synonym content_tool = "string \<Rightarrow> string list \<Rightarrow> string \<Rightarrow> cmd_run \<times> string"

text \<open>A content tool run on the file system: it reads and rewrites only its last argument.\<close>

definition content_tools :: "content_tool \<Rightarrow> tool_env" where
  "content_tools ct name args f =
     (case f (last args) of
        None \<Rightarrow> (\<lparr>stdout = [], stderr = ''no such file or directory'', outcome = Exited 2\<rparr>, f)
      | Some c \<Rightarrow> (let (r, c') = ct name args c in (r, f(last args \<mapsto> c'))))"

definition spec_format :: "config \<Rightarrow> content_tool \<Rightarrow> path \<Rightarrow> formatter list \<Rightarrow> string \<Rightarrow> string" where
  "spec_format cfg ct p fms c = foldl (\<lambda>c fm. snd (ct ''ruff'' (formatter_args cfg fm p) c)) c fms"

text \<open>A linter's verdict: its run on a file system that holds nothing but the content.\<close>

definition spec_verdict :: "config \<Rightarrow> (path \<Rightarrow> path) \<Rightarrow> content_tool \<Rightarrow> path \<Rightarrow> string \<Rightarrow> linter \<Rightarrow> lint_result" where
  "spec_verdict cfg dir ct p c l = fst (linter_run cfg dir (content_tools ct) l p [p \<mapsto> c])"

definition spec_validate :: "config \<Rightarrow> (path \<Rightarrow> path) \<Rightarrow> content_tool \<Rightarrow> path \<Rightarrow> validation_input \<Rightarrow> validation_result" where
  "spec_validate cfg dir ct p input =
     (let ext = ext_of input;
          md = (if (ext = ''md'' \<or> ext = ''markdown'') \<and> change_content input \<noteq> []
                then check_markdown_bold (change_content input) else []);
          c = full_content input;
          c' = spec_format cfg ct p (get_applicable_formatters ext) c;
          outs = map (spec_verdict cfg dir ct p c') (get_applicable_linters ext)
      in \<lparr>markdown_issues = md, lint_results = outs,
          has_errors = (md \<noteq> [] \<or> list_ex (\<lambda>r. \<not> passed r) outs),
          formatted_content = (if c' \<noteq> c then c' else []), was_formatted = (c' \<noteq> c)\<rparr>)"

text \<open>A linter is read-only on the staged file when its run leaves every content as it was.\<close>

definition read_only_linters :: "config \<Rightarrow> (path \<Rightarrow> path) \<Rightarrow> content_tool \<Rightarrow> path \<Rightarrow> linter list \<Rightarrow> bool" where
  "read_only_linters cfg dir ct p ls \<longleftrightarrow>
     (\<forall>l \<in> set ls. \<forall>c. snd (ct (linter_name l) (linter_args cfg dir l p) c) = c)"

text \<open>
  A content tool for the examples: \<open>ruff format\<close> rewrites \<open>x=1\<close> to \<open>x = 1\<close>,
  \<open>ruff check\<close> flags an unformatted \<open>x=1\<close>, everything else passes; no tool but the
  formatter writes.
\<close>

definition fmt_ct :: content_tool where
  "fmt_ct name args c =
     (if name = ''ruff'' \<and> take 1 args = [''format''] \<and> c = ''x=1\<newline>''
      then (\<lparr>stdout = [], stderr = [], outcome = Exited 0\<rparr>, ''x = 1\<newline>'')
      else if name = ''ruff'' \<and> c = ''x=1\<newline>''
      then (\<lparr>stdout = ''E225'', stderr = [], outcome = Exited 1\<rparr>, c)
      else (\<lparr>stdout = [], stderr = [], outcome = Exited 0\<rparr>, c))"

lemma content_tools_at:
  "f (last args) = Some c \<Longrightarrow>
   content_tools ct name args f = (fst (ct name args c), f(last args \<mapsto> snd (ct name args c)))"
  by (simp add: content_tools_def split: prod.splits)

lemma run_formatters_Cons_fs:
  "fst (run_formatters cfg env (fm # fms) p f) = fst (run_formatters cfg env fms p (snd (formatter_format cfg env fm p f)))"
  by (simp add: Let_def split: prod.splits)

lemma run_formatters_content:
  "f p = Some c \<Longrightarrow>
   fst (run_formatters cfg (content_tools ct) fms p f) = f(p \<mapsto> spec_format cfg ct p fms c)"
proof (induction fms arbitrary: f c)
  case Nil
  then show ?case by (simp add: spec_format_def map_upd_triv)
next
  case (Cons fm fms)
  let ?c1 = "snd (ct ''ruff'' (formatter_args cfg fm p) c)"
  have step: "snd (formatter_format cfg (content_tools ct) fm p f) = f(p \<mapsto> ?c1)"
    using Cons.prems by (simp add: formatter_format_def content_tools_at Let_def split: prod.splits)
  have "fst (run_formatters cfg (content_tools ct) fms p (f(p \<mapsto> ?c1))) = (f(p \<mapsto> ?c1))(p \<mapsto> spec_format cfg ct p fms ?c1)"
    by (rule Cons.IH) simp
  then have "fst (run_formatters cfg (content_tools ct) fms p (f(p \<mapsto> ?c1))) = f(p \<mapsto> spec_format cfg ct p fms ?c1)"
    by (simp only: fun_upd_upd)
  with step show ?case
    by (simp only: run_formatters_Cons_fs) (simp add: spec_format_def)
qed

lemma linter_run_read_only:
  assumes "\<forall>c. snd (ct (linter_name l) (linter_args cfg dir l p) c) = c"
  shows "snd (linter_run cfg dir (content_tools ct) l p g) = g"
proof (cases "g p")
  case None
  then show ?thesis
    by (simp add: linter_run_def run_command_fs content_tools_def linter_args_last)
next
  case (Some c)
  with assms show ?thesis
    by (simp add: linter_run_def run_command_fs content_tools_at linter_args_last map_upd_triv)
qed

lemma linter_run_content:
  "f p = Some c \<Longrightarrow> fst (linter_run cfg dir (content_tools ct) l p f) = spec_verdict cfg dir ct p c l"
  by (simp add: spec_verdict_def linter_run_def run_command_def content_tools_at linter_args_last Let_def)


lemma rule_check_empty:
  "rule_check ext input empty_result =
     (let md = (if (ext = ''md'' \<or> ext = ''markdown'') \<and> change_content input \<noteq> []
                then check_markdown_bold (change_content input) else [])
      in empty_result\<lparr>markdown_issues := md, has_errors := (md \<noteq> [])\<rparr>)"
  by (simp add: rule_check_def empty_result_def Let_def)

lemma ext_of_path: "ext_of input \<noteq> [] \<Longrightarrow> file_path input \<noteq> []"
  by (cases "file_path input") (auto simp: go_ext_def trim_prefix_def has_prefix_def)

lemma staged_content:
  "fst (create_temp_file env f p c) = Inr t \<Longrightarrow> snd (create_temp_file env f p c) t = Some c"
  by (auto dest!: create_temp_file_Inr)

lemma run_linters_content:
  assumes "read_only_linters cfg (run_dir env) ct p ls" and "run_tools env = content_tools ct"
    and "f p \<noteq> None"
  shows "run_linters cfg env ls p f = (map (spec_verdict cfg (run_dir env) ct p (the (f p))) ls, f)"
proof -
  have "\<forall>l \<in> set ls. \<forall>g. snd (linter_run cfg (run_dir env) (run_tools env) l p g) = g"
    using assms(1,2) by (simp add: read_only_linters_def linter_run_read_only)
  then have "run_linters cfg env ls p f = (map (\<lambda>l. fst (linter_run cfg (run_dir env) (run_tools env) l p f)) ls, f)"
    by (rule run_linters_read_only)
  with assms(2,3) show ?thesis
    by (auto simp: linter_run_content)
qed

lemma read_back_content:
  "\<not> fails env OpRead p \<Longrightarrow> f p \<noteq> None \<Longrightarrow>
   read_back env f p full res =
     (if the (f p) \<noteq> full then res\<lparr>formatted_content := the (f p), was_formatted := True\<rparr> else res)"
  by (auto simp: read_back_def os_read_file_def)

lemma validate_spec_eq:
  assumes tools: "run_tools env = content_tools ct"
    and ext: "ext_of input \<noteq> []"
    and whole: "\<not> is_edit_operation input" "full_content input \<noteq> []"
    and staged: "fst (create_temp_file (run_os env) f (file_path input) (full_content input)) = Inr tmp"
    and ro: "read_only_linters cfg (run_dir env) ct tmp (get_applicable_linters (ext_of input))"
    and rd: "\<not> fails (run_os env) OpRead tmp"
  shows "fst (validate cfg env input f) = Inr (spec_validate cfg (run_dir env) ct tmp input)"
proof -
  let ?ext = "ext_of input"
  let ?full = "full_content input"
  let ?c' = "spec_format cfg ct tmp (get_applicable_formatters ?ext) ?full"
  let ?ls = "get_applicable_linters ?ext"
  obtain f1 where ct: "create_temp_file (run_os env) f (file_path input) ?full = (Inr tmp, f1)"
    using staged by (cases "create_temp_file (run_os env) f (file_path input) ?full") auto
  have f1: "f1 tmp = Some ?full"
    using staged_content [OF staged] ct by simp
  obtain ws where fmt: "run_formatters cfg (run_tools env) (get_applicable_formatters ?ext) tmp f1
      = (f1(tmp \<mapsto> ?c'), ws)"
    using run_formatters_content [where f = f1 and p = tmp and c = ?full and cfg = cfg and ct = ct
      and fms = "get_applicable_formatters ?ext", OF f1] tools
    by (cases "run_formatters cfg (run_tools env) (get_applicable_formatters ?ext) tmp f1") simp
  have "fst (validate cfg env input f) =
      fst (validate_staged cfg env ?ext input tmp (rule_check ?ext input empty_result) f1)"
    using ext_of_path [OF ext] ext whole ct by (simp add: validate_full)
  also have "\<dots> = Inr (spec_validate cfg (run_dir env) ct tmp input)"
    unfolding rule_check_empty using fmt
    by (simp add: validate_staged_eq spec_validate_def empty_result_def Let_def read_back_content [OF rd]
        run_linters_content [OF ro tools])
  finally show ?thesis .
qed


text \<open>
  Claim C11 (validate_refines_spec). With tools that act on the staged content only and
  linters that leave it as it is, every whole-file submission that is staged is answered
  by the abstract specification: the markdown findings of the change, the formatters'
  rewrite, one verdict per applicable linter on the rewritten content in registry order,
  and the flags read off these.
\<close>

theorem validate_refines_spec:
  assumes tools: "run_tools env = content_tools ct"
    and ext: "ext_of input \<noteq> []"
    and whole: "\<not> is_edit_operation input" "full_content input \<noteq> []"
    and staged: "fst (create_temp_file (run_os env) f (file_path input) (full_content input)) = Inr tmp"
    and ro: "read_only_linters cfg (run_dir env) ct tmp (get_applicable_linters (ext_of input))"
    and rd: "\<not> fails (run_os env) OpRead tmp"
  shows "fst (validate cfg env input f) = Inr (spec_validate cfg (run_dir env) ct tmp input)"
  using assms by (rule validate_spec_eq)

theorem validate_refines_spec_witness:
  "fst (validate demo_cfg (demo_run (content_tools fmt_ct) []) py_write Map.empty) =
     Inr (spec_validate demo_cfg (\<lambda>p. p) fmt_ct ''/tmp/a.py'' py_write) \<and>
   spec_validate demo_cfg (\<lambda>p. p) fmt_ct ''/tmp/a.py'' py_write =
     \<lparr>markdown_issues = [],
      lint_results = [\<lparr>lint_name = ''ruff'', passed = True, lint_output = [], lint_error = None\<rparr>,
                      \<lparr>lint_name = ''pyright'', passed = True, lint_output = [], lint_error = None\<rparr>],
      has_errors = False, formatted_content = ''x = 1\<newline>'', was_formatted = True\<rparr>"
proof
  have tools: "run_tools (demo_run (content_tools fmt_ct) []) = content_tools fmt_ct"
    by (simp add: demo_run_def)
  have ext: "ext_of py_write \<noteq> []" and whole: "\<not> is_edit_operation py_write" "full_content py_write \<noteq> []"
    by (simp_all add: py_write_def go_ext_def trim_prefix_def has_prefix_def)
  have staged: "fst (create_temp_file (run_os (demo_run (content_tools fmt_ct) [])) Map.empty
      (file_path py_write) (full_content py_write)) = Inr ''/tmp/a.py''"
    by code_simp
  have ro: "read_only_linters demo_cfg (run_dir (demo_run (content_tools fmt_ct) [])) fmt_ct ''/tmp/a.py''
      (get_applicable_linters (ext_of py_write))"
    by (simp add: read_only_linters_def fmt_ct_def py_write_def go_ext_def trim_prefix_def has_prefix_def
        get_applicable_linters_def all_linters_def)
  have rd: "\<not> fails (run_os (demo_run (content_tools fmt_ct) [])) OpRead ''/tmp/a.py''"
    by (simp add: demo_run_def demo_env_def)
  from validate_refines_spec [OF tools ext whole staged ro rd]
  show "fst (validate demo_cfg (demo_run (content_tools fmt_ct) []) py_write Map.empty) =
     Inr (spec_validate demo_cfg (\<lambda>p. p) fmt_ct ''/tmp/a.py'' py_write)"
    by (simp add: demo_run_def)
next
  show "spec_validate demo_cfg (\<lambda>p. p) fmt_ct ''/tmp/a.py'' py_write =
     \<lparr>markdown_issues = [],
      lint_results = [\<lparr>lint_name = ''ruff'', passed = True, lint_output = [], lint_error = None\<rparr>,
                      \<lparr>lint_name = ''pyright'', passed = True, lint_output = [], lint_error = None\<rparr>],
      has_errors = False, formatted_content = ''x = 1\<newline>'', was_formatted = True\<rparr>"
    by code_simp
qed


lemma run_linters_slot:
  assumes "r \<in> set (fst (run_linters cfg env ls p f))"
  shows "\<exists>l g. r = fst (linter_run cfg (run_dir env) (run_tools env) l p g)"
proof -
  let ?is = "schedule_order (schedule env) (length ls)"
  let ?rs = "replicate (length ls) zero_lint_result"
  have "distinct ?is" and "\<forall>i \<in> set ?is. i < length ?rs"
    by (simp_all add: schedule_order_distinct schedule_order_set)
  from run_in_order_slots [OF this, of cfg "run_dir env" "run_tools env" ls p f]
  have len: "length (fst (run_linters cfg env ls p f)) = length ls"
    and slot: "\<forall>i < length ls. \<exists>g. fst (run_linters cfg env ls p f) ! i
                 = fst (linter_run cfg (run_dir env) (run_tools env) (ls ! i) p g)"
    by (auto simp: run_linters_def schedule_order_set)
  from assms obtain i where "i < length ls" and "r = fst (run_linters cfg env ls p f) ! i"
    using len by (auto simp: in_set_conv_nth)
  with slot show ?thesis by blast
qed

lemma validate_lint_result_origin:
  assumes v: "fst (validate cfg env input f) = Inr res" and r: "r \<in> set (lint_results res)"
  shows "\<exists>l p g. r = fst (linter_run cfg (run_dir env) (run_tools env) l p g)"
proof (cases "file_path input = [] \<or> ext_of input = [] \<or> is_edit_operation input \<or> full_content input = []")
  case True
  with v r show ?thesis
    by (cases "file_path input = [] \<or> ext_of input = []")
      (auto simp: validate_short validate_edit empty_result_def)
next
  case False
  show ?thesis
  proof (cases "create_temp_file (run_os env) f (file_path input) (full_content input)")
    case (Pair s f1)
    show ?thesis
    proof (cases s)
      case (Inl se)
      with Pair False v show ?thesis by (simp add: validate_full)
    next
      case (Inr tmp)
      with Pair False v r show ?thesis
        by (auto simp: validate_full validate_staged_eq Let_def empty_result_def
            split: prod.splits if_splits) (metis fst_conv run_linters_slot)
    qed
  qed
qed

text \<open>
  Claim C19 (validate_outcomes_well_typed). Every tool outcome in a result of Validate
  is well typed: it is named by one of the linters, and it passed exactly when it carries
  no error; the zero \<open>LintResult\<close> that \<open>make\<close> puts into the slots never survives.
\<close>

theorem validate_outcomes_well_typed:
  "fst (validate cfg env input f) = Inr res \<Longrightarrow> r \<in> set (lint_results res) \<Longrightarrow>
   (passed r \<longleftrightarrow> lint_error r = None) \<and> lint_name r \<in> linter_name ` set all_linters"
proof -
  assume "fst (validate cfg env input f) = Inr res" and "r \<in> set (lint_results res)"
  then obtain l p g where r: "r = fst (linter_run cfg (run_dir env) (run_tools env) l p g)"
    by (blast dest: validate_lint_result_origin)
  have "passed r \<longleftrightarrow> lint_error r = None"
    by (simp add: r linter_run_def run_command_error)
  moreover have "lint_name r \<in> linter_name ` set all_linters"
    by (cases l) (simp_all add: r linter_run_name all_linters_def)
  ultimately show ?thesis ..
qed

theorem validate_outcomes_well_typed_witness:
  "fst (validate demo_cfg (demo_run killed_tools []) py_write Map.empty) = Inr
     \<lparr>markdown_issues = [],
      lint_results = [\<lparr>lint_name = ''ruff'', passed = False, lint_output = [],
                        lint_error = Some ''ruff exited with code -1''\<rparr>,
                      \<lparr>lint_name = ''pyright'', passed = False, lint_output = [],
                        lint_error = Some ''pyright exited with code -1''\<rparr>],
      has_errors = True, formatted_content = [], was_formatted = False\<rparr> \<and>
   (passed \<lparr>lint_name = ''ruff'', passed = False, lint_output = [], lint_error = Some ''ruff exited with code -1''\<rparr>
     \<longleftrightarrow> lint_error \<lparr>lint_name = ''ruff'', passed = False, lint_output = [],
                     lint_error = Some ''ruff exited with code -1''\<rparr> = None) \<and>
   ''ruff'' \<in> linter_name ` set all_linters"
proof -
  have v: "fst (validate demo_cfg (demo_run killed_tools []) py_write Map.empty) = Inr
     \<lparr>markdown_issues = [],
      lint_results = [\<lparr>lint_name = ''ruff'', passed = False, lint_output = [],
                        lint_error = Some ''ruff exited with code -1''\<rparr>,
                      \<lparr>lint_name = ''pyright'', passed = False, lint_output = [],
                        lint_error = Some ''pyright exited with code -1''\<rparr>],
      has_errors = True, formatted_content = [], was_formatted = False\<rparr>"
    by code_simp
  have "\<lparr>lint_name = ''ruff'', passed = False, lint_output = [], lint_error = Some ''ruff exited with code -1''\<rparr>
      \<in> set (lint_results \<lparr>markdown_issues = [],
      lint_results = [\<lparr>lint_name = ''ruff'', passed = False, lint_output = [],
                        lint_error = Some ''ruff exited with code -1''\<rparr>,
                      \<lparr>lint_name = ''pyright'', passed = False, lint_output = [],
                        lint_error = Some ''pyright exited with code -1''\<rparr>],
      has_errors = True, formatted_content = [], was_formatted = False\<rparr>)"
    by simp
  from validate_outcomes_well_typed [OF v this] v show ?thesis by simp
qed

end
