(* ===== verification/Tui.thy ===== *)
theory Tui
  imports Validator
begin

text \<open>
  The interactive mode of \<open>internal/ui/tui.go\<close>: a bubbletea \<open>Model\<close> that shows one
  status line per linter and runs \<open>Validate\<close> as a command. The model's fields that
  carry behaviour are a record; the spinner and the \<open>*Validator\<close> (which only holds the
  configuration) are left out, and so is the lipgloss rendering of \<open>View\<close>. \<open>Update\<close>
  is the step function \<open>tui_update\<close> on messages; the commands it returns are named by
  \<open>tui_cmd\<close>. \<open>tui_step\<close> is the step relation of the program loop and
  \<open>tui_reachable\<close> the states reachable from \<open>NewModel\<close>.
\<close>

datatype linter_state = StatePending | StateRunning | StateDone | StateFailed

record linter_status =
  ls_name :: string
  ls_state :: linter_state
  ls_result :: "lint_result option"

record tui_model =
  tm_input :: validation_input
  tm_linters :: "linter_status list"
  tm_markdown_issues :: "markdown_issue list"
  validation_done :: bool
  validation_error :: "validate_error option"
  tm_result :: "validation_result option"
  quitting :: bool

text \<open>The messages \<open>Update\<close> distinguishes; any other message falls through.\<close>

datatype tui_msg =
    KeyMsg string
  | ValidationCompleteMsg "validation_result option" "validate_error option"
  | SpinnerTickMsg
  | OtherMsg

datatype tui_cmd = CmdNone | CmdQuit | CmdQuitAfterDelay | CmdSpinnerTick

definition new_model :: "validation_input \<Rightarrow> string list \<Rightarrow> tui_model" where
  "new_model input names =
     \<lparr>tm_input = input,
      tm_linters = map (\<lambda>n. \<lparr>ls_name = n, ls_state = StatePending, ls_result = None\<rparr>) names,
      tm_markdown_issues = [], validation_done = False, validation_error = None, tm_result = None,
      quitting = False\<rparr>"

text \<open>
  The loop over \<open>msg.result.LintResults\<close>: result \<open>i\<close> goes to status \<open>i\<close> while there
  is one; statuses past the results stay as they were.
\<close>

fun apply_results :: "linter_status list \<Rightarrow> lint_result list \<Rightarrow> linter_status list" where
  "apply_results (s # ss) (lr # lrs) =
     s\<lparr>ls_result := Some lr, ls_state := (if passed lr then StateDone else StateFailed)\<rparr> # apply_results ss lrs"
| "apply_results ss [] = ss"
| "apply_results [] lrs = []"

fun tui_update :: "tui_model \<Rightarrow> tui_msg \<Rightarrow> tui_model \<times> tui_cmd" where
  "tui_update m (KeyMsg k) =
     (if k = ''q'' \<or> k = ''ctrl+c'' then (m\<lparr>quitting := True\<rparr>, CmdQuit) else (m, CmdNone))"
| "tui_update m (ValidationCompleteMsg res err) =
     (let m1 = m\<lparr>validation_done := True, validation_error := err, tm_result := res\<rparr>
      in (case res of
            None \<Rightarrow> m1
          | Some r \<Rightarrow> m1\<lparr>tm_markdown_issues := markdown_issues r,
                          tm_linters := apply_results (tm_linters m) (lint_results r)\<rparr>,
          CmdQuitAfterDelay))"
| "tui_update m SpinnerTickMsg = (m, CmdSpinnerTick)"
| "tui_update m OtherMsg = (m, CmdNone)"

text \<open>\<open>ui.Run\<close>'s answer from the final model: its error, else its result (\<open>nil\<close> when the
  user quit before the validation finished).\<close>

definition tui_run_result :: "tui_model \<Rightarrow> validate_error + validation_result option" where
  "tui_run_result m = (case validation_error m of Some e \<Rightarrow> Inl e | None \<Rightarrow> Inr (tm_result m))"

inductive tui_step :: "tui_model \<Rightarrow> tui_model \<Rightarrow> bool" where
  step: "tui_step m (fst (tui_update m msg))"

inductive tui_reachable :: "validation_input \<Rightarrow> string list \<Rightarrow> tui_model \<Rightarrow> bool" for input names where
  reach_init: "tui_reachable input names (new_model input names)"
| reach_step: "tui_reachable input names m \<Longrightarrow> tui_step m m' \<Longrightarrow> tui_reachable input names m'"

text \<open>
  The invariant the model keeps: one status per linter name, in order, and each status
  agrees with the result it shows (pending without a result, done for a passed result,
  failed for a failed one).
\<close>

definition status_ok :: "linter_status \<Rightarrow> bool" where
  "status_ok s \<longleftrightarrow>
     (case ls_result s of
        None \<Rightarrow> ls_state s = StatePending
      | Some lr \<Rightarrow> ls_state s = (if passed lr then StateDone else StateFailed))"

definition tui_inv :: "string list \<Rightarrow> tui_model \<Rightarrow> bool" where
  "tui_inv names m \<longleftrightarrow> map ls_name (tm_linters m) = names \<and> list_all status_ok (tm_linters m)"

lemma apply_results_names: "map ls_name (apply_results ss lrs) = map ls_name ss"
  by (induction ss lrs rule: apply_results.induct) auto

lemma apply_results_ok: "list_all status_ok ss \<Longrightarrow> list_all status_ok (apply_results ss lrs)"
  by (induction ss lrs rule: apply_results.induct) (auto simp: status_ok_def)

lemma tui_update_inv: "tui_inv names m \<Longrightarrow> tui_inv names (fst (tui_update m msg))"
  by (cases msg) (auto simp: tui_inv_def Let_def apply_results_names apply_results_ok split: option.splits)

lemma new_model_inv: "tui_inv names (new_model input names)"
  by (simp add: tui_inv_def new_model_def status_ok_def list_all_iff comp_def)

inductive_cases tui_stepE: "tui_step m m'"

lemma tui_step_inv: "tui_step m m' \<Longrightarrow> tui_inv names m \<Longrightarrow> tui_inv names m'"
  by (auto elim: tui_stepE simp: tui_update_inv)

lemma reachable_tui_inv: "tui_reachable input names m \<Longrightarrow> tui_inv names m"
proof (induction rule: tui_reachable.induct)
  case reach_init
  show ?case by (rule new_model_inv)
next
  case (reach_step m mm)
  then show ?case by (blast intro: tui_step_inv)
qed

lemma status_ok_not_running: "status_ok s \<Longrightarrow> ls_state s \<noteq> StateRunning"
  by (auto simp: status_ok_def split: option.splits)

lemma apply_results_result:
  "length lrs \<le> length ss \<Longrightarrow>
   map ls_result (apply_results ss lrs) = map Some lrs @ map ls_result (drop (length lrs) ss)"
  by (induction ss lrs rule: apply_results.induct) auto

lemma tui_run_result_completion:
  "tui_run_result (fst (tui_update m (ValidationCompleteMsg res err))) =
     (case err of Some e \<Rightarrow> Inl e | None \<Rightarrow> Inr res)"
  by (simp add: tui_run_result_def Let_def split: option.splits)

text \<open>
  Claim C25 (tui_reachable_inv). Every model reachable from \<open>NewModel\<close> through
  \<open>Update\<close> keeps one status line per linter name, in the order given, and each status
  agrees with the result it shows.
\<close>

theorem tui_reachable_inv: "tui_reachable input names m \<Longrightarrow> tui_inv names m"
  by (rule reachable_tui_inv)

theorem tui_reachable_inv_witness:
  "tui_reachable py_write [''ruff'', ''pyright''] (fst (tui_update (new_model py_write [''ruff'', ''pyright''])
     (ValidationCompleteMsg (Some (empty_result\<lparr>lint_results := [zero_lint_result\<lparr>lint_name := ''ruff''\<rparr>]\<rparr>)) None))) \<and>
   tui_inv [''ruff'', ''pyright''] (fst (tui_update (new_model py_write [''ruff'', ''pyright''])
     (ValidationCompleteMsg (Some (empty_result\<lparr>lint_results := [zero_lint_result\<lparr>lint_name := ''ruff''\<rparr>]\<rparr>)) None)))"
proof -
  have r: "tui_reachable py_write [''ruff'', ''pyright''] (fst (tui_update (new_model py_write [''ruff'', ''pyright''])
     (ValidationCompleteMsg (Some (empty_result\<lparr>lint_results := [zero_lint_result\<lparr>lint_name := ''ruff''\<rparr>]\<rparr>)) None)))"
    by (rule tui_reachable.reach_step [OF tui_reachable.reach_init tui_step.step])
  with tui_reachable_inv [OF r] show ?thesis by simp
qed

text \<open>
  Property (tui_never_running). No reachable model shows a linter as running:
  \<open>Update\<close> moves a status from pending straight to done or failed, so the
  \<open>StateRunning\<close> branch of \<open>View\<close> is never taken.
\<close>

theorem tui_never_running:
  assumes "tui_reachable input names m" and "s \<in> set (tm_linters m)"
  shows "ls_state s \<noteq> StateRunning"
proof -
  from assms(1) have "tui_inv names m"
    by (rule reachable_tui_inv)
  with assms(2) show ?thesis
    by (auto simp: tui_inv_def list_all_iff status_ok_not_running)
qed

theorem tui_never_running_witness:
  "ls_state (hd (tm_linters (fst (tui_update (new_model py_write [''ruff''])
     (ValidationCompleteMsg (Some (empty_result\<lparr>lint_results := [zero_lint_result]\<rparr>)) None))))) \<noteq> StateRunning"
proof -
  let ?m = "fst (tui_update (new_model py_write [''ruff''])
     (ValidationCompleteMsg (Some (empty_result\<lparr>lint_results := [zero_lint_result]\<rparr>)) None))"
  have r: "tui_reachable py_write [''ruff''] ?m"
    by (rule tui_reachable.reach_step [OF tui_reachable.reach_init tui_step.step])
  have "hd (tm_linters ?m) \<in> set (tm_linters ?m)"
    by (simp add: new_model_def Let_def)
  from tui_never_running [OF r this] show ?thesis .
qed

text \<open>
  Property (tui_quitting_stays). Once the model is quitting, no message makes it
  stop quitting.
\<close>

theorem tui_quitting_stays: "tui_step m m' \<Longrightarrow> quitting m \<Longrightarrow> quitting m'"
  by (auto elim!: tui_stepE) (case_tac msg, auto simp: Let_def split: option.splits)

theorem tui_quitting_stays_witness:
  "quitting (fst (tui_update ((new_model py_write [])\<lparr>quitting := True\<rparr>) SpinnerTickMsg))"
proof -
  have s: "tui_step ((new_model py_write [])\<lparr>quitting := True\<rparr>)
     (fst (tui_update ((new_model py_write [])\<lparr>quitting := True\<rparr>) SpinnerTickMsg))"
    by (rule tui_step.step)
  show ?thesis by (rule tui_quitting_stays [OF s]) simp
qed


text \<open>
  Claim C29 (tui_results_roundtrip). When the validation completes with one result per
  status line, as \<open>run\<close> arranges, the status lines hold exactly the results, in
  order: what \<open>Update\<close> stores under index \<open>i\<close> is read back under index \<open>i\<close>.
\<close>

theorem tui_results_roundtrip:
  assumes "length (lint_results r) = length (tm_linters m)"
  shows "map ls_result (tm_linters (fst (tui_update m (ValidationCompleteMsg (Some r) err)))) =
    map Some (lint_results r)"
  using apply_results_result [of "lint_results r" "tm_linters m"] assms
  by (simp add: Let_def)

theorem tui_results_roundtrip_witness:
  "map ls_result (tm_linters (fst (tui_update (new_model py_write [''ruff''])
     (ValidationCompleteMsg (Some (empty_result\<lparr>lint_results := [zero_lint_result]\<rparr>)) None)))) =
   [Some zero_lint_result]"
proof -
  have "length (lint_results (empty_result\<lparr>lint_results := [zero_lint_result]\<rparr>)) =
      length (tm_linters (new_model py_write [''ruff'']))"
    by (simp add: new_model_def)
  from tui_results_roundtrip [OF this, of None] show ?thesis by simp
qed

end
