(* ===== verification/Response.thy ===== *)
theory Response
  imports Validator
begin

text \<open>
  The report of \<open>internal/hook/response.go\<close>: \<open>BuildJSONResponse\<close> collects the lines
  of its \<open>additionalContext\<close> (\<open>context_parts\<close>) and fills the \<open>hookSpecificOutput\<close>
  object; the JSON text that \<open>json.MarshalIndent\<close> makes of it is library code and not
  modelled (marshalling these string fields cannot fail). The report's glyphs are
  written as their UTF-8 bytes: \<open>check_mark\<close> is U+2713, \<open>heavy_rule\<close> 66 times
  U+2501, \<open>warning_sign\<close> U+26A0 U+FE0F.
\<close>

definition check_mark :: string where
  "check_mark = [CHR 0xE2, CHR 0x9C, CHR 0x93]"

definition heavy_rule :: string where
  "heavy_rule = concat (replicate 66 [CHR 0xE2, CHR 0x94, CHR 0x81])"

definition warning_sign :: string where
  "warning_sign = [CHR 0xE2, CHR 0x9A, CHR 0xA0, CHR 0xEF, CHR 0xB8, CHR 0x8F]"

definition formatted_line :: string where
  "formatted_line = check_mark @ '' Content was auto-formatted''"

definition passed_line :: string where
  "passed_line = check_mark @ '' All checks passed''"

definition banner_line :: string where
  "banner_line = warning_sign @ ''  Validation issues found above - please review and address.''"

text \<open>\<open>"  Line %d, Col %d: %s"\<close>.\<close>

definition issue_text :: "markdown_issue \<Rightarrow> string" where
  "issue_text i = ''  Line '' @ dec_nat (line i) @ '', Col '' @ dec_nat (column i) @ '': '' @ message i"

text \<open>The lines for one tool outcome: its name, its non-empty output lines indented, its error.\<close>

definition lint_parts :: "lint_result \<Rightarrow> string list" where
  "lint_parts lr =
     (if \<not> passed lr then
        [nl # lint_name lr @ '' errors:''] @
        (if lint_output lr \<noteq> [] then
           map (\<lambda>l. ''  '' @ l) (filter (\<lambda>l. l \<noteq> []) (split_on nl (lint_output lr)))
         else []) @
        (case lint_error lr of None \<Rightarrow> [] | Some e \<Rightarrow> [''  Error: '' @ e])
      else [])"

definition context_parts :: "validation_result \<Rightarrow> string list" where
  "context_parts r =
     (if was_formatted r then [formatted_line] else []) @
     (if \<not> has_errors r then (if \<not> was_formatted r then [passed_line] else [])
      else
        (if markdown_issues r \<noteq> [] then
           (nl # ''Markdown validation errors:'') # map issue_text (markdown_issues r)
         else []) @
        concat (map lint_parts (lint_results r)) @
        [nl # heavy_rule, banner_line, heavy_rule])"

record hook_specific_output =
  hook_event_name :: string
  decision :: string
  reason :: string
  additional_context :: string

definition build_json_response :: "validation_result \<Rightarrow> hook_specific_output" where
  "build_json_response r =
     (if \<not> has_errors r then
        \<lparr>hook_event_name = ''PostToolUse'', decision = ''approve'', reason = [],
         additional_context = join (context_parts r) [nl]\<rparr>
      else
        \<lparr>hook_event_name = ''PostToolUse'', decision = ''approve'',
         reason = ''Validation completed with issues'',
         additional_context = join (context_parts r) [nl]\<rparr>)"

lemma build_json_response_decision: "decision (build_json_response r) = ''approve''"
  by (simp add: build_json_response_def)

lemma lint_parts_in_context:
  "has_errors r \<Longrightarrow> lr \<in> set (lint_results r) \<Longrightarrow> set (lint_parts lr) \<subseteq> set (context_parts r)"
  by (auto simp: context_parts_def)

lemma lint_parts_failed:
  "\<not> passed lr \<Longrightarrow> (nl # lint_name lr @ '' errors:'') \<in> set (lint_parts lr) \<and>
     (\<forall>e. lint_error lr = Some e \<longrightarrow> (''  Error: '' @ e) \<in> set (lint_parts lr))"
  by (simp add: lint_parts_def)

text \<open>
  Claim C32 (response_always_approves). \<open>BuildJSONResponse\<close> never blocks the tool call:
  the decision is always \<open>approve\<close> for the \<open>PostToolUse\<close> event, and a reason is given
  exactly when the result has errors.
\<close>

theorem response_always_approves:
  "decision (build_json_response r) = ''approve'' \<and> hook_event_name (build_json_response r) = ''PostToolUse'' \<and>
   (reason (build_json_response r) \<noteq> [] \<longleftrightarrow> has_errors r)"
  by (simp add: build_json_response_def)

text \<open>
  Claim C33 (report_names_failures). When the result has errors, the additional context
  lists every markdown issue, and for every failed linter a heading with its name and, when
  it has one, its error message.
\<close>

theorem report_names_failures:
  assumes "has_errors r"
  shows "(\<forall>i \<in> set (markdown_issues r). issue_text i \<in> set (context_parts r)) \<and>
    (\<forall>lr \<in> set (lint_results r). \<not> passed lr \<longrightarrow>
       (nl # lint_name lr @ '' errors:'') \<in> set (context_parts r) \<and>
       (\<forall>e. lint_error lr = Some e \<longrightarrow> (''  Error: '' @ e) \<in> set (context_parts r)))"
proof (intro conjI ballI impI allI)
  fix i assume "i \<in> set (markdown_issues r)"
  with assms show "issue_text i \<in> set (context_parts r)"
    by (auto simp: context_parts_def)
next
  fix lr assume "lr \<in> set (lint_results r)" and "\<not> passed lr"
  with assms lint_parts_in_context lint_parts_failed
  show "(nl # lint_name lr @ '' errors:'') \<in> set (context_parts r)"
    by blast
next
  fix lr e assume "lr \<in> set (lint_results r)" and "\<not> passed lr" and "lint_error lr = Some e"
  with assms lint_parts_in_context lint_parts_failed
  show "(''  Error: '' @ e) \<in> set (context_parts r)"
    by blast
qed

theorem report_names_failures_witness:
  "(nl # ''ruff errors:'') \<in> set (context_parts \<lparr>markdown_issues = [],
      lint_results = [\<lparr>lint_name = ''ruff'', passed = False, lint_output = ''E225'', lint_error = Some ''ruff exited with code 1''\<rparr>],
      has_errors = True, formatted_content = [], was_formatted = False\<rparr>)"
proof -
  let ?lr = "\<lparr>lint_name = ''ruff'', passed = False, lint_output = ''E225'', lint_error = Some ''ruff exited with code 1''\<rparr>"
  let ?r = "\<lparr>markdown_issues = [], lint_results = [?lr], has_errors = True, formatted_content = [], was_formatted = False\<rparr>"
  have "has_errors ?r" by simp
  from report_names_failures [OF this] show ?thesis by simp
qed

text \<open>
  Property (clean_report). A result without errors is reported by one line: the
  auto-formatted line when the content was reformatted, the all-checks-passed line
  otherwise.
\<close>

theorem clean_report:
  "\<not> has_errors r \<Longrightarrow> context_parts r = (if was_formatted r then [formatted_line] else [passed_line])"
  by (simp add: context_parts_def)

theorem clean_report_witness:
  "context_parts empty_result = [passed_line]"
  using clean_report [of empty_result] by (simp add: empty_result_def)

end
