(* ===== verification/Tui_View.thy ===== *)
theory Tui_View
  imports Tui Response
begin

text \<open>
  What the terminal UI draws: the styles and icons of \<open>internal/ui/styles.go\<close> and
  \<open>View\<close> and \<open>renderLinterStatus\<close> of \<open>internal/ui/tui.go\<close>. A lipgloss style is a
  record of the attributes \<open>styles.go\<close> sets; \<open>Style.Render\<close> is library code and is a
  parameter (\<open>renderer\<close>), and so are the spinner's current frame and the text \<open>%v\<close>
  prints for a validation error. The string literals are the bytes of the source file.

  The literals of \<open>View\<close> that carry a symbol are not the UTF-8 symbols: each is the
  UTF-8 encoding of the symbol's bytes read as Windows-1252 (\<open>mojibake\<close>), the bytes
  Windows-1252 leaves undefined dropped. \<open>cp1252_high\<close> is that code page's table for
  the bytes 0x80 to 0x9F; the bytes from 0xA0 are Latin-1.
\<close>

section \<open>styles.go\<close>

record lg_style =
  st_foreground :: "string option"
  st_bold :: bool
  st_rounded_border :: bool
  st_border_foreground :: "string option"
  st_padding :: "nat \<times> nat"
  st_margin_bottom :: nat

definition new_style :: lg_style where
  "new_style = \<lparr>st_foreground = None, st_bold = False, st_rounded_border = False,
     st_border_foreground = None, st_padding = (0, 0), st_margin_bottom = 0\<rparr>"

definition color_success :: string where "color_success = ''#04B575''"
definition color_error :: string where "color_error = ''#FF4545''"
definition color_warning :: string where "color_warning = ''#FFAA00''"
definition color_info :: string where "color_info = ''#00AAFF''"
definition color_muted :: string where "color_muted = ''#888888''"

definition success_style :: lg_style where
  "success_style = new_style\<lparr>st_foreground := Some color_success, st_bold := True\<rparr>"
definition error_style :: lg_style where
  "error_style = new_style\<lparr>st_foreground := Some color_error, st_bold := True\<rparr>"
definition warning_style :: lg_style where
  "warning_style = new_style\<lparr>st_foreground := Some color_warning, st_bold := True\<rparr>"
definition info_style :: lg_style where
  "info_style = new_style\<lparr>st_foreground := Some color_info\<rparr>"
definition muted_style :: lg_style where
  "muted_style = new_style\<lparr>st_foreground := Some color_muted\<rparr>"
definition box_style :: lg_style where
  "box_style = new_style\<lparr>st_rounded_border := True, st_border_foreground := Some color_info, st_padding := (0, 1)\<rparr>"
definition error_box_style :: lg_style where
  "error_box_style = new_style\<lparr>st_rounded_border := True, st_border_foreground := Some color_error, st_padding := (0, 1)\<rparr>"
definition header_style :: lg_style where
  "header_style = new_style\<lparr>st_bold := True, st_foreground := Some color_info, st_margin_bottom := 1\<rparr>"
definition linter_name_style :: lg_style where
  "linter_name_style = new_style\<lparr>st_bold := True, st_foreground := Some color_info\<rparr>"

text \<open>The status icons, U+2713, U+2717, U+25CB and U+25C9 in UTF-8.\<close>

definition icon_success :: string where "icon_success = [CHR 0xE2, CHR 0x9C, CHR 0x93]"
definition icon_error :: string where "icon_error = [CHR 0xE2, CHR 0x9C, CHR 0x97]"
definition icon_pending :: string where "icon_pending = [CHR 0xE2, CHR 0x97, CHR 0x8B]"
definition icon_running :: string where "icon_running = [CHR 0xE2, CHR 0x97, CHR 0x89]"

type_synonym renderer = "lg_style \<Rightarrow> string \<Rightarrow> string"

section \<open>tui.go: View\<close>

text \<open>The literals of \<open>View\<close>, byte for byte.\<close>

definition view_header :: string where
  "view_header = [CHR 0xC3, CHR 0xB0, CHR 0xC5, CHR 0xB8, CHR 0xE2, CHR 0x80, CHR 0x9D] @ '' Validating file changes...''"
definition view_md_failed :: string where
  "view_md_failed = [CHR 0xC3, CHR 0xA2, CHR 0xC5, CHR 0x93, CHR 0xE2, CHR 0x80, CHR 0x94] @ '' Markdown validation failed''"
definition view_issues_found :: string where
  "view_issues_found = [CHR 0xC3, CHR 0xA2, CHR 0xC5, CHR 0xA1, CHR 0xC2, CHR 0xA0, CHR 0xC3, CHR 0xAF, CHR 0xC2, CHR 0xB8] @
     ''  Validation issues found - please review''"
definition view_all_passed :: string where
  "view_all_passed = [CHR 0xC3, CHR 0xA2, CHR 0xC5, CHR 0x93, CHR 0xE2, CHR 0x80, CHR 0x9C] @ '' All checks passed''"

text \<open>The failed linter's output: its lines, cut after five with a muted marker.\<close>

definition output_lines :: "renderer \<Rightarrow> string \<Rightarrow> string list" where
  "output_lines render out =
     (let ls = split_on nl out
      in if length ls > 5 then take 5 ls @ [render muted_style ''  ... (truncated)''] else ls)"

definition render_linter_status :: "renderer \<Rightarrow> string \<Rightarrow> linter_status \<Rightarrow> string" where
  "render_linter_status render spin ls =
     (let (icon, status) =
        (case ls_state ls of
           StatePending \<Rightarrow> (render muted_style icon_pending, render muted_style ''pending'')
         | StateRunning \<Rightarrow> (spin, render info_style ''running'')
         | StateDone \<Rightarrow> (render success_style icon_success, render success_style ''passed'')
         | StateFailed \<Rightarrow> (render error_style icon_error, render error_style ''failed''));
          line = ''  '' @ icon @ '' '' @ render linter_name_style (ls_name ls) @ '' '' @ status
      in (case ls_result ls of
            Some r \<Rightarrow>
              if ls_state ls = StateFailed \<and> lint_output r \<noteq> [] then
                line @ [nl] @
                concat (map (\<lambda>ol. render muted_style (''    '' @ ol) @ [nl])
                  (filter (\<lambda>ol. ol \<noteq> []) (output_lines render (lint_output r))))
              else line
          | None \<Rightarrow> line))"

definition tui_view :: "renderer \<Rightarrow> string \<Rightarrow> (validate_error \<Rightarrow> string) \<Rightarrow> tui_model \<Rightarrow> string" where
  "tui_view render spin err_text m =
     (if quitting m then []
      else
        render header_style view_header @ [nl, nl] @
        (if tm_markdown_issues m \<noteq> [] then
           render error_style view_md_failed @ [nl] @
           concat (map (\<lambda>i. issue_text i @ [nl]) (tm_markdown_issues m)) @ [nl]
         else []) @
        (if tm_linters m \<noteq> [] then
           ''Linters:'' @ [nl] @ concat (map (\<lambda>ls. render_linter_status render spin ls @ [nl]) (tm_linters m))
         else []) @
        (case validation_error m of
           Some e \<Rightarrow> [nl] @ render error_box_style (''Error: '' @ err_text e) @ [nl]
         | None \<Rightarrow> []) @
        (case tm_result m of
           Some r \<Rightarrow>
             if validation_done m then
               [nl] @ (if has_errors r then render error_box_style view_issues_found
                       else render box_style view_all_passed) @ [nl]
             else []
         | None \<Rightarrow> []))"

section \<open>Windows-1252 read back as UTF-8\<close>

definition cp1252_high :: "string list" where
  "cp1252_high =
     [[CHR 0xE2, CHR 0x82, CHR 0xAC],
      [],
      [CHR 0xE2, CHR 0x80, CHR 0x9A],
      [CHR 0xC6, CHR 0x92],
      [CHR 0xE2, CHR 0x80, CHR 0x9E],
      [CHR 0xE2, CHR 0x80, CHR 0xA6],
      [CHR 0xE2, CHR 0x80, CHR 0xA0],
      [CHR 0xE2, CHR 0x80, CHR 0xA1],
      [CHR 0xCB, CHR 0x86],
      [CHR 0xE2, CHR 0x80, CHR 0xB0],
      [CHR 0xC5, CHR 0xA0],
      [CHR 0xE2, CHR 0x80, CHR 0xB9],
      [CHR 0xC5, CHR 0x92],
      [],
      [CHR 0xC5, CHR 0xBD],
      [],
      [],
      [CHR 0xE2, CHR 0x80, CHR 0x98],
      [CHR 0xE2, CHR 0x80, CHR 0x99],
      [CHR 0xE2, CHR 0x80, CHR 0x9C],
      [CHR 0xE2, CHR 0x80, CHR 0x9D],
      [CHR 0xE2, CHR 0x80, CHR 0xA2],
      [CHR 0xE2, CHR 0x80, CHR 0x93],
      [CHR 0xE2, CHR 0x80, CHR 0x94],
      [CHR 0xCB, CHR 0x9C],
      [CHR 0xE2, CHR 0x84, CHR 0xA2],
      [CHR 0xC5, CHR 0xA1],
      [CHR 0xE2, CHR 0x80, CHR 0xBA],
      [CHR 0xC5, CHR 0x93],
      [],
      [CHR 0xC5, CHR 0xBE],
      [CHR 0xC5, CHR 0xB8]]"

definition cp1252_utf8 :: "char \<Rightarrow> string" where
  "cp1252_utf8 c =
     (let b = of_char c :: nat
      in if b < 0x80 then [c]
         else if b < 0xA0 then cp1252_high ! (b - 0x80)
         else [char_of (if b < 0xC0 then 0xC2 else (0xC3 :: nat)), char_of (0x80 + b mod 64)])"

definition mojibake :: "string \<Rightarrow> string" where
  "mojibake s = concat (map cp1252_utf8 s)"

text \<open>The symbols the literals were meant to show: U+1F50D and U+26A0 U+FE0F.\<close>

definition magnifier :: string where "magnifier = [CHR 0xF0, CHR 0x9F, CHR 0x94, CHR 0x8D]"


section \<open>Properties of the view\<close>

text \<open>
  Property (view_marks_double_encoded). The symbols \<open>View\<close> prints are double-encoded:
  the header, the failure line, the warning box and the success box begin with the UTF-8
  bytes of the magnifier, of \<open>IconError\<close>, of the warning sign of the JSON report and
  of \<open>IconSuccess\<close>, each read as Windows-1252 and encoded again; none of them begins with
  the icon it stands for.
\<close>

theorem view_marks_double_encoded:
  "view_header = mojibake magnifier @ '' Validating file changes...'' \<and>
   view_md_failed = mojibake icon_error @ '' Markdown validation failed'' \<and>
   view_issues_found = mojibake warning_sign @ ''  Validation issues found - please review'' \<and>
   view_all_passed = mojibake icon_success @ '' All checks passed'' \<and>
   take 3 view_md_failed \<noteq> icon_error \<and> take 3 view_all_passed \<noteq> icon_success \<and>
   take 6 view_issues_found \<noteq> warning_sign"
  by code_simp

lemma render_linter_status_spin:
  "ls_state ls \<noteq> StateRunning \<Longrightarrow> render_linter_status render s1 ls = render_linter_status render s2 ls"
  by (simp add: render_linter_status_def split: linter_state.splits)

text \<open>
  Claim C28 (spinner_never_shown). The spinner never reaches the screen: in every model
  the program can reach, \<open>View\<close> draws the same text whatever frame the spinner is at,
  because no status line is ever in the running state that shows it.
\<close>

theorem spinner_never_shown:
  assumes "tui_reachable input names m"
  shows "tui_view render s1 et m = tui_view render s2 et m"
proof -
  from assms have "list_all status_ok (tm_linters m)"
    by (auto dest: reachable_tui_inv simp: tui_inv_def)
  then have "\<forall>ls \<in> set (tm_linters m). render_linter_status render s1 ls = render_linter_status render s2 ls"
    by (auto simp: list_all_iff status_ok_not_running intro!: render_linter_status_spin)
  then show ?thesis
    by (simp add: tui_view_def cong: map_cong)
qed

theorem spinner_never_shown_witness:
  "tui_view (\<lambda>_ s. s) [CHR 0xE2, CHR 0xA3, CHR 0xBE] (\<lambda>_. []) (new_model py_write [''ruff'']) =
   tui_view (\<lambda>_ s. s) [] (\<lambda>_. []) (new_model py_write [''ruff''])"
  by (rule spinner_never_shown [OF tui_reachable.reach_init])



end
