(* ===== verification/Hook.thy ===== *)
theory Hook
  imports Validator
begin

text \<open>
  \<open>internal/hook/hook.go\<close>: the tool invocation the coding agent sends on standard
  input, \<open>ParseHookData\<close>, and the accessors that \<open>main.go\<close> turns into a
  \<open>ValidationInput\<close>. Reading the input (\<open>io.ReadAll\<close>) and decoding the JSON
  (\<open>json.Unmarshal\<close>) are library code: \<open>ParseHookData\<close> takes what the read returned
  (its error text or the bytes) and the decoder as a function to an error text or the
  decoded payload.
\<close>

record tool_input =
  tool_file_path :: path
  old_string :: string
  new_string :: string
  content :: string

record hook_data =
  tool_name :: string
  tool_input :: tool_input

definition parse_hook_data :: "string + string \<Rightarrow> (string \<Rightarrow> string + hook_data) \<Rightarrow> string + hook_data" where
  "parse_hook_data rd unmarshal =
     (case rd of
        Inl e \<Rightarrow> Inl (''failed to read hook data: '' @ e)
      | Inr data \<Rightarrow>
          (case unmarshal data of
             Inl e \<Rightarrow> Inl (''failed to parse hook JSON: '' @ e)
           | Inr h \<Rightarrow> Inr h))"

definition get_validation_content :: "hook_data \<Rightarrow> string" where
  "get_validation_content h = (if tool_name h = ''Edit'' then new_string (tool_input h) else content (tool_input h))"

definition get_full_content :: "hook_data \<Rightarrow> string" where
  "get_full_content h = (if tool_name h = ''Edit'' then [] else content (tool_input h))"

definition hook_is_edit_operation :: "hook_data \<Rightarrow> bool" where
  "hook_is_edit_operation h \<longleftrightarrow> tool_name h = ''Edit''"

definition hook_is_write_operation :: "hook_data \<Rightarrow> bool" where
  "hook_is_write_operation h \<longleftrightarrow> tool_name h = ''Write''"

text \<open>The \<open>ValidationInput\<close> literal of \<open>main.go\<close>'s \<open>run\<close>.\<close>

definition input_of_hook :: "hook_data \<Rightarrow> validation_input" where
  "input_of_hook h =
     \<lparr>file_path = tool_file_path (tool_input h), change_content = get_validation_content h,
      full_content = get_full_content h, is_edit_operation = hook_is_edit_operation h\<rparr>"

end
