(* ===== verification/SimpleUI.thy ===== *)
theory SimpleUI
  imports Response
begin

text \<open>
  \<open>SimpleUI.DisplayResult\<close> of \<open>internal/ui/simple.go\<close>: the plain-text report written
  to standard error in hook mode, as the bytes it writes (\<open>Fprintln\<close> appends a newline).
\<close>

definition lint_display :: "lint_result \<Rightarrow> string" where
  "lint_display lr =
     (if \<not> passed lr then
        nl # lint_name lr @ '' errors:'' @ [nl] @
        (if lint_output lr \<noteq> [] then
           concat (map (\<lambda>l. ''  '' @ l @ [nl]) (filter (\<lambda>l. l \<noteq> []) (split_on nl (lint_output lr))))
         else []) @
        (case lint_error lr of None \<Rightarrow> [] | Some e \<Rightarrow> ''  Error: '' @ e @ [nl])
      else [])"

definition display_result :: "validation_result \<Rightarrow> string" where
  "display_result r =
     (if was_formatted r then check_mark @ '' Content was auto-formatted'' @ [nl] else []) @
     (if \<not> has_errors r then
        (if \<not> was_formatted r then check_mark @ '' All checks passed'' @ [nl] else [])
      else
        (if markdown_issues r \<noteq> [] then
           nl # ''Markdown validation errors:'' @ [nl] @
           concat (map (\<lambda>i. ''  Line '' @ dec_nat (line i) @ '', Col '' @ dec_nat (column i) @ '': '' @
                             message i @ [nl]) (markdown_issues r))
         else []) @
        concat (map lint_display (lint_results r)) @
        nl # heavy_rule @ [nl] @
        warning_sign @ ''  Validation issues found above - please review and address.'' @ [nl] @
        heavy_rule @ [nl])"

lemma join_nl_concat: "xs \<noteq> [] \<Longrightarrow> join xs [c] @ [c] = concat (map (\<lambda>p. p @ [c]) xs)"
  by (induction xs "[c]" rule: join.induct) auto

lemma lint_display_fun: "lint_display = (\<lambda>lr. concat (map (\<lambda>p. p @ [nl]) (lint_parts lr)))"
  by (rule ext) (simp add: lint_display_def lint_parts_def comp_def split: option.splits)

lemma context_parts_nonempty: "context_parts r \<noteq> []"
  by (simp add: context_parts_def)

lemma concat_map_concat: "concat (map (\<lambda>x. concat (h x)) xs) = concat (concat (map h xs))"
  by (induction xs) auto

lemma display_result_parts: "display_result r = concat (map (\<lambda>p. p @ [nl]) (context_parts r))"
  by (simp add: display_result_def context_parts_def lint_display_fun map_concat comp_def
      formatted_line_def passed_line_def banner_line_def issue_text_def concat_map_concat)

text \<open>
  The plain-text report of \<open>DisplayResult\<close> is the JSON response's additional context
  followed by a newline: the two renderings of a result carry the same lines.
\<close>

lemma display_result_json:
  "display_result r = additional_context (build_json_response r) @ [nl]"
  using join_nl_concat [OF context_parts_nonempty [of r], of nl]
  by (simp add: display_result_parts build_json_response_def)

end
