(* ===== verification/Cli.thy ===== *)
theory Cli
  imports Hook SimpleUI Tui
begin

text \<open>
  The entry point \<open>run()\<close> of \<open>main.go\<close>. Its inputs are what the process cannot
  choose: the decoded hook payload (or the decoding error), the environment variables,
  whether standard output is a terminal, and the run environment of \<open>Validate\<close>. Its
  outputs are the exit code, the JSON report written to standard output, the plain-text
  report and the warnings written to standard error, and the file system. The text of
  the error messages \<open>run\<close> prints after a failed validation is not modelled; the message
  for a payload that could not be read or decoded is.

  In interactive mode the TUI runs \<open>Validate\<close> as a command and quits once its
  \<open>validationCompleteMsg\<close> arrived; the model follows the run in which no key is pressed
  before that message, so \<open>ui.Run\<close> answers with \<open>tui_run_result\<close> of the model after
  that one step.
\<close>

record cli_out =
  exit_code :: int
  stdout_json :: "hook_specific_output option"
  stderr_report :: string
  stderr_warnings :: "string list"
  cli_fs :: fs

definition exit_success :: int where "exit_success = 0"

definition exit_error :: int where "exit_error = 1"

text \<open>The message \<open>runValidation\<close> sends: a nil result when \<open>Validate\<close> failed.\<close>

definition completion_msg :: "validate_error + validation_result \<Rightarrow> tui_msg" where
  "completion_msg v =
     (case v of Inl e \<Rightarrow> ValidationCompleteMsg None (Some e) | Inr r \<Rightarrow> ValidationCompleteMsg (Some r) None)"

definition cli_run :: "string + hook_data \<Rightarrow> (string \<Rightarrow> string) \<Rightarrow> bool \<Rightarrow> run_env \<Rightarrow> fs \<Rightarrow> cli_out" where
  "cli_run parsed getenv is_tty env f =
     (case parsed of
        Inl err \<Rightarrow> \<lparr>exit_code = exit_error, stdout_json = None,
                    stderr_report = ''Error parsing hook data: '' @ err @ [nl], stderr_warnings = [], cli_fs = f\<rparr>
      | Inr h \<Rightarrow>
          if tool_file_path (tool_input h) = [] then
            \<lparr>exit_code = exit_success, stdout_json = None, stderr_report = [], stderr_warnings = [], cli_fs = f\<rparr>
          else
            (let cfg = load getenv;
                 input = input_of_hook h;
                 ext = trim_prefix (go_ext (file_path input)) ''.'';
                 linters = get_applicable_linters ext;
                 names = map linter_name linters;
                 (v, f', warns) = validate cfg env input f
             in if is_tty \<and> \<not> is_edit_operation input \<and> linters \<noteq> [] then
                  (case tui_run_result (fst (tui_update (new_model input names) (completion_msg v))) of
                     Inl _ \<Rightarrow> \<lparr>exit_code = exit_error, stdout_json = None, stderr_report = [],
                               stderr_warnings = warns, cli_fs = f'\<rparr>
                   | Inr _ \<Rightarrow> \<lparr>exit_code = exit_success, stdout_json = None, stderr_report = [],
                               stderr_warnings = warns, cli_fs = f'\<rparr>)
                else
                  (case v of
                     Inl _ \<Rightarrow> \<lparr>exit_code = exit_error, stdout_json = None, stderr_report = [],
                               stderr_warnings = warns, cli_fs = f'\<rparr>
                   | Inr r \<Rightarrow> \<lparr>exit_code = exit_success, stdout_json = Some (build_json_response r),
                               stderr_report = display_result r, stderr_warnings = warns, cli_fs = f'\<rparr>)))"

text \<open>\<open>main\<close>: \<open>run\<close> on what standard input held.\<close>

definition cli_main :: "string + string \<Rightarrow> (string \<Rightarrow> string + hook_data) \<Rightarrow> (string \<Rightarrow> string) \<Rightarrow> bool \<Rightarrow>
    run_env \<Rightarrow> fs \<Rightarrow> cli_out" where
  "cli_main rd unmarshal getenv is_tty env f = cli_run (parse_hook_data rd unmarshal) getenv is_tty env f"

text \<open>Hook payloads for the examples: a Write of \<open>a.py\<close>, an Edit of \<open>a.md\<close>.\<close>

definition write_hook :: hook_data where
  "write_hook = \<lparr>tool_name = ''Write'', tool_input = \<lparr>tool_file_path = ''a.py'', old_string = [],
     new_string = [], content = ''x=1\<newline>''\<rparr>\<rparr>"

definition edit_hook :: hook_data where
  "edit_hook = \<lparr>tool_name = ''Edit'', tool_input = \<lparr>tool_file_path = ''a.md'', old_string = ''bold'',
     new_string = ''This is **bold**'', content = []\<rparr>\<rparr>"

lemma completion_result:
  "tui_run_result (fst (tui_update m (completion_msg v))) = (case v of Inl e \<Rightarrow> Inl e | Inr r \<Rightarrow> Inr (Some r))"
  by (simp add: completion_msg_def tui_run_result_def Let_def split: sum.splits)

lemma cli_run_hook:
  "tool_file_path (tool_input h) \<noteq> [] \<Longrightarrow>
   cli_run (Inr h) getenv tty env f =
     (let input = input_of_hook h;
          linters = get_applicable_linters (trim_prefix (go_ext (file_path input)) ''.'');
          (v, f', warns) = validate (load getenv) env input f
      in if tty \<and> \<not> is_edit_operation input \<and> linters \<noteq> [] then
           \<lparr>exit_code = (if isl v then exit_error else exit_success), stdout_json = None,
            stderr_report = [], stderr_warnings = warns, cli_fs = f'\<rparr>
         else
           (case v of
              Inl _ \<Rightarrow> \<lparr>exit_code = exit_error, stdout_json = None, stderr_report = [],
                        stderr_warnings = warns, cli_fs = f'\<rparr>
            | Inr r \<Rightarrow> \<lparr>exit_code = exit_success, stdout_json = Some (build_json_response r),
                        stderr_report = display_result r, stderr_warnings = warns, cli_fs = f'\<rparr>))"
  by (simp add: cli_run_def Let_def completion_result split: prod.splits sum.splits)

text \<open>
  Claim C22 (cli_never_blocks). Whatever the payload, the environment and the tools do,
  every JSON response \<open>run\<close> prints approves the tool call.
\<close>

theorem cli_never_blocks:
  "stdout_json (cli_run parsed getenv tty env f) = Some resp \<Longrightarrow> decision resp = ''approve''"
  by (auto simp: cli_run_def Let_def build_json_response_decision
      split: sum.splits prod.splits if_splits tui_cmd.splits)

theorem cli_never_blocks_witness:
  "\<exists>resp. stdout_json (cli_run (Inr write_hook) (\<lambda>_. []) False (demo_run flag_tools []) Map.empty) = Some resp \<and>
     decision resp = ''approve''"
proof -
  have "stdout_json (cli_run (Inr write_hook) (\<lambda>_. []) False (demo_run flag_tools []) Map.empty) \<noteq> None"
    by code_simp
  then obtain resp where s: "stdout_json (cli_run (Inr write_hook) (\<lambda>_. []) False (demo_run flag_tools []) Map.empty) = Some resp"
    by blast
  with cli_never_blocks [OF s] show ?thesis by blast
qed

text \<open>
  Claim C23 (cli_exit_code). The exit code of \<open>run\<close> in the hook mode, where standard
  output is not a terminal: 1 when the payload does not decode, 0 when it names no file,
  and otherwise 1 exactly when \<open>Validate\<close> returned an error. Findings never change it.
  The exit code of the terminal mode depends on the interleaving; it is
  \<open>Tty_Run.tty_exit_code\<close>.
\<close>

theorem cli_exit_code:
  assumes hook: "\<not> tty"
  shows "exit_code (cli_run parsed getenv tty env f) =
     (case parsed of
        Inl _ \<Rightarrow> 1
      | Inr h \<Rightarrow> if tool_file_path (tool_input h) = [] then 0
                 else if isl (fst (validate (load getenv) env (input_of_hook h) f)) then 1 else 0)"
proof (cases parsed)
  case (Inl err)
  then show ?thesis by (simp add: cli_run_def exit_error_def)
next
  case (Inr h)
  show ?thesis
  proof (cases "tool_file_path (tool_input h) = []")
    case True
    with Inr show ?thesis by (simp add: cli_run_def exit_success_def)
  next
    case False
    obtain v f' ws where vd: "validate (load getenv) env (input_of_hook h) f = (v, f', ws)"
      by (cases "validate (load getenv) env (input_of_hook h) f")
    with Inr False show ?thesis
      by (cases v) (simp_all add: cli_run_hook Let_def exit_error_def exit_success_def)
  qed
qed

theorem cli_exit_code_witness:
  "exit_code (cli_run (Inl ''unexpected end of JSON input'') (\<lambda>_. []) False (demo_run quiet_tools []) Map.empty) = 1"
  using cli_exit_code [of False "Inl ''unexpected end of JSON input''"] by simp

text \<open>
  Claim C24 (cli_reports_agree). When \<open>run\<close> prints a JSON response, the plain-text
  report it writes to standard error is that response's additional context followed by a
  newline: \<open>DisplayResult\<close> and \<open>BuildJSONResponse\<close> render the same lines.
\<close>

theorem cli_reports_agree:
  "stdout_json (cli_run parsed getenv tty env f) = Some resp \<Longrightarrow>
   stderr_report (cli_run parsed getenv tty env f) = additional_context resp @ [nl]"
  by (auto simp: cli_run_def Let_def display_result_json
      split: sum.splits prod.splits if_splits)

theorem cli_reports_agree_witness:
  "\<exists>resp. stdout_json (cli_run (Inr write_hook) (\<lambda>_. []) False (demo_run flag_tools []) Map.empty) = Some resp \<and>
     stderr_report (cli_run (Inr write_hook) (\<lambda>_. []) False (demo_run flag_tools []) Map.empty) = additional_context resp @ [nl]"
proof -
  have "stdout_json (cli_run (Inr write_hook) (\<lambda>_. []) False (demo_run flag_tools []) Map.empty) \<noteq> None"
    by code_simp
  then obtain resp where s: "stdout_json (cli_run (Inr write_hook) (\<lambda>_. []) False (demo_run flag_tools []) Map.empty) = Some resp"
    by blast
  with cli_reports_agree [OF s] show ?thesis by blast
qed

text \<open>
  Claim C34 (cli_edit_leaves_files). A hook for an \<open>Edit\<close> validates only the new
  fragment in memory and leaves the file system exactly as it was.
\<close>

theorem cli_edit_leaves_files:
  "hook_is_edit_operation h \<Longrightarrow> cli_fs (cli_run (Inr h) getenv tty env f) = f"
  by (auto simp: cli_run_def Let_def input_of_hook_def validate_def get_full_content_def
      hook_is_edit_operation_def split: prod.splits sum.splits)

theorem cli_edit_leaves_files_witness:
  "cli_fs (cli_run (Inr edit_hook) (\<lambda>_. []) True (demo_run racy_tools []) [''/tmp/a.md'' \<mapsto> ''x''])
     = [''/tmp/a.md'' \<mapsto> ''x'']"
  by (rule cli_edit_leaves_files) (simp add: edit_hook_def hook_is_edit_operation_def)


text \<open>
  Claim C30 (tui_completion_quits). The interactive run always ends once the validation
  completes: whatever the model, \<open>Update\<close> on the completion message marks the
  validation done and answers with the command that quits, and \<open>Run\<close> then answers with
  the validation's error or its result.
\<close>

theorem tui_completion_quits:
  "snd (tui_update m (completion_msg v)) = CmdQuitAfterDelay \<and>
   validation_done (fst (tui_update m (completion_msg v))) \<and>
   tui_run_result (fst (tui_update m (completion_msg v))) = (case v of Inl e \<Rightarrow> Inl e | Inr r \<Rightarrow> Inr (Some r))"
  by (simp add: completion_msg_def tui_run_result_def Let_def split: sum.splits option.splits)

text \<open>
  Claim C31 (unreadable_payload_rejected). When standard input cannot be read or does not
  decode, \<open>main\<close> exits with 1, prints no JSON, leaves the file system alone, and says on
  standard error which of the two failed.
\<close>

theorem unreadable_payload_rejected:
  assumes "parse_hook_data rd unmarshal = Inl err"
  shows "exit_code (cli_main rd unmarshal getenv tty env f) = 1 \<and>
    stdout_json (cli_main rd unmarshal getenv tty env f) = None \<and>
    cli_fs (cli_main rd unmarshal getenv tty env f) = f \<and>
    stderr_report (cli_main rd unmarshal getenv tty env f) = ''Error parsing hook data: '' @ err @ [nl] \<and>
    (has_prefix err ''failed to read hook data: '' \<or> has_prefix err ''failed to parse hook JSON: '')"
  using assms
  by (auto simp: cli_main_def cli_run_def exit_error_def parse_hook_data_def has_prefix_def
      split: sum.splits)

theorem unreadable_payload_rejected_witness:
  "exit_code (cli_main (Inr ''{'') (\<lambda>_. Inl ''unexpected end of JSON input'') (\<lambda>_. []) False
     (demo_run quiet_tools []) Map.empty) = 1 \<and>
   stderr_report (cli_main (Inr ''{'') (\<lambda>_. Inl ''unexpected end of JSON input'') (\<lambda>_. []) False
     (demo_run quiet_tools []) Map.empty) =
     ''Error parsing hook data: failed to parse hook JSON: unexpected end of JSON input'' @ [nl]"
proof -
  have "parse_hook_data (Inr ''{'') (\<lambda>_. Inl ''unexpected end of JSON input'') =
      Inl ''failed to parse hook JSON: unexpected end of JSON input''"
    by (simp add: parse_hook_data_def)
  from unreadable_payload_rejected [OF this, of "\<lambda>_. []" False "demo_run quiet_tools []" Map.empty]
  show ?thesis by simp
qed

end
