(* ===== verification/Validate_Steps.thy ===== *)
theory Validate_Steps
  imports Validator
begin

text \<open>
  \<open>Validate\<close> as the goroutine the terminal mode runs it in: a small-step program whose
  steps are the atomic actions of \<open>internal/validator/validator.go\<close>. These are the three
  system calls of \<open>createTempFile\<close>, one formatter of the formatter loop, one linter
  goroutine of the \<open>errgroup\<close>, the read-back, and the removal (the cleanup of
  \<open>createTempFile\<close> or the deferred \<open>os.Remove\<close>). \<open>vstate\<close> is the program point with
  the values live there, \<open>vstep\<close> one step, and \<open>vfinal\<close> the run to the end. Its
  termination is proved with the rank \<open>vrank\<close>, and \<open>vfinal_validate\<close> shows that the
  run to the end is \<open>validate\<close>. A formatter step is one iteration of the formatter
  loop (\<open>run_formatters\<close> on one formatter), a linter step one goroutine of the fan-out
  (\<open>run_in_order\<close> on one index), in the order of the scheduler as in \<open>validate\<close>.
\<close>

datatype vstate =
    VStart
  | VCreated path
  | VWriting path
  | VFormatting path "formatter list"
  | VLinting path "nat list" "lint_result list"
  | VReading path validation_result
  | VRemoving path "validate_error + validation_result"
  | VDone "validate_error + validation_result"

fun vstep :: "config \<Rightarrow> run_env \<Rightarrow> validation_input \<Rightarrow> vstate \<Rightarrow> fs \<Rightarrow> vstate \<times> fs \<times> string list" where
  "vstep cfg env input VStart f =
     (if file_path input = [] \<or> ext_of input = [] then (VDone (Inr empty_result), f, [])
      else if is_edit_operation input \<or> full_content input = [] then
        (VDone (Inr (rule_check (ext_of input) input empty_result)), f, [])
      else
        (let ext = go_ext (file_path input);
             base = trim_suffix (go_base (file_path input)) ext
         in case os_create_temp (run_os env) f [] (base @ ''.*'') of
              Inl e \<Rightarrow> (VDone (Inl (TempFileError (CreateTempFailed e))), f, [])
            | Inr (tmp_name, f1) \<Rightarrow> (VCreated tmp_name, f1, [])))"
| "vstep cfg env input (VCreated tmp_name) f =
     (let ext = go_ext (file_path input) in
      if ext \<noteq> [] then
        (let new_name = trim_suffix tmp_name (go_ext tmp_name) @ ext in
         case os_rename (run_os env) f tmp_name new_name of
           Inl e \<Rightarrow> (VRemoving tmp_name (Inl (TempFileError (RenameFailed e))), f, [])
         | Inr f2 \<Rightarrow> (VWriting new_name, f2, []))
      else (VWriting tmp_name, f, []))"
| "vstep cfg env input (VWriting name) f =
     (case os_write_file (run_os env) f name (full_content input) of
        Inl e \<Rightarrow> (VRemoving name (Inl (TempFileError (WriteFailed e))), f, [])
      | Inr f3 \<Rightarrow> (VFormatting name (get_applicable_formatters (ext_of input)), f3, []))"
| "vstep cfg env input (VFormatting tmp (fm # fms)) f =
     (let (f1, w) = run_formatters cfg (run_tools env) [fm] tmp f in (VFormatting tmp fms, f1, w))"
| "vstep cfg env input (VFormatting tmp []) f =
     (let ls = get_applicable_linters (ext_of input) in
      if ls = [] then (VReading tmp (rule_check (ext_of input) input empty_result), f, [])
      else (VLinting tmp (schedule_order (schedule env) (length ls)) (replicate (length ls) zero_lint_result),
            f, []))"
| "vstep cfg env input (VLinting tmp (i # is) rs) f =
     (let (rs', f') = run_in_order cfg (run_dir env) (run_tools env) (get_applicable_linters (ext_of input))
                        tmp [i] (rs, f)
      in (VLinting tmp is rs', f', []))"
| "vstep cfg env input (VLinting tmp [] rs) f =
     (let ls = get_applicable_linters (ext_of input);
          res = rule_check (ext_of input) input empty_result
      in if group_wait (map (\<lambda>_. None) ls) \<noteq> None then (VRemoving tmp (Inl LinterExecutionFailed), f, [])
         else (VReading tmp (res\<lparr>lint_results := lint_results res @ rs,
                                has_errors := has_errors res \<or> list_ex (\<lambda>r. \<not> passed r) rs\<rparr>), f, []))"
| "vstep cfg env input (VReading tmp res) f =
     (VRemoving tmp (Inr (read_back (run_os env) f tmp (full_content input) res)), f, [])"
| "vstep cfg env input (VRemoving p v) f = (VDone v, os_remove (run_os env) f p, [])"
| "vstep cfg env input (VDone v) f = (VDone v, f, [])"

fun vdone :: "vstate \<Rightarrow> bool" where
  "vdone (VDone v) = True"
| "vdone _ = False"

text \<open>The rank of a program point: the most steps left before \<open>VDone\<close>.\<close>

fun vrank :: "validation_input \<Rightarrow> vstate \<Rightarrow> nat" where
  "vrank input (VDone v) = 0"
| "vrank input (VRemoving p v) = 1"
| "vrank input (VReading p r) = 2"
| "vrank input (VLinting p is rs) = 3 + length is"
| "vrank input (VFormatting p fms) = 4 + length (get_applicable_linters (ext_of input)) + length fms"
| "vrank input (VWriting p) =
     5 + length (get_applicable_linters (ext_of input)) + length (get_applicable_formatters (ext_of input))"
| "vrank input (VCreated p) =
     6 + length (get_applicable_linters (ext_of input)) + length (get_applicable_formatters (ext_of input))"
| "vrank input VStart =
     7 + length (get_applicable_linters (ext_of input)) + length (get_applicable_formatters (ext_of input))"

text \<open>Running the goroutine to its end: the outcome, the file system and what it printed.\<close>

function vfinal :: "config \<Rightarrow> run_env \<Rightarrow> validation_input \<Rightarrow> vstate \<Rightarrow> fs \<Rightarrow>
    (validate_error + validation_result) \<times> fs \<times> string list" where
  "vfinal cfg env input s f =
     (case s of
        VDone v \<Rightarrow> (v, f, [])
      | _ \<Rightarrow> (let (s', f', w) = vstep cfg env input s f;
                 (v, f'', ws) = vfinal cfg env input s' f'
             in (v, f'', w @ ws)))"
  by pat_completeness auto
termination
  by (relation "measure (\<lambda>(cfg, env, input, s, f). vrank input s)")
     (auto simp: Let_def split: sum.splits prod.splits if_splits elim!: vstep.elims [OF sym])

text \<open>\<open>n\<close> steps of the goroutine (a finished goroutine stays finished).\<close>

fun viter :: "config \<Rightarrow> run_env \<Rightarrow> validation_input \<Rightarrow> nat \<Rightarrow> vstate \<Rightarrow> fs \<Rightarrow> vstate \<times> fs" where
  "viter cfg env input 0 g f = (g, f)"
| "viter cfg env input (Suc n) g f = (case vstep cfg env input g f of (g', f', w) \<Rightarrow> viter cfg env input n g' f')"

text \<open>
  The files the goroutine may touch. \<open>tmp_root\<close> is the directory \<open>os.CreateTemp("", ...)\<close>
  creates in, with its separator: \<open>joinPath(os.TempDir(), "")\<close>. \<open>vfile\<close> is the file the
  goroutine holds at a program point: the name \<open>os.CreateTemp\<close> returned, then the staged
  name.
\<close>

definition tmp_root :: "os_env \<Rightarrow> path" where
  "tmp_root env = join_path (temp_dir env) []"

fun vfile :: "vstate \<Rightarrow> path option" where
  "vfile VStart = None"
| "vfile (VCreated p) = Some p"
| "vfile (VWriting p) = Some p"
| "vfile (VFormatting p fms) = Some p"
| "vfile (VLinting p js rs) = Some p"
| "vfile (VReading p r) = Some p"
| "vfile (VRemoving p v) = Some p"
| "vfile (VDone v) = None"

definition in_tmp :: "os_env \<Rightarrow> vstate \<Rightarrow> bool" where
  "in_tmp env s \<longleftrightarrow> (case vfile s of None \<Rightarrow> True | Some p \<Rightarrow> has_prefix p (tmp_root env))"

declare vfinal.simps [simp del]

text \<open>The outcome of a run to the end with \<open>w\<close> printed before it.\<close>

definition add_out :: "string list \<Rightarrow> 'a \<times> fs \<times> string list \<Rightarrow> 'a \<times> fs \<times> string list" where
  "add_out w r = (case r of (v, f, ws) \<Rightarrow> (v, f, w @ ws))"

lemma vstep_rank: "\<not> vdone s \<Longrightarrow> vrank input (fst (vstep cfg env input s f)) < vrank input s"
  by (cases "(cfg, env, input, s, f)" rule: vstep.cases)
     (auto simp: Let_def split: sum.splits prod.splits if_splits)

lemma vfinal_done [simp]: "vfinal cfg env input (VDone v) f = (v, f, [])"
  by (simp add: vfinal.simps)

lemma vfinal_step:
  "\<not> vdone s \<Longrightarrow> vfinal cfg env input s f =
     (case vstep cfg env input s f of (s', f', w) \<Rightarrow> add_out w (vfinal cfg env input s' f'))"
  by (subst vfinal.simps) (cases s; simp add: add_out_def split: prod.splits)

lemma add_out_Nil [simp]: "add_out [] r = r"
  by (simp add: add_out_def split: prod.splits)

lemma add_out_append: "add_out w (add_out w' r) = add_out (w @ w') r"
  by (simp add: add_out_def split: prod.splits)

lemma run_formatters_Cons_single:
  "run_formatters cfg env (fm # fms) p f =
     (case run_formatters cfg env [fm] p f of
        (f1, w) \<Rightarrow> (case run_formatters cfg env fms p f1 of (f2, ws) \<Rightarrow> (f2, w @ ws)))"
  by (simp split: prod.splits)

lemma run_in_order_Cons_single:
  "run_in_order cfg dir env ls p (i # is) st = run_in_order cfg dir env ls p is (run_in_order cfg dir env ls p [i] st)"
  by (cases st) (simp split: prod.splits)

lemma vfinal_formatting:
  "vfinal cfg env input (VFormatting tmp fms) f =
     (case run_formatters cfg (run_tools env) fms tmp f of
        (f2, ws) \<Rightarrow> add_out ws (vfinal cfg env input (VFormatting tmp []) f2))"
proof (induction fms arbitrary: f)
  case Nil
  then show ?case by simp
next
  case (Cons fm fms)
  show ?case
    by (subst vfinal_step) (simp_all add: Cons.IH run_formatters_Cons_single [of _ _ fm fms] add_out_append
        split: prod.splits)
qed

lemma vfinal_linting:
  "vfinal cfg env input (VLinting tmp js rs) f =
     (case run_in_order cfg (run_dir env) (run_tools env) (get_applicable_linters (ext_of input)) tmp js (rs, f) of
        (rs', f') \<Rightarrow> vfinal cfg env input (VLinting tmp [] rs') f')"
proof (induction js arbitrary: rs f)
  case Nil
  then show ?case by simp
next
  case (Cons i js)
  show ?case
    by (subst vfinal_step) (simp_all add: Cons.IH run_in_order_Cons_single [of _ _ _ _ _ i js]
        del: run_in_order.simps split: prod.splits)
qed

lemma vfinal_reading:
  "vfinal cfg env input (VReading tmp res) f =
     (Inr (read_back (run_os env) f tmp (full_content input) res), os_remove (run_os env) f tmp, [])"
  by (simp add: vfinal_step)

lemma vfinal_formatting_Nil:
  "vfinal cfg env input (VFormatting tmp []) f =
     (if get_applicable_linters (ext_of input) = []
      then vfinal cfg env input (VReading tmp (rule_check (ext_of input) input empty_result)) f
      else vfinal cfg env input (VLinting tmp (schedule_order (schedule env) (length (get_applicable_linters (ext_of input))))
             (replicate (length (get_applicable_linters (ext_of input))) zero_lint_result)) f)"
  by (subst vfinal_step) (simp_all add: Let_def del: vstep.simps(7))

lemma vfinal_linting_Nil:
  "vfinal cfg env input (VLinting tmp [] rs) f =
     vfinal cfg env input (VReading tmp ((rule_check (ext_of input) input empty_result)\<lparr>
        lint_results := lint_results (rule_check (ext_of input) input empty_result) @ rs,
        has_errors := has_errors (rule_check (ext_of input) input empty_result) \<or> list_ex (\<lambda>r. \<not> passed r) rs\<rparr>)) f"
  by (subst vfinal_step) (simp_all add: Let_def del: vstep.simps(8))

lemma vfinal_staged:
  "vfinal cfg env input (VFormatting tmp (get_applicable_formatters (ext_of input))) f =
     validate_staged cfg env (ext_of input) input tmp (rule_check (ext_of input) input empty_result) f"
proof -
  obtain f2 ws where fm: "run_formatters cfg (run_tools env) (get_applicable_formatters (ext_of input)) tmp f = (f2, ws)"
    by (cases "run_formatters cfg (run_tools env) (get_applicable_formatters (ext_of input)) tmp f")
  have start: "vfinal cfg env input (VFormatting tmp (get_applicable_formatters (ext_of input))) f =
      add_out ws (vfinal cfg env input (VFormatting tmp []) f2)"
    by (subst vfinal_formatting) (simp add: fm)
  show ?thesis
  proof (cases "get_applicable_linters (ext_of input) = []")
    case True
    then show ?thesis
      using fm by (simp add: start vfinal_formatting_Nil vfinal_reading validate_staged_def add_out_def)
  next
    case False
    obtain rs f3 where ln: "run_linters cfg env (get_applicable_linters (ext_of input)) tmp f2 = (rs, f3)"
      by (cases "run_linters cfg env (get_applicable_linters (ext_of input)) tmp f2")
    then have "vfinal cfg env input (VFormatting tmp []) f2 = vfinal cfg env input (VLinting tmp [] rs) f3"
      using False by (simp add: vfinal_formatting_Nil, subst vfinal_linting) (simp add: run_linters_def)
    with False fm ln show ?thesis
      by (simp add: start vfinal_linting_Nil vfinal_reading validate_staged_def add_out_def Let_def)
  qed
qed

lemma vfinal_writing:
  "vfinal cfg env input (VWriting name) f =
     (case os_write_file (run_os env) f name (full_content input) of
        Inl e \<Rightarrow> (Inl (TempFileError (WriteFailed e)), os_remove (run_os env) f name, [])
      | Inr f3 \<Rightarrow> validate_staged cfg env (ext_of input) input name (rule_check (ext_of input) input empty_result) f3)"
  by (subst vfinal_step) (simp_all add: vfinal_staged [symmetric] vfinal_step [of "VRemoving _ _"] split: sum.splits)

lemma vfinal_created:
  "vfinal cfg env input (VCreated tmp_name) f =
     (if go_ext (file_path input) \<noteq> [] then
        (let new_name = trim_suffix tmp_name (go_ext tmp_name) @ go_ext (file_path input) in
         case os_rename (run_os env) f tmp_name new_name of
           Inl e \<Rightarrow> (Inl (TempFileError (RenameFailed e)), os_remove (run_os env) f tmp_name, [])
         | Inr f2 \<Rightarrow> vfinal cfg env input (VWriting new_name) f2)
      else vfinal cfg env input (VWriting tmp_name) f)"
  by (subst vfinal_step) (simp_all add: Let_def vfinal_step [of "VRemoving _ _"] del: vstep.simps(3) split: sum.splits)

lemma vfinal_validate_eq: "vfinal cfg env input VStart f = validate cfg env input f"
proof (cases "file_path input = [] \<or> ext_of input = []")
  case True
  then show ?thesis
    by (simp add: vfinal_step validate_short)
next
  case False
  show ?thesis
  proof (cases "is_edit_operation input \<or> full_content input = []")
    case True
    with False show ?thesis
      by (simp add: vfinal_step validate_edit)
  next
    case False': False
    with False show ?thesis
      by (simp add: vfinal_step [of VStart] validate_full create_temp_file_def vfinal_created vfinal_writing Let_def
          del: vstep.simps(2) split: sum.splits prod.splits)
  qed
qed

section \<open>The goroutine changes the temporary directory only\<close>

lemma tmp_root_slash: "tmp_root env \<noteq> [] \<and> last (tmp_root env) = slash"
  by (simp add: tmp_root_def join_path_def)

text \<open>Replacing the extension of a name inside a directory keeps it there.\<close>

lemma has_prefix_trim_ext:
  assumes p: "has_prefix p r" and r: "r \<noteq> []" "last r = slash"
  shows "has_prefix (trim_suffix p (go_ext p) @ x) r"
proof -
  obtain b where b: "p = b @ go_ext p"
    using go_ext_suffix by blast
  have nos: "slash \<notin> set (go_ext p)"
    using go_ext_shape [of p] by auto
  obtain t where t: "p = r @ t"
    using p by (metis append_take_drop_id has_prefix_def)
  have "has_prefix b r"
  proof -
    from b t have "b @ go_ext p = r @ t" by simp
    then obtain us where "(b = r @ us \<and> us @ go_ext p = t) \<or> (b @ us = r \<and> go_ext p = us @ t)"
      by (auto simp: append_eq_append_conv2)
    then show ?thesis
    proof
      assume "b = r @ us \<and> us @ go_ext p = t"
      then show ?thesis by (simp add: has_prefix_def)
    next
      assume u: "b @ us = r \<and> go_ext p = us @ t"
      show ?thesis
      proof (cases "us = []")
        case True
        with u show ?thesis by (simp add: has_prefix_def)
      next
        case False
        with u r have "last us = slash" by (metis last_appendR)
        with False u nos show ?thesis by (metis Un_iff last_in_set set_append)
      qed
    qed
  qed
  moreover have "trim_suffix p (go_ext p) = b"
    using b by (metis trim_suffix_append)
  ultimately show ?thesis
    by (simp add: has_prefix_append_right)
qed

lemma os_create_temp_in_root:
  assumes "os_create_temp env f [] pat = Inr (n, f1)"
  shows "has_prefix n (tmp_root env) \<and> f1 = f(n \<mapsto> [])"
proof -
  obtain pre suf where "create_temp_loop env f (join_path (temp_dir env) pre) suf 0 10000 = Inr (n, f1)"
    using assms by (auto simp: os_create_temp_def split: sum.splits)
  then obtain j where "n = join_path (temp_dir env) pre @ next_random env j @ suf"
    by (blast dest: create_temp_loop_Inr)
  moreover have "join_path (temp_dir env) pre = tmp_root env @ pre"
    using join_path_append [of "temp_dir env" "[]" pre] by (simp add: tmp_root_def)
  ultimately show ?thesis
    using os_create_temp_Inr [OF assms] by (simp add: has_prefix_iff)
qed

lemma formatter_format_fs:
  "formatter_format cfg tools fm p f = (e, f1) \<Longrightarrow> f1 = snd (tools ''ruff'' (formatter_args cfg fm p) f)"
  by (simp add: formatter_format_def split: prod.splits)

lemma linter_run_fs:
  "linter_run cfg dir tools l p f = (r, f1) \<Longrightarrow> f1 = snd (tools (linter_name l) (linter_args cfg dir l p) f)"
  using run_command_fs [of tools "linter_name l" "linter_args cfg dir l p" f] by (simp add: linter_run_def)

lemma outside_root_ne: "has_prefix p r \<Longrightarrow> \<not> has_prefix q r \<Longrightarrow> q \<noteq> p"
  by auto

lemma vstep_confined:
  assumes tools: "\<And>name args g q. q \<noteq> last args \<Longrightarrow> snd (run_tools env name args g) q = g q"
    and held: "in_tmp (run_os env) s"
    and step: "vstep cfg env input s f = (s', f', w)"
  shows "in_tmp (run_os env) s' \<and> (\<forall>q. \<not> has_prefix q (tmp_root (run_os env)) \<longrightarrow> f' q = f q)"
  using held step
proof (cases "(cfg, env, input, s, f)" rule: vstep.cases)
  case 1
  then show ?thesis
    using held step tmp_root_slash
    by (auto simp: in_tmp_def Let_def split: if_splits sum.splits prod.splits
        dest!: os_create_temp_in_root dest: outside_root_ne)
next
  case (2 _ _ _ n)
  then show ?thesis
    using held step tmp_root_slash [of "run_os env"]
    by (auto simp: in_tmp_def Let_def os_rename_def has_prefix_trim_ext split: if_splits sum.splits option.splits
        dest: outside_root_ne)
next
  case (3 _ _ _ n)
  then show ?thesis
    using held step by (auto simp: in_tmp_def os_write_file_def split: if_splits sum.splits)
next
  case (4 _ _ _ p fm fms)
  then show ?thesis
    using held step tools [of _ "formatter_args cfg fm p"]
    by (auto simp: in_tmp_def split: prod.splits dest!: formatter_format_fs dest: outside_root_ne)
next
  case 5
  then show ?thesis
    using held step by (auto simp: in_tmp_def Let_def split: if_splits)
next
  case (6 _ _ _ p i js rs)
  then show ?thesis
    using held step tools [of _ "linter_args cfg (run_dir env) (get_applicable_linters (ext_of input) ! i) p"]
    by (auto simp: in_tmp_def linter_args_last split: prod.splits dest!: linter_run_fs dest: outside_root_ne)
next
  case 7
  then show ?thesis
    using held step by (auto simp: in_tmp_def Let_def split: if_splits)
next
  case 8
  then show ?thesis
    using held step by (auto simp: in_tmp_def)
next
  case 9
  then show ?thesis
    using held step by (auto simp: in_tmp_def os_remove_def dest: outside_root_ne)
next
  case 10
  then show ?thesis
    using held step by (auto simp: in_tmp_def)
qed

text \<open>
  Run to its end from a program point whose file is in the temporary directory, the
  goroutine changes no file outside it.
\<close>

lemma vfinal_confined:
  assumes tools: "\<And>name args g q. q \<noteq> last args \<Longrightarrow> snd (run_tools env name args g) q = g q"
  shows "in_tmp (run_os env) g \<Longrightarrow> \<not> has_prefix q (tmp_root (run_os env)) \<Longrightarrow>
    fst (snd (vfinal cfg env input g f)) q = f q"
proof (induction "vrank input g" arbitrary: g f rule: less_induct)
  case less
  show ?case
  proof (cases "vdone g")
    case True
    then obtain v where "g = VDone v"
      by (cases g) simp_all
    then show ?thesis by simp
  next
    case False
    obtain g' f1 w where st: "vstep cfg env input g f = (g', f1, w)"
      by (cases "vstep cfg env input g f")
    have conf: "in_tmp (run_os env) g'" and same: "f1 q = f q"
      using vstep_confined [OF tools less.prems(1) st] less.prems(2) by simp_all
    have "vrank input g' < vrank input g"
      using vstep_rank [OF False, of input cfg env f] st by simp
    then have IH: "fst (snd (vfinal cfg env input g' f1)) q = f1 q"
      using less.hyps conf less.prems(2) by blast
    obtain v f'' ws where vf: "vfinal cfg env input g' f1 = (v, f'', ws)"
      by (cases "vfinal cfg env input g' f1")
    with IH False st same show ?thesis
      by (simp add: vfinal_step add_out_def)
  qed
qed

lemma validate_confined:
  assumes tools: "\<And>name args g q. q \<noteq> last args \<Longrightarrow> snd (run_tools env name args g) q = g q"
    and outside: "\<not> has_prefix q (tmp_root (run_os env))"
  shows "fst (snd (validate cfg env input f)) q = f q"
  using vfinal_confined [OF tools _ outside, of VStart cfg input f]
  by (simp add: in_tmp_def vfinal_validate_eq)

end
