(* ===== verification/Tty_Run.thy ===== *)
theory Tty_Run
  imports Cli Validate_Steps
begin

text \<open>
  The terminal mode of \<open>run()\<close> as the concurrent program it is. \<open>ui.Run\<close> starts the
  bubbletea loop; \<open>Init\<close> starts \<open>runValidation\<close> as a command, a goroutine that calls
  \<open>Validate\<close> and sends \<open>validationCompleteMsg\<close>. While it runs, the loop handles key
  presses and spinner ticks. After the completion message \<open>Update\<close> schedules a quit
  half a second later; a \<open>q\<close> or \<open>ctrl+c\<close> quits at once. When the loop quits,
  \<open>ui.Run\<close> returns, \<open>run\<close> returns, and \<open>main\<close> calls \<open>os.Exit\<close>, which ends every
  goroutine where it stands.

  The goroutine is the small-step program of \<open>Validate_Steps\<close>: each of its steps (a system
  call of \<open>createTempFile\<close>, a formatter, a linter goroutine, the read-back, a removal)
  is one step of the program, interleaved with the loop's. \<open>tty_step\<close> is one step of
  the program: a step of the goroutine, the delivery of its message, a key press, a spinner
  tick, or the delayed quit.
\<close>

text \<open>Where the validation goroutine stands: running at a program point of \<open>Validate\<close>
  (\<open>VDone\<close>: returned, its message not yet handled), or delivered.\<close>

datatype goroutine = GRun vstate | GDelivered

record tty_state =
  ts_model :: tui_model
  ts_phase :: goroutine
  ts_fs :: fs
  ts_exited :: bool

definition tty_init :: "validation_input \<Rightarrow> string list \<Rightarrow> fs \<Rightarrow> tty_state" where
  "tty_init input names f =
     \<lparr>ts_model = new_model input names, ts_phase = GRun VStart, ts_fs = f, ts_exited = False\<rparr>"

inductive tty_step :: "config \<Rightarrow> run_env \<Rightarrow> validation_input \<Rightarrow> tty_state \<Rightarrow> tty_state \<Rightarrow> bool"
  for cfg env input where
  go: "\<not> ts_exited s \<Longrightarrow> ts_phase s = GRun g \<Longrightarrow> \<not> vdone g \<Longrightarrow>
    vstep cfg env input g (ts_fs s) = (g', f', w) \<Longrightarrow>
    tty_step cfg env input s (s\<lparr>ts_phase := GRun g', ts_fs := f'\<rparr>)"
| deliver: "\<not> ts_exited s \<Longrightarrow> ts_phase s = GRun (VDone v) \<Longrightarrow>
    tty_step cfg env input s
      (s\<lparr>ts_model := fst (tui_update (ts_model s) (completion_msg v)), ts_phase := GDelivered\<rparr>)"
| quit_tick: "\<not> ts_exited s \<Longrightarrow> ts_phase s = GDelivered \<Longrightarrow>
    tty_step cfg env input s (s\<lparr>ts_exited := True\<rparr>)"
| key: "\<not> ts_exited s \<Longrightarrow>
    tty_step cfg env input s
      (s\<lparr>ts_model := fst (tui_update (ts_model s) (KeyMsg k)),
         ts_exited := (snd (tui_update (ts_model s) (KeyMsg k)) = CmdQuit)\<rparr>)"
| spin: "\<not> ts_exited s \<Longrightarrow>
    tty_step cfg env input s (s\<lparr>ts_model := fst (tui_update (ts_model s) SpinnerTickMsg)\<rparr>)"

text \<open>
  The invariant of the runs from \<open>tty_init\<close>: the goroutine, run on to its end from where
  it stands, ends as \<open>validate\<close> does; the model's answer is fixed once the message is
  delivered; and the program has exited only by the delayed quit or by a quit key.
\<close>

definition answer :: "validate_error + validation_result \<Rightarrow> validate_error + validation_result option" where
  "answer v = (case v of Inl e \<Rightarrow> Inl e | Inr r \<Rightarrow> Inr (Some r))"

definition tty_inv :: "config \<Rightarrow> run_env \<Rightarrow> validation_input \<Rightarrow> fs \<Rightarrow> tty_state \<Rightarrow> bool" where
  "tty_inv cfg env input f s \<longleftrightarrow>
     (case ts_phase s of
        GRun g \<Rightarrow> fst (vfinal cfg env input g (ts_fs s)) = fst (validate cfg env input f) \<and>
          fst (snd (vfinal cfg env input g (ts_fs s))) = fst (snd (validate cfg env input f)) \<and>
          tm_result (ts_model s) = None \<and> validation_error (ts_model s) = None
      | GDelivered \<Rightarrow> fst (snd (validate cfg env input f)) = ts_fs s \<and>
          tui_run_result (ts_model s) = answer (fst (validate cfg env input f))) \<and>
     (ts_exited s \<longrightarrow> ts_phase s = GDelivered \<or> quitting (ts_model s))"

text \<open>
  What the program leaves outside the temporary directory: the goroutine holds a file in
  it, and every other file is as it was.
\<close>

definition tty_confined :: "run_env \<Rightarrow> fs \<Rightarrow> tty_state \<Rightarrow> bool" where
  "tty_confined env f s \<longleftrightarrow>
     (case ts_phase s of GRun g \<Rightarrow> in_tmp (run_os env) g | GDelivered \<Rightarrow> True) \<and>
     (\<forall>q. \<not> has_prefix q (tmp_root (run_os env)) \<longrightarrow> ts_fs s q = f q)"


inductive_cases tty_stepE: "tty_step cfg env input s s'"

lemma tui_update_key_answer:
  "tm_result (fst (tui_update m (KeyMsg k))) = tm_result m"
  "validation_error (fst (tui_update m (KeyMsg k))) = validation_error m"
  "snd (tui_update m (KeyMsg k)) = CmdQuit \<Longrightarrow> quitting (fst (tui_update m (KeyMsg k)))"
  by simp_all (auto split: if_splits)

lemma tui_run_result_quitting [simp]: "tui_run_result (m\<lparr>quitting := b\<rparr>) = tui_run_result m"
  by (simp add: tui_run_result_def split: option.splits)

lemma tui_run_result_key:
  "tui_run_result (fst (tui_update m (KeyMsg k))) = tui_run_result m"
  by (auto simp: tui_run_result_def split: option.splits)

lemma tty_init_inv: "tty_inv cfg env input f (tty_init input names f)"
  by (simp add: tty_inv_def tty_init_def new_model_def vfinal_validate_eq)

lemma vfinal_vstep:
  "\<not> vdone g \<Longrightarrow> vstep cfg env input g f = (g', f', w) \<Longrightarrow>
   fst (vfinal cfg env input g' f') = fst (vfinal cfg env input g f) \<and>
   fst (snd (vfinal cfg env input g' f')) = fst (snd (vfinal cfg env input g f))"
  by (simp add: vfinal_step add_out_def split: prod.splits)

lemma tty_step_inv:
  assumes "tty_step cfg env input s s'" and "tty_inv cfg env input f s"
  shows "tty_inv cfg env input f s'"
  using assms
proof (cases rule: tty_step.cases)
  case (go g g' f' w)
  with assms(2) show ?thesis
    by (simp add: tty_inv_def vfinal_vstep)
next
  case (deliver v)
  with assms(2) show ?thesis
    by (simp add: tty_inv_def completion_result answer_def)
next
  case quit_tick
  with assms(2) show ?thesis
    by (simp add: tty_inv_def)
next
  case (key k)
  with assms(2) show ?thesis
    by (auto simp: tty_inv_def tui_update_key_answer tui_run_result_key split: goroutine.splits)
next
  case spin
  with assms(2) show ?thesis
    by (simp add: tty_inv_def)
qed

lemma tty_reachable_inv:
  "(tty_step cfg env input)\<^sup>*\<^sup>* (tty_init input names f) s \<Longrightarrow> tty_inv cfg env input f s"
proof (induction rule: rtranclp_induct)
  case base
  show ?case by (rule tty_init_inv)
next
  case (step s s')
  then show ?case by (blast intro: tty_step_inv)
qed

text \<open>Left alone, the goroutine runs to its end: the program reaches \<open>vfinal\<close>'s state.\<close>

lemma tty_goroutine_runs:
  assumes "\<not> ts_exited s" and "ts_phase s = GRun g" and "ts_fs s = f"
    and "vfinal cfg env input g f = (v, f', ws)"
  shows "(tty_step cfg env input)\<^sup>*\<^sup>* s (s\<lparr>ts_phase := GRun (VDone v), ts_fs := f'\<rparr>)"
  using assms
proof (induction "vrank input g" arbitrary: g f s ws rule: less_induct)
  case less
  show ?case
  proof (cases "vdone g")
    case True
    then obtain v0 where "g = VDone v0"
      by (cases g) simp_all
    with less.prems have "s\<lparr>ts_phase := GRun (VDone v), ts_fs := f'\<rparr> = s"
      by (cases s) auto
    then show ?thesis
      by simp
  next
    case False
    obtain g' f1 w where st: "vstep cfg env input g f = (g', f1, w)"
      by (cases "vstep cfg env input g f")
    obtain ws' where rest: "vfinal cfg env input g' f1 = (v, f', ws')"
      using less.prems(4) False st by (auto simp: vfinal_step add_out_def split: prod.splits)
    let ?s1 = "s\<lparr>ts_phase := GRun g', ts_fs := f1\<rparr>"
    have "tty_step cfg env input s ?s1"
      using less.prems False st by (intro tty_step.go) simp_all
    moreover have "vrank input g' < vrank input g"
      using vstep_rank [OF False, of input cfg env f] st by simp
    then have "(tty_step cfg env input)\<^sup>*\<^sup>* ?s1 (?s1\<lparr>ts_phase := GRun (VDone v), ts_fs := f'\<rparr>)"
      using less.hyps [of g' ?s1 f1 ws'] less.prems rest by simp
    ultimately show ?thesis
      by (simp add: converse_rtranclp_into_rtranclp)
  qed
qed

lemma tty_goroutine_steps:
  "\<not> ts_exited s \<Longrightarrow> ts_phase s = GRun g \<Longrightarrow>
   (tty_step cfg env input)\<^sup>*\<^sup>* s
     (s\<lparr>ts_phase := GRun (fst (viter cfg env input n g (ts_fs s))), ts_fs := snd (viter cfg env input n g (ts_fs s))\<rparr>)"
proof (induction n arbitrary: s g)
  case 0
  then have "s\<lparr>ts_phase := GRun g, ts_fs := ts_fs s\<rparr> = s"
    by (cases s) auto
  then show ?case by simp
next
  case (Suc n)
  obtain g' f1 w where st: "vstep cfg env input g (ts_fs s) = (g', f1, w)"
    by (cases "vstep cfg env input g (ts_fs s)")
  let ?s1 = "s\<lparr>ts_phase := GRun g', ts_fs := f1\<rparr>"
  have first: "(tty_step cfg env input)\<^sup>*\<^sup>* s ?s1"
  proof (cases "vdone g")
    case True
    then obtain v where "g = VDone v" by (cases g) simp_all
    with st Suc.prems have "?s1 = s" by (cases s) auto
    then show ?thesis by simp
  next
    case False
    with Suc.prems st show ?thesis
      by (intro r_into_rtranclp tty_step.go) simp_all
  qed
  have "(tty_step cfg env input)\<^sup>*\<^sup>* ?s1
      (?s1\<lparr>ts_phase := GRun (fst (viter cfg env input n g' f1)), ts_fs := snd (viter cfg env input n g' f1)\<rparr>)"
    using Suc.IH [of ?s1 g'] Suc.prems by simp
  with first st show ?case
    by simp
qed

text \<open>From a state of the invariant that has not exited, the goroutine, its delivery and the
  delayed quit end the program as \<open>validate\<close> alone would; no key press is needed.\<close>

lemma tty_finish:
  assumes inv: "tty_inv cfg env input f s" and live: "\<not> ts_exited s"
  shows "\<exists>s'. (tty_step cfg env input)\<^sup>*\<^sup>* s s' \<and> ts_exited s' \<and>
    quitting (ts_model s') = quitting (ts_model s) \<and>
    ts_fs s' = fst (snd (validate cfg env input f)) \<and>
    tui_run_result (ts_model s') = answer (fst (validate cfg env input f))"
proof (cases "ts_phase s")
  case (GRun g)
  obtain v f' ws where vf: "vfinal cfg env input g (ts_fs s) = (v, f', ws)"
    by (cases "vfinal cfg env input g (ts_fs s)")
  with inv GRun have v: "v = fst (validate cfg env input f)" and f': "f' = fst (snd (validate cfg env input f))"
    by (simp_all add: tty_inv_def)
  define s1 where "s1 = s\<lparr>ts_phase := GRun (VDone v), ts_fs := f'\<rparr>"
  define s2 where "s2 = s1\<lparr>ts_model := fst (tui_update (ts_model s1) (completion_msg v)), ts_phase := GDelivered\<rparr>"
  define s3 where "s3 = s2\<lparr>ts_exited := True\<rparr>"
  have "(tty_step cfg env input)\<^sup>*\<^sup>* s s1"
    unfolding s1_def using live GRun vf by (intro tty_goroutine_runs) simp_all
  moreover have "tty_step cfg env input s1 s2"
    unfolding s2_def by (rule tty_step.deliver) (simp_all add: s1_def live)
  moreover have "tty_step cfg env input s2 s3"
    unfolding s3_def by (rule tty_step.quit_tick) (simp_all add: s2_def s1_def live)
  ultimately have "(tty_step cfg env input)\<^sup>*\<^sup>* s s3"
    by (meson rtranclp.rtrancl_into_rtrancl)
  moreover have "quitting (ts_model s3) = quitting (ts_model s)"
    by (simp add: s3_def s2_def s1_def completion_msg_def Let_def split: sum.splits option.splits)
  ultimately show ?thesis
    using v f' by (intro exI [of _ s3]) (simp add: s3_def s2_def s1_def completion_result answer_def)
next
  case GDelivered
  have "tty_step cfg env input s (s\<lparr>ts_exited := True\<rparr>)"
    using live GDelivered by (rule tty_step.quit_tick)
  with inv GDelivered show ?thesis
    by (intro exI [of _ "s\<lparr>ts_exited := True\<rparr>"]) (simp add: tty_inv_def)
qed

lemma tty_init_confined: "tty_confined env f (tty_init input names f)"
  by (simp add: tty_confined_def tty_init_def in_tmp_def)

lemma tty_step_confined:
  assumes tools: "\<And>name args g q. q \<noteq> last args \<Longrightarrow> snd (run_tools env name args g) q = g q"
    and step: "tty_step cfg env input s s'" and conf: "tty_confined env f s"
  shows "tty_confined env f s'"
  using step
proof (cases rule: tty_step.cases)
  case (go g g' f' w)
  with conf have "in_tmp (run_os env) g"
    by (simp add: tty_confined_def)
  with vstep_confined [OF tools this go(5)] go conf show ?thesis
    by (simp add: tty_confined_def)
qed (use conf in \<open>simp_all add: tty_confined_def\<close>)

text \<open>The example run: after three steps of the goroutine \<open>a.py\<close> is staged at \<open>/tmp/a.py\<close>.\<close>

lemma py_write_staged_run:
  assumes "case viter demo_cfg (demo_run quiet_tools []) py_write 3 VStart f of
      (g, h) \<Rightarrow> h ''/tmp/a.py'' = Some ''x=1\<newline>''"
  shows "\<exists>s. (tty_step demo_cfg (demo_run quiet_tools []) py_write)\<^sup>*\<^sup>* (tty_init py_write names f) s \<and>
    \<not> ts_exited s \<and> ts_model s = new_model py_write names \<and> ts_fs s ''/tmp/a.py'' = Some ''x=1\<newline>''"
proof -
  obtain g h where vi: "viter demo_cfg (demo_run quiet_tools []) py_write 3 VStart f = (g, h)"
    by (cases "viter demo_cfg (demo_run quiet_tools []) py_write 3 VStart f")
  have "(tty_step demo_cfg (demo_run quiet_tools []) py_write)\<^sup>*\<^sup>* (tty_init py_write names f)
      ((tty_init py_write names f)\<lparr>ts_phase := GRun g, ts_fs := h\<rparr>)"
    using tty_goroutine_steps [of "tty_init py_write names f" VStart demo_cfg "demo_run quiet_tools []" py_write 3]
    by (simp add: tty_init_def vi)
  with assms vi show ?thesis
    by (intro exI [of _ "(tty_init py_write names f)\<lparr>ts_phase := GRun g, ts_fs := h\<rparr>"]) (simp add: tty_init_def)
qed

text \<open>
  Claim C13 (tty_run_matches_validate). In the terminal mode, every run of the program
  that ends without a quit key ends as if the validation had run alone: the file system is
  the one \<open>Validate\<close> leaves, and \<open>ui.Run\<close> answers with its error or its result,
  however the key presses, the spinner ticks and the steps of the goroutine interleave.
\<close>

theorem tty_run_matches_validate:
  assumes "(tty_step cfg env input)\<^sup>*\<^sup>* (tty_init input names f) s"
    and "ts_exited s" and "\<not> quitting (ts_model s)"
  shows "ts_fs s = fst (snd (validate cfg env input f)) \<and>
    tui_run_result (ts_model s) = answer (fst (validate cfg env input f))"
proof -
  from assms(1) have inv: "tty_inv cfg env input f s"
    by (rule tty_reachable_inv)
  with assms(2,3) have "ts_phase s = GDelivered"
    by (simp add: tty_inv_def)
  with inv show ?thesis
    by (simp add: tty_inv_def)
qed

text \<open>
  Claim C17 (tty_can_end_as_validate). Whatever has happened so far, a program that has not
  exited can still end as the validation alone would: its goroutine runs to its end, its
  message is delivered and the delayed quit ends the loop, with \<open>Validate\<close>'s file system
  and answer. None of these steps waits for the user.
\<close>

theorem tty_can_end_as_validate:
  assumes "(tty_step cfg env input)\<^sup>*\<^sup>* (tty_init input names f) s" and "\<not> ts_exited s"
  shows "\<exists>s'. (tty_step cfg env input)\<^sup>*\<^sup>* s s' \<and> ts_exited s' \<and>
    ts_fs s' = fst (snd (validate cfg env input f)) \<and>
    tui_run_result (ts_model s') = answer (fst (validate cfg env input f))"
  using tty_finish [OF tty_reachable_inv [OF assms(1)] assms(2)] by blast

text \<open>
  Claim C14 (tty_confined_to_temp_dir). With tools that write only the file they are given,
  no run of the terminal mode changes a file outside the temporary directory, wherever a
  quit key cuts the validation short: the submitted file and the rest of the project are
  never written, only the names \<open>os.CreateTemp\<close> and the rename produce inside
  \<open>os.TempDir()\<close> are.
\<close>

theorem tty_confined_to_temp_dir:
  assumes tools: "\<And>name args g q. q \<noteq> last args \<Longrightarrow> snd (run_tools env name args g) q = g q"
    and run: "(tty_step cfg env input)\<^sup>*\<^sup>* (tty_init input names f) s"
    and outside: "\<not> has_prefix q (tmp_root (run_os env))"
  shows "ts_fs s q = f q"
proof -
  from run have "tty_confined env f s"
  proof (induction rule: rtranclp_induct)
    case base
    show ?case by (rule tty_init_confined)
  next
    case (step s s')
    then show ?case by (blast intro: tty_step_confined [OF tools])
  qed
  with outside show ?thesis
    by (simp add: tty_confined_def)
qed

theorem tty_run_matches_validate_witness:
  "\<exists>s. (tty_step demo_cfg (demo_run quiet_tools []) py_write)\<^sup>*\<^sup>*
        (tty_init py_write [''ruff'', ''pyright''] Map.empty) s \<and>
     ts_exited s \<and> \<not> quitting (ts_model s) \<and>
     ts_fs s = fst (snd (validate demo_cfg (demo_run quiet_tools []) py_write Map.empty)) \<and>
     tui_run_result (ts_model s) = answer (fst (validate demo_cfg (demo_run quiet_tools []) py_write Map.empty))"
proof -
  let ?s0 = "tty_init py_write [''ruff'', ''pyright''] Map.empty"
  have "\<not> ts_exited ?s0" by (simp add: tty_init_def)
  from tty_finish [OF tty_init_inv this] obtain s where
    r: "(tty_step demo_cfg (demo_run quiet_tools []) py_write)\<^sup>*\<^sup>* ?s0 s" and e: "ts_exited s"
    and q: "quitting (ts_model s) = quitting (ts_model ?s0)"
    by blast
  have q': "\<not> quitting (ts_model s)"
    using q by (simp add: tty_init_def new_model_def)
  from tty_run_matches_validate [OF r e q'] r e q' show ?thesis
    by blast
qed

text \<open>
  Claim C16 (early_quit_leaks_staged_file). A quit key pressed after the goroutine staged
  the file and before it finished ends the program with the staged file still on disk:
  \<open>os.Exit\<close> ends the goroutine before its deferred \<open>os.Remove\<close> runs, and \<open>ui.Run\<close>
  answers with no result and no error, so \<open>run\<close> exits with 0. Run alone, the same
  validation removes the file.
\<close>

theorem early_quit_leaks_staged_file:
  "fst (snd (validate demo_cfg (demo_run quiet_tools []) py_write Map.empty)) ''/tmp/a.py'' = None \<and>
   (\<exists>s. (tty_step demo_cfg (demo_run quiet_tools []) py_write)\<^sup>*\<^sup>*
          (tty_init py_write [''ruff'', ''pyright''] Map.empty) s \<and>
        ts_exited s \<and> ts_fs s ''/tmp/a.py'' = Some ''x=1\<newline>'' \<and> tui_run_result (ts_model s) = Inr None)"
proof -
  let ?step = "tty_step demo_cfg (demo_run quiet_tools []) py_write"
  let ?s0 = "tty_init py_write [''ruff'', ''pyright''] Map.empty"
  have gone: "fst (snd (validate demo_cfg (demo_run quiet_tools []) py_write Map.empty)) ''/tmp/a.py'' = None"
    by code_simp
  have "case viter demo_cfg (demo_run quiet_tools []) py_write 3 VStart Map.empty of
      (g, h) \<Rightarrow> h ''/tmp/a.py'' = Some ''x=1\<newline>''"
    by code_simp
  from py_write_staged_run [where names = "[''ruff'', ''pyright'']", OF this] obtain s1
    where r1: "?step\<^sup>*\<^sup>* ?s0 s1" and live: "\<not> ts_exited s1"
    and m: "ts_model s1 = new_model py_write [''ruff'', ''pyright'']" and staged: "ts_fs s1 ''/tmp/a.py'' = Some ''x=1\<newline>''"
    by blast
  define s2 where "s2 = s1\<lparr>ts_model := fst (tui_update (ts_model s1) (KeyMsg ''q'')),
      ts_exited := (snd (tui_update (ts_model s1) (KeyMsg ''q'')) = CmdQuit)\<rparr>"
  have "?step s1 s2"
    unfolding s2_def using live by (rule tty_step.key)
  with r1 have "?step\<^sup>*\<^sup>* ?s0 s2"
    by (rule rtranclp.rtrancl_into_rtrancl)
  moreover have "ts_exited s2 \<and> ts_fs s2 ''/tmp/a.py'' = Some ''x=1\<newline>'' \<and> tui_run_result (ts_model s2) = Inr None"
    by (simp add: s2_def m staged new_model_def tui_run_result_def)
  ultimately show ?thesis
    using gone by blast
qed

theorem tty_can_end_as_validate_witness:
  "\<exists>s'. (tty_step demo_cfg (demo_run quiet_tools []) py_write)\<^sup>*\<^sup>*
          (tty_init py_write [''ruff'', ''pyright''] Map.empty) s' \<and> ts_exited s' \<and>
     ts_fs s' = fst (snd (validate demo_cfg (demo_run quiet_tools []) py_write Map.empty)) \<and>
     tui_run_result (ts_model s') = answer (fst (validate demo_cfg (demo_run quiet_tools []) py_write Map.empty))"
  using tty_can_end_as_validate [OF rtranclp.rtrancl_refl] by (simp add: tty_init_def)

theorem tty_confined_to_temp_dir_witness:
  "\<exists>s. (tty_step demo_cfg (demo_run quiet_tools []) py_write)\<^sup>*\<^sup>*
        (tty_init py_write [''ruff'', ''pyright''] [''a.py'' \<mapsto> ''x=0'']) s \<and>
     ts_fs s ''/tmp/a.py'' = Some ''x=1\<newline>'' \<and> ts_fs s ''a.py'' = Some ''x=0''"
proof -
  have "case viter demo_cfg (demo_run quiet_tools []) py_write 3 VStart [''a.py'' \<mapsto> ''x=0''] of
      (g, h) \<Rightarrow> h ''/tmp/a.py'' = Some ''x=1\<newline>''"
    by code_simp
  from py_write_staged_run [where names = "[''ruff'', ''pyright'']", OF this] obtain s
    where r: "(tty_step demo_cfg (demo_run quiet_tools []) py_write)\<^sup>*\<^sup>*
      (tty_init py_write [''ruff'', ''pyright''] [''a.py'' \<mapsto> ''x=0'']) s"
    and staged: "ts_fs s ''/tmp/a.py'' = Some ''x=1\<newline>''"
    by blast
  have tools: "\<And>name args g q. q \<noteq> last args \<Longrightarrow> snd (run_tools (demo_run quiet_tools []) name args g) q = g q"
    by (simp add: demo_run_def quiet_tools_def)
  have out: "\<not> has_prefix ''a.py'' (tmp_root (run_os (demo_run quiet_tools [])))"
    by (simp add: tmp_root_def demo_run_def demo_env_def join_path_def has_prefix_def)
  have "ts_fs s ''a.py'' = Some ''x=0''"
    using tty_confined_to_temp_dir [OF tools r out] by simp
  with r staged show ?thesis
    by blast
qed



end
