(* ===== verification/Spec2Isabelle.thy ===== *)
theory Spec2Isabelle
  imports Validator_Spec Tui_View Tty_Run
begin

text \<open>
  \<^bold>\<open>A verification development of qxgo\<close>, the post-tool-use hook under \<open>src/qxgo\<close>.
  The program reads a hook payload describing an \<open>Edit\<close> or a \<open>Write\<close> of a file,
  validates the new content, and reports the findings as JSON on standard output (and as
  plain text on standard error, or in a terminal UI), never blocking the tool call.

  \<^bold>\<open>Parts of the program and their theories.\<close> Each theory models one source file,
  its definitions in the order of the code and named after the Go symbols.
  \<^item> \<open>Prelude\<close>: the shared vocabulary. Paths, the file system as a map
    \<open>fs = path \<rightharpoonup> string\<close>, Go strings as byte lists, and the library functions
    the code calls (\<open>strings.Split\<close> as \<open>split_on\<close>, \<open>strings.Join\<close> as \<open>join\<close>,
    \<open>strings.TrimPrefix/TrimSuffix/TrimSpace\<close>, \<open>filepath.Ext/Base/Join\<close> as
    \<open>go_ext\<close>, \<open>go_base\<close>, \<open>join_path\<close>, \<open>strconv.Itoa\<close> as \<open>dec_nat\<close>/\<open>dec_int\<close>),
    with the list lemmas the components share (the split/join round trip among them).
    \<open>strings.TrimSpace\<close> is modelled as Go writes it, an ASCII fast path falling back to
    \<open>TrimFunc(s, unicode.IsSpace)\<close> on the UTF-8 encodings of the Unicode space runes;
    the two are proved equal, and \<open>TrimFunc\<close> is proved to strip whole space runes
    from both ends and nothing else.
  \<^item> \<open>Config\<close>: \<open>internal/config/config.go\<close>, \<open>Config\<close> and \<open>Load\<close> over an
    environment function.
  \<^item> \<open>Markdown\<close>: \<open>internal/validator/markdown.go\<close>, \<open>CheckMarkdownBold\<close>. Go's
    leftmost-first \<open>FindAllStringIndex\<close> for \<open>**[^*]+**\<close> and \<open>__[^_]+__\<close> is the
    scanning function \<open>find_all\<close>; \<open>leftmost_matches\<close> is its declarative
    semantics, and the two are proved equal. The lemmas show every finding sound
    (a real span at the reported 1-based line and byte column, quoted in the message),
    the findings complete (every bold span overlaps a finding), ordered and bounded.
  \<^item> \<open>Linters\<close>: \<open>internal/validator/linters.go\<close>. The four linters and the formatter
    are constructors of \<open>linter\<close> and \<open>formatter\<close>; \<open>Name\<close>, \<open>Applies\<close>, the arguments
    of \<open>Run\<close>/\<open>Format\<close>, \<open>runCommand\<close>'s classification of how a process ended, and
    the two registries. Running a process is a parameter \<open>tool_env\<close>: given the
    command and its arguments and the file system, it returns the output, how the
    process ended (\<open>Exited\<close>, \<open>Signaled\<close>, \<open>StartFailed\<close>), and the file system after it.
  \<^item> \<open>Staging\<close>: \<open>createTempFile\<close> of \<open>validator.go\<close> over \<open>os.CreateTemp\<close>,
    \<open>os.Rename\<close>, \<open>os.WriteFile\<close> and \<open>os.Remove\<close>. These are modelled from Go's
    standard library on the explicit file system. The record \<open>os_env\<close> carries the
    temporary directory, the random names \<open>CreateTemp\<close> draws, and a fault predicate
    that makes any single call fail. The lemmas show that the staged file holds the
    content, that a failed staging leaves no file behind, and that the staged path
    is the temporary directory joined with the original base name.
  \<^item> \<open>Validator\<close>: \<open>Validate\<close>, the orchestration. \<open>validate\<close> returns the result
    or a \<open>validate_error\<close>, the file system after the pass and the warnings printed.
    \<open>validate_staged\<close> is the pass after staging: the formatters in sequence, the
    linter goroutines, \<open>g.Wait\<close>, the read-back, and the deferred removal.
  \<^item> \<open>Validator_Spec\<close>: what \<open>Validate\<close> promises, as an abstract specification
    \<open>spec_validate\<close> over tools seen as functions of the staged content
    (\<open>content_tool\<close>): findings of the change, the formatters' rewrite, one verdict per
    applicable linter on the rewritten content in registry order. The refinement theorem
    shows \<open>validate\<close> implements it whenever staging succeeds and the linters leave the
    file alone; staging, clean-up and the goroutine order are then invisible. The theory
    also proves every reported outcome well typed.
  \<^item> \<open>Hook\<close>: \<open>internal/hook/hook.go\<close>, the payload records, \<open>ParseHookData\<close> (with the
    read and the JSON decoder as parameters) and the accessors; \<open>input_of_hook\<close> is the
    \<open>ValidationInput\<close> literal of \<open>main.go\<close>.
  \<^item> \<open>Response\<close>: \<open>internal/hook/response.go\<close>, \<open>BuildJSONResponse\<close>. The
    context lines are \<open>context_parts\<close>; the response record is the
    \<open>HookSpecificOutput\<close> before marshalling.
  \<^item> \<open>SimpleUI\<close>: \<open>internal/ui/simple.go\<close>, \<open>DisplayResult\<close> as the text it
    writes. It is proved to be the JSON response's context followed by a newline.
  \<^item> \<open>Tui\<close>: \<open>internal/ui/tui.go\<close>. The bubbletea \<open>Model\<close> is a record,
    \<open>Update\<close> is \<open>tui_update\<close>, and the program loop is the inductive step relation
    \<open>tui_step\<close>, with \<open>tui_reachable\<close> the models reachable from \<open>NewModel\<close>. A
    status invariant is proved by rule induction.
  \<^item> \<open>Tui_View\<close>: \<open>styles.go\<close> (colours, styles as records of the attributes they
    set, icons) and \<open>View\<close>/\<open>renderLinterStatus\<close> of \<open>tui.go\<close> as the text they
    build, with lipgloss's \<open>Render\<close> and the spinner's frame as parameters. The lemmas
    show the view's symbols double-encoded (UTF-8 read as Windows-1252), the spinner
    never drawn in a reachable model, and a failed linter's output cut to six lines.
  \<^item> \<open>Cli\<close>: \<open>run()\<close> of \<open>main.go\<close> as \<open>cli_run\<close>, from the decoded payload, the
    environment, whether standard output is a terminal and the run environment to the
    exit code, the JSON response, the text on standard error, the warnings and the file
    system; \<open>cli_main\<close> is \<open>main\<close>, \<open>run\<close> after \<open>ParseHookData\<close>. In the
    terminal mode \<open>cli_run\<close> follows only the run in which the completion message comes
    before any quit key, so its claims are stated for the hook mode; the terminal mode's
    file system and exit code over every interleaving are those of \<open>Tty_Run\<close>.
  \<^item> \<open>Validate_Steps\<close>: \<open>Validate\<close> taken apart into the atomic steps of the goroutine
    that runs it. The program points are \<open>vstate\<close> and one step is \<open>vstep\<close>: a system call
    of \<open>createTempFile\<close>, one formatter, one linter goroutine, the read-back, or a removal.
    \<open>vfinal\<close> runs the steps to the end; its termination is proved with a rank of the
    program point, and it is proved equal to \<open>validate\<close>. Every step changes the file
    system only inside the temporary directory when the tools write only the file they
    are given.
  \<^item> \<open>Tty_Run\<close>: the terminal mode as a concurrent program. \<open>tty_step\<close> interleaves the
    steps of the validation goroutine with key presses, spinner ticks, the delivery of the
    completion message and the delayed quit; \<open>os.Exit\<close> ends the goroutine where it
    stands. The lemmas show:
    \<^item> every run without a quit key ends as \<open>validate\<close> alone (and so as \<open>cli_run\<close>
      says);
    \<^item> every state that has not exited can still end so, without user input;
    \<^item> no run changes a file outside the temporary directory;
    \<^item> a quit key pressed once the file is staged leaves it behind;
    \<^item> \<open>run\<close> exits with 1 only when \<open>Validate\<close> failed, and, without a quit key,
      exactly then (\<open>tty_exit\<close> is \<open>run\<close>'s exit code after \<open>ui.Run\<close>).
  \<^item> This theory: two end-to-end properties of the hook mode. \<open>run\<close> prints the JSON
    response and the plain report of the abstract specification's result, composing the
    refinement of \<open>Validator_Spec\<close> with \<open>BuildJSONResponse\<close> and \<open>DisplayResult\<close>;
    and \<open>run\<close> changes no file outside the temporary directory, composing the
    confinement of \<open>Validate_Steps\<close> with \<open>vfinal\<close>'s equality to \<open>validate\<close>.

  \<^bold>\<open>Concurrency.\<close> The linters run in goroutines of an \<open>errgroup\<close> on the one staged
  file. The model runs each goroutine as one atomic step (read the file, run the tool,
  let it write) in the order \<open>schedule_order\<close> makes of the run environment's
  \<open>schedule\<close>; every permutation of the goroutines is such an order. Atomic steps are
  enough for what is claimed: each goroutine writes only its own slot of the results
  slice, and the only shared state is the staged file. Two facts follow. With tools
  that leave the file alone, the outcome does not depend on the order. With
  \<open>ruff check --fix\<close>, it does.

  \<^bold>\<open>Bounds and fuel.\<close> \<open>os.CreateTemp\<close> retries on a name collision 10000 times,
  as Go does; the model has the same bound, so the fuel is the code's own. All other
  loops are structural recursion, or \<open>find_all\<close>, whose termination is proved with a
  measure (each step consumes at least one byte), or \<open>vfinal\<close>, the goroutine run to its
  end, which takes at most seven steps plus one per formatter and per linter. The
  deadline of 30 seconds is not a clock. A tool killed by it is an outcome
  \<open>Signaled\<close>, which \<open>runCommand\<close> classifies with exit code -1.

  \<^bold>\<open>Not modelled.\<close>
  \<^item> Go versions before 1.22: the loop variables of \<open>for i, linter := range linters\<close>
    in \<open>Validate\<close> and \<open>for i, lr := range\<close> in \<open>Update\<close> are taken to be per
    iteration, as in Go 1.22 and later (the repository has no \<open>go.mod\<close> under
    \<open>src/\<close> that would fix the version). With a shared loop variable the goroutines could
    all write the last slot and every status would point at the last result.
  \<^item> Reading standard input, JSON decoding of the payload and JSON marshalling of the
    response (library code): \<open>ParseHookData\<close> takes the read's outcome and the decoder as
    parameters, and \<open>cli_run\<close> returns the response record.
  \<^item> lipgloss's \<open>Style.Render\<close> (ANSI escapes, borders, padding): a parameter of the
    view, so the view's claims hold for every renderer.
  \<^item> The spinner's own state (\<open>spinner.Model\<close> and its \<open>Update\<close> on a tick): its
    frame is a parameter of the view.
  \<^item> The text of \<open>Validate\<close>'s errors, which wraps the \<open>os\<close> package's error texts:
    \<open>run\<close>'s message after a failed validation is not modelled, its exit code is.
  \<^item> Interleavings finer than one system call or one tool run: in \<open>Tty_Run\<close> each step of
    \<open>vstep\<close> is atomic, so a quit inside a tool run is covered as a quit just before or
    after it. The 500 ms delay of the quit after completion is not a clock: the delayed
    quit is a step that may come at any point after the delivery.
\<close>

text \<open>
  Claim C12 (hook_report_refines_spec). End to end, in hook mode: for a \<open>Write\<close> whose
  file is staged, with tools that act on the staged content only and read-only linters,
  \<open>run\<close> exits with 0 and prints the JSON response built from the abstract
  specification's result, and the plain report of that same result.
\<close>

theorem hook_report_refines_spec:
  assumes tools: "run_tools env = content_tools ct"
    and ext: "ext_of (input_of_hook h) \<noteq> []"
    and wr: "\<not> hook_is_edit_operation h" "content (tool_input h) \<noteq> []"
    and staged: "fst (create_temp_file (run_os env) f (tool_file_path (tool_input h)) (content (tool_input h))) = Inr tmp"
    and ro: "read_only_linters (load getenv) (run_dir env) ct tmp (get_applicable_linters (ext_of (input_of_hook h)))"
    and rd: "\<not> fails (run_os env) OpRead tmp"
  shows "exit_code (cli_run (Inr h) getenv False env f) = 0 \<and>
    stdout_json (cli_run (Inr h) getenv False env f) =
      Some (build_json_response (spec_validate (load getenv) (run_dir env) ct tmp (input_of_hook h))) \<and>
    stderr_report (cli_run (Inr h) getenv False env f) =
      display_result (spec_validate (load getenv) (run_dir env) ct tmp (input_of_hook h))"
proof -
  let ?input = "input_of_hook h"
  have input: "\<not> is_edit_operation ?input" "full_content ?input \<noteq> []"
    "file_path ?input = tool_file_path (tool_input h)" "full_content ?input = content (tool_input h)"
    using wr by (simp_all add: input_of_hook_def get_full_content_def hook_is_edit_operation_def)
  have path: "tool_file_path (tool_input h) \<noteq> []"
    using ext_of_path [OF ext] by (simp add: input_of_hook_def)
  have v: "fst (validate (load getenv) env ?input f) = Inr (spec_validate (load getenv) (run_dir env) ct tmp ?input)"
    using tools ext input(1,2) staged [folded input(3,4)] ro rd by (rule validate_spec_eq)
  obtain f' ws where vd: "validate (load getenv) env ?input f =
      (Inr (spec_validate (load getenv) (run_dir env) ct tmp ?input), f', ws)"
    using v by (cases "validate (load getenv) env ?input f") auto
  show ?thesis
    using path vd by (simp add: cli_run_hook Let_def exit_success_def)
qed

theorem hook_report_refines_spec_witness:
  "exit_code (cli_run (Inr write_hook) (\<lambda>_. []) False (demo_run (content_tools fmt_ct) []) Map.empty) = 0 \<and>
   stdout_json (cli_run (Inr write_hook) (\<lambda>_. []) False (demo_run (content_tools fmt_ct) []) Map.empty) =
     Some (build_json_response (spec_validate demo_cfg (\<lambda>p. p) fmt_ct ''/tmp/a.py'' (input_of_hook write_hook))) \<and>
   stderr_report (cli_run (Inr write_hook) (\<lambda>_. []) False (demo_run (content_tools fmt_ct) []) Map.empty) =
     display_result (spec_validate demo_cfg (\<lambda>p. p) fmt_ct ''/tmp/a.py'' (input_of_hook write_hook))"
proof -
  have i: "input_of_hook write_hook = py_write"
    by (simp add: input_of_hook_def write_hook_def py_write_def get_validation_content_def
        get_full_content_def hook_is_edit_operation_def)
  have tools: "run_tools (demo_run (content_tools fmt_ct) []) = content_tools fmt_ct"
    by (simp add: demo_run_def)
  have ext: "ext_of (input_of_hook write_hook) \<noteq> []"
    by (simp add: i py_write_def go_ext_def trim_prefix_def has_prefix_def)
  have wr: "\<not> hook_is_edit_operation write_hook" "content (tool_input write_hook) \<noteq> []"
    by (simp_all add: write_hook_def hook_is_edit_operation_def)
  have staged: "fst (create_temp_file (run_os (demo_run (content_tools fmt_ct) [])) Map.empty
      (tool_file_path (tool_input write_hook)) (content (tool_input write_hook))) = Inr ''/tmp/a.py''"
    by code_simp
  have ro: "read_only_linters (load (\<lambda>_. [])) (run_dir (demo_run (content_tools fmt_ct) [])) fmt_ct ''/tmp/a.py''
      (get_applicable_linters (ext_of (input_of_hook write_hook)))"
    by (simp add: i read_only_linters_def fmt_ct_def py_write_def go_ext_def trim_prefix_def has_prefix_def
        get_applicable_linters_def all_linters_def)
  have rd: "\<not> fails (run_os (demo_run (content_tools fmt_ct) [])) OpRead ''/tmp/a.py''"
    by (simp add: demo_run_def demo_env_def)
  from hook_report_refines_spec [OF tools ext wr staged ro rd]
  show ?thesis
    by (simp add: demo_run_def demo_cfg_def)
qed

text \<open>Whatever \<open>run\<close> does, its file system is the one \<open>Validate\<close> left, or the one it started with.\<close>

lemma cli_run_fs:
  "cli_fs (cli_run parsed getenv tty env f) =
     (case parsed of
        Inl _ \<Rightarrow> f
      | Inr h \<Rightarrow> if tool_file_path (tool_input h) = [] then f
                 else fst (snd (validate (load getenv) env (input_of_hook h) f)))"
  by (auto simp: cli_run_def Let_def split: sum.splits prod.splits if_splits)

text \<open>
  Claim C15 (hook_confined_to_temp_dir). In the hook mode, with tools that write only the file
  they are given, \<open>run\<close> changes no file outside the temporary directory, on every path:
  a payload that does not decode, no file, an \<open>Edit\<close>, a staging failure, or a full pass.
  The submitted file and the rest of the project are never written.
\<close>

theorem hook_confined_to_temp_dir:
  assumes tools: "\<And>name args g q. q \<noteq> last args \<Longrightarrow> snd (run_tools env name args g) q = g q"
    and hook: "\<not> tty"
    and outside: "\<not> has_prefix q (tmp_root (run_os env))"
  shows "cli_fs (cli_run parsed getenv tty env f) q = f q"
  using validate_confined [OF tools outside] by (simp add: cli_run_fs split: sum.splits)

theorem hook_confined_to_temp_dir_witness:
  "cli_fs (cli_run (Inr write_hook) (\<lambda>_. []) False (demo_run quiet_tools []) [''a.py'' \<mapsto> ''x=0'']) ''a.py'' =
     Some ''x=0''"
proof -
  have tools: "\<And>name args g q. q \<noteq> last args \<Longrightarrow> snd (run_tools (demo_run quiet_tools []) name args g) q = g q"
    by (simp add: demo_run_def quiet_tools_def)
  have out: "\<not> has_prefix ''a.py'' (tmp_root (run_os (demo_run quiet_tools [])))"
    by (simp add: tmp_root_def demo_run_def demo_env_def join_path_def has_prefix_def)
  show ?thesis
    using hook_confined_to_temp_dir [OF tools _ out, of False "Inr write_hook" "\<lambda>_. []" "[''a.py'' \<mapsto> ''x=0'']"]
    by simp
qed

end
